theory Spec2Isabelle
  imports Complex_Main "HOL-Library.Word"
begin

section \<open>Scope and conventions\<close>

text \<open>
  A shallow embedding of the controller manager of ros2\_control and of the interface
  handles it hands to controllers, covering
  \<^item> \<^verbatim>\<open>hardware_interface/handle.hpp\<close>: \<^verbatim>\<open>Handle::get_optional\<close>, \<^verbatim>\<open>Handle::set_value\<close>;
  \<^item> \<^verbatim>\<open>hardware_interface/loaned_state_interface.hpp\<close>: \<^verbatim>\<open>LoanedStateInterface::get_optional\<close>;
  \<^item> \<^verbatim>\<open>controller_manager/src/controller_manager.cpp\<close>: \<^verbatim>\<open>evaluate_switch_result\<close>,
    \<^verbatim>\<open>clear_requests\<close>, \<^verbatim>\<open>switch_controller_cb\<close> with the checks it calls,
    \<^verbatim>\<open>deactivate_controllers\<close>, \<^verbatim>\<open>switch_chained_mode\<close>, \<^verbatim>\<open>activate_controllers\<close>,
    \<^verbatim>\<open>manage_switch\<close>, \<^verbatim>\<open>update\<close>, \<^verbatim>\<open>load_controller\<close> and \<^verbatim>\<open>add_controller_impl\<close>.

  Conventions.
  \<^item> A C++ exception is a value: functions that can throw return \<open>exception + 'a\<close>.
  \<^item> Mutation is explicit state passing; the manager is the record \<open>ControllerManager\<close>.
  \<^item> The outcome of a non-blocking lock attempt, the clock, the results of user callbacks
    and the moment at which the realtime loop serves a switch request are inputs of the
    model: the code does not determine them.
  \<^item> Log output and the text of the \<^verbatim>\<open>message\<close> out-parameter are not modelled.
  \<^item> A \<^verbatim>\<open>double\<close> held by an interface handle is a real number. The arithmetic of
    \<^verbatim>\<open>update\<close> on the period of a controller is double-precision arithmetic with its
    rounding.
\<close>

datatype exception = RuntimeError | BadVariantAccess | InvalidParameterType | UnknownException
  | StackExhausted | DivisionByZero

section \<open>Interface handle (handle.hpp)\<close>

text \<open>\<^verbatim>\<open>using HANDLE_DATATYPE = std::variant<std::monostate, double, bool>\<close>\<close>

datatype HANDLE_DATATYPE = V_monostate | V_double real | V_bool bool

text \<open>
  \<^verbatim>\<open>HandleDataType\<close> is declared in \<^verbatim>\<open>hardware_info.hpp\<close>; the handle uses its values
  \<^verbatim>\<open>DOUBLE\<close> and \<^verbatim>\<open>BOOL\<close> and treats every other value as unsupported.
\<close>

datatype HandleDataType = UNKNOWN | DOUBLE | BOOL

text \<open>
  \<^verbatim>\<open>double * value_ptr_\<close> is null, or points at the double held by the handle's own
  \<^verbatim>\<open>value_\<close> (\<^verbatim>\<open>std::get_if<double>(&value_)\<close>), or points at a double owned by a hardware
  component (the deprecated constructor taking \<^verbatim>\<open>double * value_ptr\<close>). Doubles owned by
  hardware components live in a store indexed by address.
\<close>

datatype double_ptr = Nullptr | OwnValue | External nat

type_synonym memory = "nat \<Rightarrow> real"

record Handle =
  prefix_name :: string
  interface_name :: string
  handle_name :: string
  handle_value :: HANDLE_DATATYPE
  data_type :: HandleDataType
  value_ptr :: double_ptr

text \<open>
  Reading \<^verbatim>\<open>*value_ptr_\<close> after \<^verbatim>\<open>THROW_ON_NULLPTR(value_ptr_)\<close>: \<open>None\<close> stands for the
  null pointer. \<^verbatim>\<open>std::get_if<double>\<close> yields null when the variant does not hold a
  double, so a pointer to the own value exists only while \<^verbatim>\<open>value_\<close> holds a double.
\<close>

fun deref :: "Handle \<Rightarrow> memory \<Rightarrow> real option" where
  "deref h mem =
     (case value_ptr h of
        Nullptr \<Rightarrow> None
      | OwnValue \<Rightarrow> (case handle_value h of V_double d \<Rightarrow> Some d | _ \<Rightarrow> None)
      | External a \<Rightarrow> Some (mem a))"

text \<open>
  \<^verbatim>\<open>std::optional<double> get_optional<double>(std::shared_lock<std::shared_mutex> & lock)\<close>.
  The first argument is \<^verbatim>\<open>lock.owns_lock()\<close>, the outcome of the \<^verbatim>\<open>std::try_to_lock\<close>
  attempt made by the caller \<^verbatim>\<open>get_optional<double>()\<close>.
\<close>

definition Handle_get_optional_double :: "bool \<Rightarrow> Handle \<Rightarrow> memory \<Rightarrow> exception + real option" where
  "Handle_get_optional_double owns_lock h mem =
     (if \<not> owns_lock then Inr None
      else case data_type h of
        DOUBLE \<Rightarrow> (case deref h mem of None \<Rightarrow> Inl RuntimeError | Some d \<Rightarrow> Inr (Some d))
      | BOOL \<Rightarrow> (case handle_value h of
                   V_bool b \<Rightarrow> Inr (Some (if b then 1 else 0))
                 | _ \<Rightarrow> Inl BadVariantAccess)
      | UNKNOWN \<Rightarrow> Inl RuntimeError)"

text \<open>\<^verbatim>\<open>get_optional<bool>\<close>: \<^verbatim>\<open>std::get<bool>(value_)\<close>, a bad variant access rethrown as a runtime error.\<close>

definition Handle_get_optional_bool :: "bool \<Rightarrow> Handle \<Rightarrow> exception + bool option" where
  "Handle_get_optional_bool owns_lock h =
     (if \<not> owns_lock then Inr None
      else case handle_value h of V_bool b \<Rightarrow> Inr (Some b) | _ \<Rightarrow> Inl RuntimeError)"

text \<open>
  \<^verbatim>\<open>bool set_value<double>(std::unique_lock<std::shared_mutex> & lock, const double & value)\<close>:
  writes through \<^verbatim>\<open>value_ptr_\<close>. The result is the returned flag, the handle and the store.
\<close>

definition Handle_set_value_double ::
  "bool \<Rightarrow> real \<Rightarrow> Handle \<Rightarrow> memory \<Rightarrow> exception + (bool \<times> Handle \<times> memory)" where
  "Handle_set_value_double owns_lock v h mem =
     (if \<not> owns_lock then Inr (False, h, mem)
      else case value_ptr h of
        Nullptr \<Rightarrow> Inl RuntimeError
      | OwnValue \<Rightarrow> (case handle_value h of
                       V_double _ \<Rightarrow> Inr (True, h\<lparr>handle_value := V_double v\<rparr>, mem)
                     | _ \<Rightarrow> Inl RuntimeError)
      | External a \<Rightarrow> Inr (True, h, mem(a := v)))"

text \<open>\<^verbatim>\<open>set_value<bool>\<close>: requires \<^verbatim>\<open>std::holds_alternative<bool>(value_)\<close>.\<close>

definition Handle_set_value_bool :: "bool \<Rightarrow> bool \<Rightarrow> Handle \<Rightarrow> exception + (bool \<times> Handle)" where
  "Handle_set_value_bool owns_lock v h =
     (if \<not> owns_lock then Inr (False, h)
      else case handle_value h of
        V_bool _ \<Rightarrow> Inr (True, h\<lparr>handle_value := V_bool v\<rparr>)
      | _ \<Rightarrow> Inl RuntimeError)"

section \<open>Loaned state interface (loaned\_state\_interface.hpp)\<close>

text \<open>\<^verbatim>\<open>struct HandleRTStatistics\<close>: three \<^verbatim>\<open>unsigned int\<close> counters, which wrap around.\<close>

record HandleRTStatistics =
  total_counter :: "32 word"
  failed_counter :: "32 word"
  timeout_counter :: "32 word"

text \<open>The number of iterations the retry loop has left; it decreases with every retry.\<close>

definition tries_left :: "32 word \<Rightarrow> 32 word \<Rightarrow> nat" where
  "tries_left max_tries nr_tries =
     (if nr_tries = - 1 then Suc (unat max_tries) else unat max_tries - unat nr_tries)"

text \<open>
  The \<^verbatim>\<open>do { ... } while (nr_tries < max_tries)\<close> loop of
  \<^verbatim>\<open>LoanedStateInterface::get_optional\<close>, entered with the current \<^verbatim>\<open>nr_tries\<close>.
  \<open>rd i\<close> is what \<^verbatim>\<open>state_interface_.get_optional<T>()\<close> yields at the attempt made with
  \<^verbatim>\<open>nr_tries = i\<close>: an exception, no value (the lock was not acquired) or a value.
  An exception leaves the function from inside the loop.
\<close>

function get_optional_loop ::
  "(nat \<Rightarrow> exception + 'a option) \<Rightarrow> 32 word \<Rightarrow> 32 word \<Rightarrow> HandleRTStatistics
     \<Rightarrow> (exception + 'a option) \<times> HandleRTStatistics" where
  "get_optional_loop rd max_tries nr_tries stats =
     (let stats1 = stats\<lparr>total_counter := total_counter stats + 1\<rparr> in
      case rd (unat nr_tries) of
        Inl e \<Rightarrow> (Inl e, stats1)
      | Inr (Some v) \<Rightarrow> (Inr (Some v), stats1)
      | Inr None \<Rightarrow>
          (let stats2 = stats1\<lparr>failed_counter := failed_counter stats1 + 1\<rparr>;
               nr_tries' = nr_tries + 1
           in if nr_tries' < max_tries
              then get_optional_loop rd max_tries nr_tries' stats2
              else (Inr None, stats2\<lparr>timeout_counter := timeout_counter stats2 + 1\<rparr>)))"
  by pat_completeness auto
termination
proof (relation "measure (\<lambda>(rd, max_tries, nr_tries, stats). tries_left max_tries nr_tries)")
  fix rd :: "nat \<Rightarrow> exception + 'a option" and max_tries nr_tries nr_tries' :: "32 word"
    and stats stats1 stats2 :: HandleRTStatistics and b :: "'a option"
  assume next_try: "nr_tries' = nr_tries + 1" and again: "nr_tries' < max_tries"
  have "tries_left max_tries (nr_tries + 1) < tries_left max_tries nr_tries"
  proof (cases "nr_tries = - 1")
    case True
    then show ?thesis by (simp add: tries_left_def)
  next
    case False
    then have "1 + nr_tries \<noteq> 0"
      by (metis add_eq_0_iff)
    then have suc: "unat (nr_tries + 1) = Suc (unat nr_tries)"
      using unatSuc [of nr_tries] by (simp add: add.commute)
    have lt: "unat (nr_tries + 1) < unat max_tries"
      using next_try again by (simp add: word_less_nat_alt)
    have "nr_tries + 1 \<noteq> - 1"
      using next_try again by (metis word_n1_ge not_le)
    then show ?thesis
      using False suc lt by (simp add: tries_left_def)
  qed
  then show "((rd, max_tries, nr_tries', stats2), rd, max_tries, nr_tries, stats)
      \<in> measure (\<lambda>(rd, max_tries, nr_tries, stats). tries_left max_tries nr_tries)"
    using next_try by simp
qed simp

declare get_optional_loop.simps [simp del]

text \<open>\<^verbatim>\<open>std::optional<T> get_optional(unsigned int max_tries = 10) const\<close>\<close>

definition LoanedStateInterface_get_optional ::
  "(nat \<Rightarrow> exception + 'a option) \<Rightarrow> 32 word \<Rightarrow> HandleRTStatistics
     \<Rightarrow> (exception + 'a option) \<times> HandleRTStatistics" where
  "LoanedStateInterface_get_optional rd max_tries stats = get_optional_loop rd max_tries 0 stats"

text \<open>The default argument \<^verbatim>\<open>max_tries = 10\<close>.\<close>

definition default_max_tries :: "32 word" where
  "default_max_tries = 10"

section \<open>Controller manager: data model\<close>

text \<open>\<^verbatim>\<open>controller_interface::return_type\<close>\<close>

datatype return_type = OK | ERROR

text \<open>The primary states of \<^verbatim>\<open>lifecycle_msgs::msg::State\<close> that the manager compares against.\<close>

datatype lifecycle_state =
    PRIMARY_STATE_UNKNOWN
  | PRIMARY_STATE_UNCONFIGURED
  | PRIMARY_STATE_INACTIVE
  | PRIMARY_STATE_ACTIVE
  | PRIMARY_STATE_FINALIZED

text \<open>\<^verbatim>\<open>CallbackReturn\<close> of a lifecycle callback (\<^verbatim>\<open>SUCCESS\<close>, \<^verbatim>\<open>FAILURE\<close>, \<^verbatim>\<open>ERROR\<close>).\<close>

datatype CallbackReturn = SUCCESS | FAILURE | CALLBACK_ERROR

text \<open>\<^verbatim>\<open>controller_interface::interface_configuration_type\<close> and \<^verbatim>\<open>InterfaceConfiguration\<close>\<close>

text \<open>The enumerator \<^verbatim>\<open>ALL\<close> is written \<open>ALL_INTERFACES\<close>.\<close>

datatype interface_configuration_type = ALL_INTERFACES | INDIVIDUAL | NONE

record InterfaceConfiguration =
  config_type :: interface_configuration_type
  names :: "string list"

text \<open>
  The controller object behind \<^verbatim>\<open>ControllerSpec::c\<close>
  (\<^verbatim>\<open>controller_interface::ControllerInterfaceBase\<close>). The first seven fields are what its
  accessors return; \<open>command_interfaces\<close> and \<open>state_interfaces\<close> are the names of the
  interfaces loaned to it. The last four fields are the behaviour of the user-written
  controller: what its lifecycle callbacks return or throw, and whether it accepts a change
  of chained mode.
\<close>

record ControllerInterfaceBase =
  lifecycle :: lifecycle_state
  update_rate :: nat
  is_async :: bool
  is_chainable :: bool
  is_in_chained_mode :: bool
  command_interface_configuration :: InterfaceConfiguration
  state_interface_configuration :: InterfaceConfiguration
  command_interfaces :: "string list"
  state_interfaces :: "string list"
  on_activate :: "exception + CallbackReturn"
  on_deactivate :: "exception + CallbackReturn"
  on_error :: CallbackReturn
  on_set_chained_mode :: bool

text \<open>\<^verbatim>\<open>struct ControllerInfo\<close> and \<^verbatim>\<open>struct ControllerSpec\<close> (time stamps in nanoseconds).\<close>

record ControllerInfo =
  name :: string
  controller_type :: string
  claimed_interfaces :: "string list"
  fallback_controllers_names :: "string list"
  parameters_files :: "string list"
  node_options_args :: "string list"

record ControllerSpec =
  cobj :: ControllerInterfaceBase
  info :: ControllerInfo
  last_update_cycle_time :: int

text \<open>
  Modelled from the spec: the lifecycle node of a controller (rclcpp\_lifecycle) is not
  under src/. Section 4.4 of the specification gives its transitions: \<^verbatim>\<open>activate\<close> leads
  from INACTIVE to ACTIVE and \<^verbatim>\<open>deactivate\<close> from ACTIVE to INACTIVE when the user callback
  returns SUCCESS; FAILURE leaves the prior state in place; ERROR routes through the error
  hook, which ends in UNCONFIGURED or FINALIZED. A transition requested in a state that does
  not offer it changes nothing. A throwing transition leaves the state as it was.
\<close>

definition error_processing :: "ControllerInterfaceBase \<Rightarrow> lifecycle_state" where
  "error_processing ctrl =
     (if on_error ctrl = SUCCESS then PRIMARY_STATE_UNCONFIGURED else PRIMARY_STATE_FINALIZED)"

definition node_activate :: "ControllerInterfaceBase \<Rightarrow> exception + ControllerInterfaceBase" where
  "node_activate ctrl =
     (if lifecycle ctrl \<noteq> PRIMARY_STATE_INACTIVE then Inr ctrl
      else case on_activate ctrl of
        Inl e \<Rightarrow> Inl e
      | Inr SUCCESS \<Rightarrow> Inr (ctrl\<lparr>lifecycle := PRIMARY_STATE_ACTIVE\<rparr>)
      | Inr FAILURE \<Rightarrow> Inr ctrl
      | Inr CALLBACK_ERROR \<Rightarrow> Inr (ctrl\<lparr>lifecycle := error_processing ctrl\<rparr>))"

definition node_deactivate :: "ControllerInterfaceBase \<Rightarrow> exception + ControllerInterfaceBase" where
  "node_deactivate ctrl =
     (if lifecycle ctrl \<noteq> PRIMARY_STATE_ACTIVE then Inr ctrl
      else case on_deactivate ctrl of
        Inl e \<Rightarrow> Inl e
      | Inr SUCCESS \<Rightarrow> Inr (ctrl\<lparr>lifecycle := PRIMARY_STATE_INACTIVE\<rparr>)
      | Inr FAILURE \<Rightarrow> Inr ctrl
      | Inr CALLBACK_ERROR \<Rightarrow> Inr (ctrl\<lparr>lifecycle := error_processing ctrl\<rparr>))"

text \<open>
  Modelled from the spec: \<^verbatim>\<open>set_chained_mode\<close> is implemented in the chainable and the
  plain controller interface, which are not under src/. A controller enters or leaves
  chained mode when it accepts the request; the result tells whether it did.
\<close>

definition set_chained_mode :: "bool \<Rightarrow> ControllerInterfaceBase \<Rightarrow> bool \<times> ControllerInterfaceBase" where
  "set_chained_mode chained_mode ctrl =
     (if on_set_chained_mode ctrl then (True, ctrl\<lparr>is_in_chained_mode := chained_mode\<rparr>)
      else (False, ctrl))"

subsection \<open>Resource manager (boundary only)\<close>

text \<open>
  Modelled from the spec: the resource manager is an external collaborator, not under
  src/; section 2 of the specification gives its boundary: enumerate, claim and release
  interfaces, prepare and perform the hardware command-mode switch, query availability.
  Its state here is the list of available command and state interfaces, the claimed
  command interfaces, the interfaces each chainable controller exports, the verdicts of
  the hardware on a mode switch, and the controller-to-hardware cache.
\<close>

record ResourceManager =
  available_command_interfaces :: "string list"
  available_state_interfaces :: "string list"
  claimed_command_interfaces :: "string list"
  controller_reference_interface_names :: "string \<Rightarrow> string list"
  controller_exported_state_interface_names :: "string \<Rightarrow> string list"
  prepare_command_mode_switch :: "string list \<Rightarrow> string list \<Rightarrow> bool"
  perform_command_mode_switch :: "string list \<Rightarrow> string list \<Rightarrow> bool"
  cached_controllers_to_hardware :: "(string \<times> string list) list"

definition command_interface_is_available :: "ResourceManager \<Rightarrow> string \<Rightarrow> bool" where
  "command_interface_is_available rm itf = (itf \<in> set (available_command_interfaces rm))"

definition state_interface_is_available :: "ResourceManager \<Rightarrow> string \<Rightarrow> bool" where
  "state_interface_is_available rm itf = (itf \<in> set (available_state_interfaces rm))"

definition command_interface_is_claimed :: "ResourceManager \<Rightarrow> string \<Rightarrow> bool" where
  "command_interface_is_claimed rm itf = (itf \<in> set (claimed_command_interfaces rm))"

definition make_available :: "string list \<Rightarrow> string list \<Rightarrow> string list" where
  "make_available itfs available = available @ filter (\<lambda>i. i \<notin> set available) (remdups itfs)"

definition make_unavailable :: "string list \<Rightarrow> string list \<Rightarrow> string list" where
  "make_unavailable itfs available = filter (\<lambda>i. i \<notin> set itfs) available"

definition make_controller_reference_interfaces_available ::
  "string \<Rightarrow> ResourceManager \<Rightarrow> ResourceManager" where
  "make_controller_reference_interfaces_available controller_name rm =
     rm\<lparr>available_command_interfaces :=
          make_available (controller_reference_interface_names rm controller_name)
            (available_command_interfaces rm)\<rparr>"

definition make_controller_reference_interfaces_unavailable ::
  "string \<Rightarrow> ResourceManager \<Rightarrow> ResourceManager" where
  "make_controller_reference_interfaces_unavailable controller_name rm =
     rm\<lparr>available_command_interfaces :=
          make_unavailable (controller_reference_interface_names rm controller_name)
            (available_command_interfaces rm)\<rparr>"

definition make_controller_exported_state_interfaces_available ::
  "string \<Rightarrow> ResourceManager \<Rightarrow> ResourceManager" where
  "make_controller_exported_state_interfaces_available controller_name rm =
     rm\<lparr>available_state_interfaces :=
          make_available (controller_exported_state_interface_names rm controller_name)
            (available_state_interfaces rm)\<rparr>"

definition make_controller_exported_state_interfaces_unavailable ::
  "string \<Rightarrow> ResourceManager \<Rightarrow> ResourceManager" where
  "make_controller_exported_state_interfaces_unavailable controller_name rm =
     rm\<lparr>available_state_interfaces :=
          make_unavailable (controller_exported_state_interface_names rm controller_name)
            (available_state_interfaces rm)\<rparr>"

text \<open>Claiming throws when the interface is not available or is already claimed.\<close>

definition claim_command_interface :: "ResourceManager \<Rightarrow> string \<Rightarrow> exception + ResourceManager" where
  "claim_command_interface rm itf =
     (if \<not> command_interface_is_available rm itf then Inl RuntimeError
      else if command_interface_is_claimed rm itf then Inl RuntimeError
      else Inr (rm\<lparr>claimed_command_interfaces := claimed_command_interfaces rm @ [itf]\<rparr>))"

definition claim_state_interface :: "ResourceManager \<Rightarrow> string \<Rightarrow> exception + unit" where
  "claim_state_interface rm itf =
     (if \<not> state_interface_is_available rm itf then Inl RuntimeError else Inr ())"

definition cache_controller_to_hardware ::
  "string \<Rightarrow> string list \<Rightarrow> ResourceManager \<Rightarrow> ResourceManager" where
  "cache_controller_to_hardware controller_name interfaces rm =
     rm\<lparr>cached_controllers_to_hardware :=
          cached_controllers_to_hardware rm @ [(controller_name, interfaces)]\<rparr>"

subsection \<open>The manager\<close>

text \<open>
  \<^verbatim>\<open>SwitchParams\<close> (timeout in nanoseconds) and the realtime buffer \<^verbatim>\<open>rt_buffer_\<close> are
  declared in \<^verbatim>\<open>controller_manager.hpp\<close>; the fields are the ones this file uses.
\<close>

record SwitchParams =
  do_switch :: bool
  strictness :: int
  activate_asap :: bool
  timeout :: int

record RTBufferVariables =
  deactivate_controllers_list :: "string list"
  fallback_controllers_list :: "string list"
  activate_controllers_using_interfaces_list :: "string list"
  interfaces_to_start :: "string list"
  interfaces_to_stop :: "string list"

text \<open>
  The members of \<^verbatim>\<open>ControllerManager\<close> that the modelled functions read or write (the
  trailing underscore of the C++ names is dropped). \<open>controllers\<close> is the roster held by
  \<^verbatim>\<open>rt_controllers_wrapper_\<close>: both of its lists hold shared pointers to the same
  controller objects, so one list of controllers represents them.
\<close>

datatype ParameterValue = PARAMETER_STRING string | PARAMETER_STRING_ARRAY "string list"
  | PARAMETER_OTHER

record ControllerManager =
  controllers :: "ControllerSpec list"
  resource_manager :: ResourceManager
  resource_manager_initialized :: bool
  switch_params :: SwitchParams
  deactivate_request :: "string list"
  activate_request :: "string list"
  to_chained_mode_request :: "string list"
  from_chained_mode_request :: "string list"
  activate_command_interface_request :: "string list"
  deactivate_command_interface_request :: "string list"
  controller_chained_state_interfaces_cache :: "string \<Rightarrow> string list"
  controller_chained_reference_interfaces_cache :: "string \<Rightarrow> string list"
  rt_buffer :: RTBufferVariables
  cm_update_rate :: nat
  update_loop_counter :: nat
  default_switch_strictness :: string
  parameters :: "string \<Rightarrow> ParameterValue option"
  declared_parameters :: "string list"

text \<open>The values of \<^verbatim>\<open>controller_manager_msgs::srv::SwitchController::Request\<close>.\<close>

definition STRICT :: int where "STRICT = 1"
definition BEST_EFFORT :: int where "BEST_EFFORT = 2"
definition AUTO :: int where "AUTO = 3"
definition FORCE_AUTO :: int where "FORCE_AUTO = 4"

section \<open>Controller manager: helper functions\<close>

definition is_controller_unconfigured :: "ControllerInterfaceBase \<Rightarrow> bool" where
  "is_controller_unconfigured controller = (lifecycle controller = PRIMARY_STATE_UNCONFIGURED)"

definition is_controller_inactive :: "ControllerInterfaceBase \<Rightarrow> bool" where
  "is_controller_inactive controller = (lifecycle controller = PRIMARY_STATE_INACTIVE)"

definition is_controller_active :: "ControllerInterfaceBase \<Rightarrow> bool" where
  "is_controller_active controller = (lifecycle controller = PRIMARY_STATE_ACTIVE)"

definition controller_name_compare :: "ControllerSpec \<Rightarrow> string \<Rightarrow> bool" where
  "controller_name_compare a n = (name (info a) = n)"

text \<open>\<^verbatim>\<open>std::find_if(controllers.begin(), controllers.end(), controller_name_compare ...)\<close>\<close>

definition find_controller :: "ControllerSpec list \<Rightarrow> string \<Rightarrow> ControllerSpec option" where
  "find_controller ctrls n = find (\<lambda>a. controller_name_compare a n) ctrls"

text \<open>
  \<^verbatim>\<open>is_interface_a_chained_interface\<close>: the prefix before the first \<^verbatim>\<open>'/'\<close> names the
  following controller; an interface name without \<^verbatim>\<open>'/'\<close> throws. The result holds the
  controller found where the C++ function returns true and sets the iterator.
\<close>

definition interface_prefix :: "string \<Rightarrow> string option" where
  "interface_prefix itf_name =
     (if CHR ''/'' \<in> set itf_name
      then Some (takeWhile (\<lambda>ch. ch \<noteq> CHR ''/'') itf_name)
      else None)"

definition is_interface_a_chained_interface ::
  "string \<Rightarrow> ControllerSpec list \<Rightarrow> exception + ControllerSpec option" where
  "is_interface_a_chained_interface itf_name ctrls =
     (case interface_prefix itf_name of
        None \<Rightarrow> Inl RuntimeError
      | Some prefix \<Rightarrow> Inr (find_controller ctrls prefix))"

text \<open>
  Modelled from the spec: \<^verbatim>\<open>ros2_control::add_item\<close> and \<^verbatim>\<open>ros2_control::remove_item\<close>
  are declared in a helper header that is not under src/. As the comment at the call site
  in \<^verbatim>\<open>get_active_controllers_using_command_interfaces_of_controller\<close> says, \<^verbatim>\<open>add_item\<close>
  appends an item unless the list holds it already.
\<close>

definition add_item :: "'a list \<Rightarrow> 'a \<Rightarrow> 'a list" where
  "add_item xs x = (if x \<in> set xs then xs else xs @ [x])"

text \<open>The names a command or state interface configuration resolves to.\<close>

definition resolve_command_interfaces :: "ResourceManager \<Rightarrow> InterfaceConfiguration \<Rightarrow> string list" where
  "resolve_command_interfaces rm cfg =
     (case config_type cfg of
        ALL_INTERFACES \<Rightarrow> available_command_interfaces rm
      | INDIVIDUAL \<Rightarrow> names cfg
      | NONE \<Rightarrow> [])"

definition resolve_state_interfaces :: "ResourceManager \<Rightarrow> InterfaceConfiguration \<Rightarrow> string list" where
  "resolve_state_interfaces rm cfg =
     (case config_type cfg of
        ALL_INTERFACES \<Rightarrow> available_state_interfaces rm
      | INDIVIDUAL \<Rightarrow> names cfg
      | NONE \<Rightarrow> [])"

text \<open>\<^verbatim>\<open>extract_command_interfaces_for_controller\<close>: appends to the request list.\<close>

definition extract_command_interfaces_for_controller ::
  "ControllerSpec \<Rightarrow> ResourceManager \<Rightarrow> string list \<Rightarrow> string list" where
  "extract_command_interfaces_for_controller ctrl rm request_interface_list =
     request_interface_list
       @ resolve_command_interfaces rm (command_interface_configuration (cobj ctrl))"

text \<open>\<^verbatim>\<open>get_controller_list_command_interfaces\<close>\<close>

fun get_controller_list_command_interfaces ::
  "string list \<Rightarrow> ControllerSpec list \<Rightarrow> ResourceManager \<Rightarrow> string list \<Rightarrow> string list" where
  "get_controller_list_command_interfaces [] controllers_spec rm request_interface_list =
     request_interface_list"
| "get_controller_list_command_interfaces (controller_name # rest) controllers_spec rm
       request_interface_list =
     get_controller_list_command_interfaces rest controllers_spec rm
       (case find_controller controllers_spec controller_name of
          Some found \<Rightarrow> extract_command_interfaces_for_controller found rm request_interface_list
        | None \<Rightarrow> request_interface_list)"

text \<open>
  \<^verbatim>\<open>get_active_controllers_using_command_interfaces_of_controller\<close>: for each command
  interface named by the given controller, each active controller of the roster that names
  the same command interface is added to the result.
\<close>

definition controllers_using_interface ::
  "string \<Rightarrow> ControllerSpec list \<Rightarrow> string list \<Rightarrow> string list" where
  "controllers_using_interface cmd_itf ctrls acc =
     foldl (\<lambda>acc controller.
              if is_controller_active (cobj controller)
                 \<and> cmd_itf \<in> set (names (command_interface_configuration (cobj controller)))
              then add_item acc (name (info controller)) else acc)
       acc ctrls"

definition get_active_controllers_using_command_interfaces_of_controller ::
  "string \<Rightarrow> ControllerSpec list \<Rightarrow> string list \<Rightarrow> string list" where
  "get_active_controllers_using_command_interfaces_of_controller controller_name ctrls
       controllers_using_command_interfaces =
     (case find_controller ctrls controller_name of
        None \<Rightarrow> controllers_using_command_interfaces
      | Some it \<Rightarrow>
          foldl (\<lambda>acc cmd_itf. controllers_using_interface cmd_itf ctrls acc)
            controllers_using_command_interfaces
            (names (command_interface_configuration (cobj it))))"

section \<open>evaluate\_switch\_result\<close>

text \<open>
  One iteration of the loop over \<^verbatim>\<open>controllers_spec\<close>: the claimed interfaces of the
  controller are refreshed (an active controller whose configuration type is neither ALL_INTERFACES
  nor INDIVIDUAL keeps the list it had), and the result turns to ERROR when a controller of
  the activate list is not active, or when a controller that is in the deactivate list and
  not in the activate list is still active.
\<close>

definition refresh_claimed_interfaces :: "ResourceManager \<Rightarrow> ControllerSpec \<Rightarrow> ControllerSpec" where
  "refresh_claimed_interfaces rm controller =
     (if is_controller_active (cobj controller)
      then (case config_type (command_interface_configuration (cobj controller)) of
              ALL_INTERFACES \<Rightarrow> controller\<lparr>info := (info controller)
                        \<lparr>claimed_interfaces := available_command_interfaces rm\<rparr>\<rparr>
            | INDIVIDUAL \<Rightarrow> controller\<lparr>info := (info controller)
                        \<lparr>claimed_interfaces :=
                           names (command_interface_configuration (cobj controller))\<rparr>\<rparr>
            | NONE \<Rightarrow> controller)
      else controller\<lparr>info := (info controller)\<lparr>claimed_interfaces := []\<rparr>\<rparr>)"

definition evaluate_controller ::
  "string list \<Rightarrow> string list \<Rightarrow> ControllerSpec \<Rightarrow> return_type \<Rightarrow> return_type" where
  "evaluate_controller activate_list deactivate_list controller switch_result =
     (let r1 = (if name (info controller) \<in> set activate_list
                   \<and> \<not> is_controller_active (cobj controller)
                then ERROR else switch_result)
      in if name (info controller) \<in> set deactivate_list
            \<and> name (info controller) \<notin> set activate_list
            \<and> is_controller_active (cobj controller)
         then ERROR else r1)"

fun evaluate_loop ::
  "ResourceManager \<Rightarrow> string list \<Rightarrow> string list \<Rightarrow> ControllerSpec list \<Rightarrow> return_type
     \<Rightarrow> return_type \<times> ControllerSpec list" where
  "evaluate_loop rm activate_list deactivate_list [] switch_result = (switch_result, [])"
| "evaluate_loop rm activate_list deactivate_list (controller # rest) switch_result =
     (let (r, rest') =
            evaluate_loop rm activate_list deactivate_list rest
              (evaluate_controller activate_list deactivate_list controller switch_result)
      in (r, refresh_claimed_interfaces rm controller # rest'))"

text \<open>
  \<^verbatim>\<open>evaluate_switch_result\<close>: the result and the roster with refreshed claimed
  interfaces. The strictness only selects the text of the message.
\<close>

definition evaluate_switch_result ::
  "ResourceManager \<Rightarrow> string list \<Rightarrow> string list \<Rightarrow> int \<Rightarrow> ControllerSpec list
     \<Rightarrow> return_type \<times> ControllerSpec list" where
  "evaluate_switch_result rm activate_list deactivate_list strictness_arg controllers_spec =
     evaluate_loop rm activate_list deactivate_list controllers_spec OK"

section \<open>Transitions applied by the realtime loop\<close>

text \<open>
  The controller found by \<^verbatim>\<open>std::find_if\<close> is a shared object: a change made through
  the iterator is a change of the roster entry. \<open>on_found n f\<close> applies \<open>f\<close> to the first
  roster entry named \<open>n\<close> and leaves the roster alone when there is none (the loops
  \<^verbatim>\<open>continue\<close> after logging).
\<close>

fun on_found ::
  "string \<Rightarrow> (ControllerSpec \<Rightarrow> ResourceManager \<Rightarrow> ControllerSpec \<times> ResourceManager)
     \<Rightarrow> ControllerSpec list \<Rightarrow> ResourceManager \<Rightarrow> ControllerSpec list \<times> ResourceManager" where
  "on_found n f [] rm = ([], rm)"
| "on_found n f (a # rest) rm =
     (if controller_name_compare a n
      then (let (a', rm') = f a rm in (a' # rest, rm'))
      else (let (rest', rm') = on_found n f rest rm in (a # rest', rm')))"

text \<open>
  Modelled from the spec: \<^verbatim>\<open>release_interfaces\<close> and \<^verbatim>\<open>assign_interfaces\<close> are
  implemented in a source file of the controller interface that is not under src/.
  Releasing drops the loans, which frees the claims on the command interfaces.
\<close>

definition release_interfaces ::
  "ControllerInterfaceBase \<Rightarrow> ResourceManager \<Rightarrow> ControllerInterfaceBase \<times> ResourceManager" where
  "release_interfaces ctrl rm =
     (ctrl\<lparr>command_interfaces := [], state_interfaces := []\<rparr>,
      rm\<lparr>claimed_command_interfaces :=
           filter (\<lambda>i. i \<notin> set (command_interfaces ctrl)) (claimed_command_interfaces rm)\<rparr>)"

definition assign_interfaces ::
  "string list \<Rightarrow> string list \<Rightarrow> ControllerInterfaceBase \<Rightarrow> ControllerInterfaceBase" where
  "assign_interfaces command_loans state_loans ctrl =
     ctrl\<lparr>command_interfaces := command_loans, state_interfaces := state_loans\<rparr>"

text \<open>
  The body of the loop of \<^verbatim>\<open>deactivate_controllers\<close> for a controller that was found.
  An exception of \<^verbatim>\<open>deactivate()\<close> is caught and the loop continues.
\<close>

definition deactivate_controller ::
  "ControllerSpec \<Rightarrow> ResourceManager \<Rightarrow> ControllerSpec \<times> ResourceManager" where
  "deactivate_controller found rm =
     (if is_controller_active (cobj found)
      then (case node_deactivate (cobj found) of
              Inl e \<Rightarrow> (found, rm)
            | Inr deactivated \<Rightarrow>
                (let (released, rm1) = release_interfaces deactivated rm;
                     rm2 = (if is_chainable released
                            then make_controller_reference_interfaces_unavailable
                                   (name (info found))
                                   (make_controller_exported_state_interfaces_unavailable
                                      (name (info found)) rm1)
                            else rm1)
                 in (found\<lparr>cobj := released\<rparr>, rm2)))
      else (found, rm))"

fun deactivate_controllers ::
  "ControllerSpec list \<Rightarrow> ResourceManager \<Rightarrow> string list \<Rightarrow> ControllerSpec list \<times> ResourceManager" where
  "deactivate_controllers rt_controller_list rm [] = (rt_controller_list, rm)"
| "deactivate_controllers rt_controller_list rm (controller_name # rest) =
     (let (l, rm') = on_found controller_name deactivate_controller rt_controller_list rm
      in deactivate_controllers l rm' rest)"

text \<open>\<^verbatim>\<open>switch_chained_mode\<close>: only a controller that is not active is asked to change mode.\<close>

definition switch_chained_mode_of :: "bool \<Rightarrow> ControllerSpec \<Rightarrow> ResourceManager
     \<Rightarrow> ControllerSpec \<times> ResourceManager" where
  "switch_chained_mode_of to_chained_mode found rm =
     (if \<not> is_controller_active (cobj found)
      then (found\<lparr>cobj := snd (set_chained_mode to_chained_mode (cobj found))\<rparr>, rm)
      else (found, rm))"

fun switch_chained_mode ::
  "ControllerSpec list \<Rightarrow> ResourceManager \<Rightarrow> string list \<Rightarrow> bool
     \<Rightarrow> ControllerSpec list \<times> ResourceManager" where
  "switch_chained_mode rt_controller_list rm [] to_chained_mode = (rt_controller_list, rm)"
| "switch_chained_mode rt_controller_list rm (controller_name # rest) to_chained_mode =
     (let (l, rm') =
            on_found controller_name (switch_chained_mode_of to_chained_mode) rt_controller_list rm
      in switch_chained_mode l rm' rest to_chained_mode)"

text \<open>
  The loop of \<^verbatim>\<open>activate_controllers\<close> that claims the command interfaces: it stops at
  the first interface that is already claimed or whose claim throws. \<open>None\<close> stands for
  \<^verbatim>\<open>assignment_successful = false\<close>; the loans made so far are then dropped.
\<close>

fun claim_command_interfaces :: "string list \<Rightarrow> ResourceManager \<Rightarrow> ResourceManager option" where
  "claim_command_interfaces [] rm = Some rm"
| "claim_command_interfaces (command_interface # rest) rm =
     (if command_interface_is_claimed rm command_interface then None
      else case claim_command_interface rm command_interface of
        Inl e \<Rightarrow> None
      | Inr rm' \<Rightarrow> claim_command_interfaces rest rm')"

fun claim_state_interfaces :: "string list \<Rightarrow> ResourceManager \<Rightarrow> bool" where
  "claim_state_interfaces [] rm = True"
| "claim_state_interfaces (state_interface # rest) rm =
     (case claim_state_interface rm state_interface of
        Inl e \<Rightarrow> False
      | Inr u \<Rightarrow> claim_state_interfaces rest rm)"

text \<open>
  The body of the loop of \<^verbatim>\<open>activate_controllers\<close> for a controller that was found:
  the time of the last update is reset, the interfaces are claimed and assigned, and the
  controller is asked to activate. When a claim fails the controller is skipped and the
  loans made for it are dropped; when \<^verbatim>\<open>activate()\<close> throws its interfaces are released.
\<close>

definition activate_controller ::
  "ControllerSpec \<Rightarrow> ResourceManager \<Rightarrow> ControllerSpec \<times> ResourceManager" where
  "activate_controller found rm =
     (let found0 = found\<lparr>last_update_cycle_time := 0\<rparr>;
          command_interface_names =
            resolve_command_interfaces rm (command_interface_configuration (cobj found));
          state_interface_names =
            resolve_state_interfaces rm (state_interface_configuration (cobj found))
      in case claim_command_interfaces command_interface_names rm of
           None \<Rightarrow> (found0, rm)
         | Some rm1 \<Rightarrow>
             if \<not> claim_state_interfaces state_interface_names rm1 then (found0, rm)
             else (let assigned =
                         assign_interfaces command_interface_names state_interface_names
                           (cobj found)
                   in case node_activate assigned of
                        Inl e \<Rightarrow>
                          (let (released, rm2) = release_interfaces assigned rm1
                           in (found0\<lparr>cobj := released\<rparr>, rm2))
                      | Inr activated \<Rightarrow>
                          (found0\<lparr>cobj := activated\<rparr>,
                           if is_chainable activated
                           then make_controller_reference_interfaces_available
                                  (name (info found))
                                  (make_controller_exported_state_interfaces_available
                                     (name (info found)) rm1)
                           else rm1)))"

fun activate_controllers ::
  "ControllerSpec list \<Rightarrow> ResourceManager \<Rightarrow> string list \<Rightarrow> ControllerSpec list \<times> ResourceManager" where
  "activate_controllers rt_controller_list rm [] = (rt_controller_list, rm)"
| "activate_controllers rt_controller_list rm (controller_name # rest) =
     (let (l, rm') = on_found controller_name activate_controller rt_controller_list rm
      in activate_controllers l rm' rest)"

definition activate_controllers_asap ::
  "ControllerSpec list \<Rightarrow> ResourceManager \<Rightarrow> string list \<Rightarrow> ControllerSpec list \<times> ResourceManager" where
  "activate_controllers_asap rt_controller_list rm controllers_to_activate =
     activate_controllers rt_controller_list rm controllers_to_activate"

text \<open>
  \<^verbatim>\<open>manage_switch\<close>. The argument \<open>owns_lock\<close> is the outcome of the try-lock on
  \<^verbatim>\<open>switch_params_.mutex\<close>. The verdict of \<^verbatim>\<open>perform_command_mode_switch\<close> is only logged.
\<close>

definition manage_switch :: "bool \<Rightarrow> ControllerManager \<Rightarrow> ControllerManager" where
  "manage_switch owns_lock cm =
     (if \<not> owns_lock then cm
      else
        (let (l1, rm1) =
               deactivate_controllers (controllers cm) (resource_manager cm) (deactivate_request cm);
             (l2, rm2) = switch_chained_mode l1 rm1 (to_chained_mode_request cm) True;
             (l3, rm3) = switch_chained_mode l2 rm2 (from_chained_mode_request cm) False;
             (l4, rm4) =
               (if \<not> activate_asap (switch_params cm)
                then activate_controllers l3 rm3 (activate_request cm)
                else activate_controllers_asap l3 rm3 (activate_request cm))
         in cm\<lparr>controllers := l4, resource_manager := rm4,
               switch_params := (switch_params cm)\<lparr>do_switch := False\<rparr>\<rparr>))"

section \<open>clear\_requests\<close>

fun make_unavailable_all :: "string list \<Rightarrow> ResourceManager \<Rightarrow> ResourceManager" where
  "make_unavailable_all [] rm = rm"
| "make_unavailable_all (controller_name # rest) rm =
     make_unavailable_all rest
       (make_controller_reference_interfaces_unavailable controller_name
          (make_controller_exported_state_interfaces_unavailable controller_name rm))"

definition clear_requests :: "ControllerManager \<Rightarrow> ControllerManager" where
  "clear_requests cm =
     cm\<lparr>switch_params := (switch_params cm)\<lparr>do_switch := False\<rparr>,
        deactivate_request := [],
        activate_request := [],
        resource_manager := make_unavailable_all (to_chained_mode_request cm) (resource_manager cm),
        to_chained_mode_request := [],
        from_chained_mode_request := [],
        activate_command_interface_request := [],
        deactivate_command_interface_request := []\<rparr>"

section \<open>switch\_controller\_cb: validation of the request\<close>

text \<open>
  How a step of \<^verbatim>\<open>switch_controller_cb\<close> ends: the function goes on, returns a result, or
  throws.
\<close>

datatype flow = Continue | Return return_type | Throw exception

definition and_then ::
  "flow \<times> ControllerManager \<Rightarrow> (ControllerManager \<Rightarrow> flow \<times> ControllerManager)
     \<Rightarrow> flow \<times> ControllerManager" where
  "and_then r f = (case r of (Continue, cm) \<Rightarrow> f cm | (other, cm) \<Rightarrow> (other, cm))"

text \<open>
  Modelled from the spec: \<^verbatim>\<open>SwitchParams::reset\<close> is defined in
  \<^verbatim>\<open>controller_manager.hpp\<close>, which is not under src/. A switch request starts with its
  flag cleared and no strictness or activation policy chosen.
\<close>

definition SwitchParams_reset :: "SwitchParams \<Rightarrow> SwitchParams" where
  "SwitchParams_reset p = p\<lparr>do_switch := False, strictness := 0, activate_asap := False\<rparr>"

text \<open>The strictness in force: 0 selects the configured default, AUTO and FORCE\_AUTO mean BEST\_EFFORT.\<close>

definition effective_strictness :: "string \<Rightarrow> int \<Rightarrow> int" where
  "effective_strictness default_strictness strictness_arg =
     (if strictness_arg = 0
      then (if default_strictness = ''strict'' then STRICT else BEST_EFFORT)
      else if strictness_arg = AUTO then BEST_EFFORT
      else if strictness_arg = FORCE_AUTO then BEST_EFFORT
      else strictness_arg)"

text \<open>
  The lambda \<^verbatim>\<open>list_controllers\<close>: the loop over the requested names, entered with the
  request list built so far and the current \<^verbatim>\<open>result\<close>.
\<close>

fun list_controllers ::
  "ControllerSpec list \<Rightarrow> int \<Rightarrow> string list \<Rightarrow> string list \<Rightarrow> return_type
     \<Rightarrow> return_type \<times> string list" where
  "list_controllers updated_controllers strictness_arg [] request_list result =
     (result, request_list)"
| "list_controllers updated_controllers strictness_arg (controller # rest) request_list result =
     (case find_controller updated_controllers controller of
        None \<Rightarrow>
          if strictness_arg = STRICT then (ERROR, request_list)
          else list_controllers updated_controllers strictness_arg rest request_list
                 (if request_list = [] then ERROR else OK)
      | Some found \<Rightarrow>
          list_controllers updated_controllers strictness_arg rest (request_list @ [controller]) OK)"

subsection \<open>propagate\_deactivation\_of\_chained\_mode\<close>

fun add_following_to_from_chained_mode ::
  "string list \<Rightarrow> ControllerSpec list \<Rightarrow> ControllerManager \<Rightarrow> flow \<times> ControllerManager" where
  "add_following_to_from_chained_mode [] ctrls cm = (Continue, cm)"
| "add_following_to_from_chained_mode (ctrl_itf_name # rest) ctrls cm =
     (case is_interface_a_chained_interface ctrl_itf_name ctrls of
        Inl e \<Rightarrow> (Throw e, cm)
      | Inr None \<Rightarrow> add_following_to_from_chained_mode rest ctrls cm
      | Inr (Some following_ctrl) \<Rightarrow>
          add_following_to_from_chained_mode rest ctrls
            (if name (info following_ctrl) \<notin> set (from_chained_mode_request cm)
             then cm\<lparr>from_chained_mode_request :=
                       from_chained_mode_request cm @ [name (info following_ctrl)]\<rparr>
             else cm))"

text \<open>
  The loop over the roster; the first argument is the part of the roster still to visit.
  A controller of the deactivate request that is not active ends the loop (\<^verbatim>\<open>break\<close>).
\<close>

fun propagate_deactivation_loop ::
  "ControllerSpec list \<Rightarrow> ControllerSpec list \<Rightarrow> ControllerManager \<Rightarrow> flow \<times> ControllerManager" where
  "propagate_deactivation_loop [] ctrls cm = (Continue, cm)"
| "propagate_deactivation_loop (controller # rest) ctrls cm =
     (if name (info controller) \<in> set (deactivate_request cm)
      then (if \<not> is_controller_active (cobj controller) then (Continue, cm)
            else and_then
                   (add_following_to_from_chained_mode
                      (names (command_interface_configuration (cobj controller))
                         @ names (state_interface_configuration (cobj controller)))
                      ctrls cm)
                   (propagate_deactivation_loop rest ctrls))
      else propagate_deactivation_loop rest ctrls cm)"

definition propagate_deactivation_of_chained_mode ::
  "ControllerSpec list \<Rightarrow> ControllerManager \<Rightarrow> flow \<times> ControllerManager" where
  "propagate_deactivation_of_chained_mode ctrls cm = propagate_deactivation_loop ctrls ctrls cm"

subsection \<open>check\_following\_controllers\_for\_activate\<close>

text \<open>
  The end of the loop body, reached when the following controller passed all checks: the
  following controller is requested to enter chained mode, or is taken out of the request
  to leave it.
\<close>

definition request_chained_mode ::
  "ControllerSpec \<Rightarrow> string \<Rightarrow> ControllerSpec \<Rightarrow> ControllerManager \<Rightarrow> ControllerManager" where
  "request_chained_mode controller_it ctrl_itf_name following_ctrl cm =
     (if \<not> is_in_chained_mode (cobj following_ctrl)
      then (if name (info following_ctrl) \<notin> set (to_chained_mode_request cm)
            then (let rm1 = make_controller_exported_state_interfaces_available
                              (name (info following_ctrl)) (resource_manager cm)
                  in if ctrl_itf_name
                          \<in> set (names (command_interface_configuration (cobj controller_it)))
                     then cm\<lparr>resource_manager :=
                               make_controller_reference_interfaces_available
                                 (name (info following_ctrl)) rm1,
                             to_chained_mode_request :=
                               to_chained_mode_request cm @ [name (info following_ctrl)]\<rparr>
                     else cm\<lparr>resource_manager := rm1\<rparr>)
            else cm)
      else (if name (info following_ctrl) \<in> set (from_chained_mode_request cm)
            then cm\<lparr>from_chained_mode_request :=
                      remove1 (name (info following_ctrl)) (from_chained_mode_request cm)\<rparr>
            else cm))"

text \<open>
  The function calls itself for every following controller and has no bound of its own: on
  a cyclic chain the recursion does not end. The first argument bounds the depth of the
  recursion; when it is used up the outcome is \<open>Throw StackExhausted\<close>.
  \<open>check_following_interfaces\<close> is the loop over the interfaces of the controller.
\<close>

fun check_following_controllers_for_activate ::
  "nat \<Rightarrow> ControllerSpec list \<Rightarrow> int \<Rightarrow> ControllerSpec \<Rightarrow> ControllerManager
     \<Rightarrow> flow \<times> ControllerManager"
and check_following_interfaces ::
  "nat \<Rightarrow> ControllerSpec list \<Rightarrow> int \<Rightarrow> ControllerSpec \<Rightarrow> string list \<Rightarrow> ControllerManager
     \<Rightarrow> flow \<times> ControllerManager" where
  "check_following_controllers_for_activate 0 ctrls strictness_arg controller_it cm =
     (Throw StackExhausted, cm)"
| "check_following_controllers_for_activate (Suc fuel) ctrls strictness_arg controller_it cm =
     check_following_interfaces fuel ctrls strictness_arg controller_it
       (names (command_interface_configuration (cobj controller_it))
          @ names (state_interface_configuration (cobj controller_it)))
       cm"
| "check_following_interfaces fuel ctrls strictness_arg controller_it [] cm = (Return OK, cm)"
| "check_following_interfaces fuel ctrls strictness_arg controller_it (ctrl_itf_name # rest) cm =
     (case is_interface_a_chained_interface ctrl_itf_name ctrls of
        Inl e \<Rightarrow> (Throw e, cm)
      | Inr None \<Rightarrow> check_following_interfaces fuel ctrls strictness_arg controller_it rest cm
      | Inr (Some following_ctrl) \<Rightarrow>
          if \<not> is_chainable (cobj following_ctrl) then (Return ERROR, cm)
          else if is_controller_active (cobj following_ctrl)
                  \<and> name (info following_ctrl) \<in> set (deactivate_request cm)
          then (Return ERROR, cm)
          else if \<not> is_controller_active (cobj following_ctrl)
                  \<and> name (info following_ctrl) \<notin> set (activate_request cm)
          then (Return ERROR, cm)
          else (case check_following_controllers_for_activate fuel ctrls strictness_arg
                       following_ctrl cm of
                  (Return OK, cm1) \<Rightarrow>
                    check_following_interfaces fuel ctrls strictness_arg controller_it rest
                      (request_chained_mode controller_it ctrl_itf_name following_ctrl cm1)
                | (other, cm1) \<Rightarrow> (other, cm1)))"

subsection \<open>check\_fallback\_controllers\_state\_pre\_activation\<close>

text \<open>
  The two inner loops, over the command and over the state interfaces of a fallback
  controller, have the same shape; \<open>available\<close> and \<open>exported\<close> are the two queries to the
  resource manager that differ.
\<close>

fun check_fallback_interfaces ::
  "(string \<Rightarrow> bool) \<Rightarrow> (string \<Rightarrow> string list) \<Rightarrow> ControllerSpec list \<Rightarrow> ControllerSpec
     \<Rightarrow> string list \<Rightarrow> exception + return_type" where
  "check_fallback_interfaces available exported ctrls controller_it [] = Inr OK"
| "check_fallback_interfaces available exported ctrls controller_it (fb_itf # rest) =
     (if \<not> available fb_itf
      then (case is_interface_a_chained_interface fb_itf ctrls of
              Inl e \<Rightarrow> Inl e
            | Inr None \<Rightarrow> Inr ERROR
            | Inr (Some following_ctrl) \<Rightarrow>
                if is_controller_inactive (cobj following_ctrl)
                then (if name (info following_ctrl)
                           \<in> set (fallback_controllers_names (info controller_it))
                      then (if fb_itf \<notin> set (exported (name (info following_ctrl)))
                            then Inr ERROR
                            else check_fallback_interfaces available exported ctrls
                                   controller_it rest)
                      else Inr ERROR)
                else check_fallback_interfaces available exported ctrls controller_it rest)
      else check_fallback_interfaces available exported ctrls controller_it rest)"

fun check_fallback_controllers ::
  "ControllerSpec list \<Rightarrow> ResourceManager \<Rightarrow> ControllerSpec \<Rightarrow> string list
     \<Rightarrow> exception + return_type" where
  "check_fallback_controllers ctrls rm controller_it [] = Inr OK"
| "check_fallback_controllers ctrls rm controller_it (fb_ctrl # rest) =
     (case find_controller ctrls fb_ctrl of
        None \<Rightarrow> Inr ERROR
      | Some fb_ctrl_it \<Rightarrow>
          if \<not> (is_controller_inactive (cobj fb_ctrl_it) \<or> is_controller_active (cobj fb_ctrl_it))
          then Inr ERROR
          else (case check_fallback_interfaces (command_interface_is_available rm)
                       (controller_reference_interface_names rm) ctrls controller_it
                       (names (command_interface_configuration (cobj fb_ctrl_it))) of
                  Inr OK \<Rightarrow>
                    (case check_fallback_interfaces (state_interface_is_available rm)
                            (controller_exported_state_interface_names rm) ctrls controller_it
                            (names (state_interface_configuration (cobj fb_ctrl_it))) of
                       Inr OK \<Rightarrow> check_fallback_controllers ctrls rm controller_it rest
                     | other \<Rightarrow> other)
                | other \<Rightarrow> other))"

definition check_fallback_controllers_state_pre_activation ::
  "ControllerSpec list \<Rightarrow> ControllerSpec \<Rightarrow> ControllerManager \<Rightarrow> exception + return_type" where
  "check_fallback_controllers_state_pre_activation ctrls controller_it cm =
     check_fallback_controllers ctrls (resource_manager cm) controller_it
       (fallback_controllers_names (info controller_it))"

subsection \<open>check\_preceding\_controllers\_for\_deactivate\<close>

fun check_preceding_controllers ::
  "ControllerSpec list \<Rightarrow> ControllerManager \<Rightarrow> string list \<Rightarrow> return_type" where
  "check_preceding_controllers ctrls cm [] = OK"
| "check_preceding_controllers ctrls cm (preceding_controller # rest) =
     (case find_controller ctrls preceding_controller of
        Some found \<Rightarrow>
          if is_controller_inactive (cobj found)
             \<and> preceding_controller \<in> set (activate_request cm)
          then ERROR
          else if is_controller_active (cobj found)
                  \<and> preceding_controller \<notin> set (deactivate_request cm)
          then ERROR
          else check_preceding_controllers ctrls cm rest
      | None \<Rightarrow> check_preceding_controllers ctrls cm rest)"

definition preceding_controllers_list :: "ControllerManager \<Rightarrow> string \<Rightarrow> string list" where
  "preceding_controllers_list cm controller_name =
     controller_chained_state_interfaces_cache cm controller_name
       @ controller_chained_reference_interfaces_cache cm controller_name"

definition check_preceding_controllers_for_deactivate ::
  "ControllerSpec list \<Rightarrow> int \<Rightarrow> ControllerSpec \<Rightarrow> ControllerManager \<Rightarrow> return_type" where
  "check_preceding_controllers_for_deactivate ctrls strictness_arg controller_it cm =
     (if \<not> is_chainable (cobj controller_it) then OK
      else check_preceding_controllers ctrls cm
             (preceding_controllers_list cm (name (info controller_it))))"

section \<open>switch\_controller\_cb\<close>

text \<open>\<^verbatim>\<open>vector::erase\<close> at the position of the iterator.\<close>

definition erase_at :: "nat \<Rightarrow> 'a list \<Rightarrow> 'a list" where
  "erase_at i xs = take i xs @ drop (Suc i) xs"

text \<open>
  The checks made for one entry of the activate request. An entry of the request was found
  in the roster by \<^verbatim>\<open>list_controllers\<close>; the C++ code dereferences the iterator without a
  test, so a missing controller is an exception here.
\<close>

definition check_activate_entry ::
  "nat \<Rightarrow> ControllerSpec list \<Rightarrow> int \<Rightarrow> string \<Rightarrow> ControllerManager \<Rightarrow> flow \<times> ControllerManager" where
  "check_activate_entry fuel ctrls strictness_arg entry cm =
     (case find_controller ctrls entry of
        None \<Rightarrow> (Throw UnknownException, cm)
      | Some controller_it \<Rightarrow>
          (let (status, cm1) =
                 (if is_controller_unconfigured (cobj controller_it) then (Return ERROR, cm)
                  else if is_controller_active (cobj controller_it)
                  then (if name (info controller_it) \<notin> set (deactivate_request cm)
                        then (Return ERROR, cm) else (Return OK, cm))
                  else if \<not> is_controller_inactive (cobj controller_it) then (Return ERROR, cm)
                  else check_following_controllers_for_activate fuel ctrls strictness_arg
                         controller_it cm)
           in if status = Return OK
              then (case check_fallback_controllers_state_pre_activation ctrls controller_it cm1 of
                      Inl e \<Rightarrow> (Throw e, cm1)
                    | Inr r \<Rightarrow> (Return r, cm1))
              else (status, cm1)))"

text \<open>
  The loop over \<^verbatim>\<open>activate_request_\<close>. The third list argument holds the entries still to
  visit and \<open>i\<close> is the position of the iterator, so the head of that list is the entry at
  position \<open>i\<close> of the request. Under BEST\_EFFORT an entry that fails is erased and
  the iterator stays; under STRICT the requests are cleared and the function returns ERROR;
  under any other strictness value the entry stays in the request.
\<close>

fun activate_request_loop ::
  "nat \<Rightarrow> ControllerSpec list \<Rightarrow> int \<Rightarrow> string list \<Rightarrow> nat \<Rightarrow> ControllerManager
     \<Rightarrow> flow \<times> ControllerManager" where
  "activate_request_loop fuel ctrls strictness_arg [] i cm = (Continue, cm)"
| "activate_request_loop fuel ctrls strictness_arg (entry # rest) i cm =
     (case check_activate_entry fuel ctrls strictness_arg entry cm of
        (Throw e, cm1) \<Rightarrow> (Throw e, cm1)
      | (Return OK, cm1) \<Rightarrow> activate_request_loop fuel ctrls strictness_arg rest (Suc i) cm1
      | (status, cm1) \<Rightarrow>
          if strictness_arg = BEST_EFFORT
          then activate_request_loop fuel ctrls strictness_arg rest i
                 (cm1\<lparr>activate_request := erase_at i (activate_request cm1)\<rparr>)
          else if strictness_arg = STRICT then (Return ERROR, clear_requests cm1)
          else activate_request_loop fuel ctrls strictness_arg rest (Suc i) cm1)"

text \<open>The checks made for one entry of the deactivate request.\<close>

definition check_deactivate_entry ::
  "ControllerSpec list \<Rightarrow> int \<Rightarrow> string \<Rightarrow> ControllerManager \<Rightarrow> exception + return_type" where
  "check_deactivate_entry ctrls strictness_arg entry cm =
     (case find_controller ctrls entry of
        None \<Rightarrow> Inl UnknownException
      | Some controller_it \<Rightarrow>
          if \<not> is_controller_active (cobj controller_it) then Inr ERROR
          else Inr (check_preceding_controllers_for_deactivate ctrls strictness_arg
                      controller_it cm))"

fun deactivate_request_loop ::
  "ControllerSpec list \<Rightarrow> int \<Rightarrow> string list \<Rightarrow> nat \<Rightarrow> ControllerManager
     \<Rightarrow> flow \<times> ControllerManager" where
  "deactivate_request_loop ctrls strictness_arg [] i cm = (Continue, cm)"
| "deactivate_request_loop ctrls strictness_arg (entry # rest) i cm =
     (case check_deactivate_entry ctrls strictness_arg entry cm of
        Inl e \<Rightarrow> (Throw e, cm)
      | Inr OK \<Rightarrow> deactivate_request_loop ctrls strictness_arg rest (Suc i) cm
      | Inr ERROR \<Rightarrow>
          if strictness_arg = BEST_EFFORT
          then deactivate_request_loop ctrls strictness_arg rest i
                 (cm\<lparr>deactivate_request := erase_at i (deactivate_request cm)\<rparr>)
          else if strictness_arg = STRICT then (Return ERROR, clear_requests cm)
          else deactivate_request_loop ctrls strictness_arg rest (Suc i) cm)"

text \<open>
  The lambda \<^verbatim>\<open>handle_conflict\<close>: under STRICT the six request lists are cleared and the
  switch fails.
\<close>

definition handle_conflict :: "int \<Rightarrow> ControllerManager \<Rightarrow> return_type \<times> ControllerManager" where
  "handle_conflict strictness_arg cm =
     (if strictness_arg = STRICT
      then (ERROR,
            cm\<lparr>deactivate_request := [],
               deactivate_command_interface_request := [],
               activate_request := [],
               activate_command_interface_request := [],
               to_chained_mode_request := [],
               from_chained_mode_request := []\<rparr>)
      else (OK, cm))"

text \<open>
  The body of the loop over the roster that restarts controllers whose chained mode
  changes, removes conflicting entries and collects the command interfaces. It is written
  as the sequence of its steps; each step passes on the request lists and the two flags
  \<^verbatim>\<open>in_deactivate_list\<close> and \<^verbatim>\<open>in_activate_list\<close>.
\<close>

definition restart_for_chained_mode :: "ControllerSpec \<Rightarrow> ControllerManager \<Rightarrow> ControllerManager" where
  "restart_for_chained_mode controller cm =
     (if (name (info controller) \<in> set (to_chained_mode_request cm)
            \<or> name (info controller) \<in> set (from_chained_mode_request cm))
         \<and> is_controller_active (cobj controller)
         \<and> name (info controller) \<notin> set (deactivate_request cm)
      then cm\<lparr>deactivate_request := deactivate_request cm @ [name (info controller)],
              activate_request := activate_request cm @ [name (info controller)]\<rparr>
      else cm)"

definition collect_interfaces ::
  "ControllerSpec \<Rightarrow> bool \<Rightarrow> bool \<Rightarrow> ControllerManager \<Rightarrow> ControllerManager" where
  "collect_interfaces controller in_activate_list in_deactivate_list cm =
     (let cm1 = (if in_activate_list
                 then cm\<lparr>activate_command_interface_request :=
                           extract_command_interfaces_for_controller controller
                             (resource_manager cm) (activate_command_interface_request cm)\<rparr>
                 else cm);
          cm2 = (if in_deactivate_list
                 then cm1\<lparr>deactivate_command_interface_request :=
                            extract_command_interfaces_for_controller controller
                              (resource_manager cm1) (deactivate_command_interface_request cm1)\<rparr>
                 else cm1)
      in if in_activate_list
         then cm2\<lparr>resource_manager :=
                   cache_controller_to_hardware (name (info controller))
                     (resolve_command_interfaces (resource_manager cm2)
                        (command_interface_configuration (cobj controller))
                      @ resolve_state_interfaces (resource_manager cm2)
                          (state_interface_configuration (cobj controller)))
                     (resource_manager cm2)\<rparr>
         else cm2)"

definition check_illegal_activation ::
  "int \<Rightarrow> ControllerSpec \<Rightarrow> bool \<Rightarrow> bool \<Rightarrow> ControllerManager \<Rightarrow> flow \<times> ControllerManager" where
  "check_illegal_activation strictness_arg controller in_activate_list in_deactivate_list cm =
     (if \<not> is_controller_inactive (cobj controller) \<and> \<not> in_deactivate_list \<and> in_activate_list
      then (case handle_conflict strictness_arg cm of
              (ERROR, cm1) \<Rightarrow> (Return ERROR, cm1)
            | (OK, cm1) \<Rightarrow>
                (Continue,
                 collect_interfaces controller False in_deactivate_list
                   (cm1\<lparr>activate_request :=
                          remove1 (name (info controller)) (activate_request cm1)\<rparr>)))
      else (Continue, collect_interfaces controller in_activate_list in_deactivate_list cm))"

definition check_doubled_activation ::
  "int \<Rightarrow> ControllerSpec \<Rightarrow> bool \<Rightarrow> bool \<Rightarrow> ControllerManager \<Rightarrow> flow \<times> ControllerManager" where
  "check_doubled_activation strictness_arg controller in_activate_list in_deactivate_list cm =
     (if is_controller_active (cobj controller) \<and> \<not> in_deactivate_list \<and> in_activate_list
      then (case handle_conflict strictness_arg cm of
              (ERROR, cm1) \<Rightarrow> (Return ERROR, cm1)
            | (OK, cm1) \<Rightarrow>
                check_illegal_activation strictness_arg controller False in_deactivate_list
                  (cm1\<lparr>activate_request :=
                         remove1 (name (info controller)) (activate_request cm1)\<rparr>))
      else check_illegal_activation strictness_arg controller in_activate_list
             in_deactivate_list cm)"

definition check_double_stop ::
  "int \<Rightarrow> ControllerSpec \<Rightarrow> ControllerManager \<Rightarrow> flow \<times> ControllerManager" where
  "check_double_stop strictness_arg controller cm =
     (let in_deactivate_list = (name (info controller) \<in> set (deactivate_request cm));
          in_activate_list = (name (info controller) \<in> set (activate_request cm))
      in if \<not> is_controller_active (cobj controller) \<and> in_deactivate_list
         then (case handle_conflict strictness_arg cm of
                 (ERROR, cm1) \<Rightarrow> (Return ERROR, cm1)
               | (OK, cm1) \<Rightarrow>
                   check_doubled_activation strictness_arg controller in_activate_list False
                     (cm1\<lparr>deactivate_request :=
                            remove1 (name (info controller)) (deactivate_request cm1)\<rparr>))
         else check_doubled_activation strictness_arg controller in_activate_list
                in_deactivate_list cm)"

definition resolve_conflicts_of ::
  "int \<Rightarrow> ControllerSpec \<Rightarrow> ControllerManager \<Rightarrow> flow \<times> ControllerManager" where
  "resolve_conflicts_of strictness_arg controller cm =
     check_double_stop strictness_arg controller (restart_for_chained_mode controller cm)"

fun resolve_conflicts_loop ::
  "int \<Rightarrow> ControllerSpec list \<Rightarrow> ControllerManager \<Rightarrow> flow \<times> ControllerManager" where
  "resolve_conflicts_loop strictness_arg [] cm = (Continue, cm)"
| "resolve_conflicts_loop strictness_arg (controller # rest) cm =
     and_then (resolve_conflicts_of strictness_arg controller cm)
       (resolve_conflicts_loop strictness_arg rest)"

text \<open>\<^verbatim>\<open>check_for_interfaces_availability_to_activate\<close>\<close>

fun check_for_interfaces_availability_to_activate ::
  "ControllerSpec list \<Rightarrow> ResourceManager \<Rightarrow> string list \<Rightarrow> return_type" where
  "check_for_interfaces_availability_to_activate ctrls rm [] = OK"
| "check_for_interfaces_availability_to_activate ctrls rm (controller_name # rest) =
     (case find_controller ctrls controller_name of
        None \<Rightarrow> ERROR
      | Some controller_it \<Rightarrow>
          if \<not> list_all (command_interface_is_available rm)
                  (names (command_interface_configuration (cobj controller_it)))
          then ERROR
          else if \<not> list_all (state_interface_is_available rm)
                  (names (state_interface_configuration (cobj controller_it)))
          then ERROR
          else check_for_interfaces_availability_to_activate ctrls rm rest)"

text \<open>
  The wait on the condition variable. The realtime loop serves a published request by
  calling \<^verbatim>\<open>manage_switch\<close> from \<^verbatim>\<open>update\<close>; \<open>rt_serves_at\<close> is the time in nanoseconds,
  counted from the start of the wait, at which it does so, and \<open>None\<close> when it never does.
  \<open>served_within rt_serves_at t\<close> says that it does so before a wait of \<open>t\<close> expires.
  \<^verbatim>\<open>manage_switch\<close> runs under \<^verbatim>\<open>switch_params_.mutex\<close>, which the waiting thread gives
  up only while it waits: the waiting thread finds the request either untouched or served.
  The result is the value of \<^verbatim>\<open>cv.wait_for\<close>.
\<close>

definition served_within :: "int option \<Rightarrow> int \<Rightarrow> bool" where
  "served_within rt_serves_at t = (case rt_serves_at of None \<Rightarrow> False | Some t' \<Rightarrow> t' \<le> t)"

definition wait_for_switch :: "int option \<Rightarrow> ControllerManager \<Rightarrow> bool \<times> ControllerManager" where
  "wait_for_switch rt_serves_at cm =
     (if served_within rt_serves_at (timeout (switch_params cm))
      then (True, manage_switch True cm)
      else (False, cm))"

text \<open>The timeout stored in \<^verbatim>\<open>switch_params_\<close>: a request of zero stands for one second.\<close>

definition switch_timeout :: "int \<Rightarrow> int" where
  "switch_timeout timeout_arg = (if timeout_arg = 0 then 1000000000 else timeout_arg)"

text \<open>
  The commit of the request: the parameters of the switch are stored, the flag is raised,
  the function waits, and then either gives up or evaluates what the realtime loop did.
\<close>

definition commit_switch ::
  "int option \<Rightarrow> int \<Rightarrow> bool \<Rightarrow> int \<Rightarrow> ControllerManager \<Rightarrow> flow \<times> ControllerManager" where
  "commit_switch rt_serves_at strictness_arg activate_asap_arg timeout_arg cm =
     (let cm1 = cm\<lparr>switch_params :=
                     \<lparr>do_switch = True, strictness = strictness_arg,
                      activate_asap = activate_asap_arg,
                      timeout = switch_timeout timeout_arg\<rparr>\<rparr>;
          (served, cm2) = wait_for_switch rt_serves_at cm1
      in if \<not> served then (Return ERROR, clear_requests cm2)
         else (let (switch_result, to) =
                     evaluate_switch_result (resource_manager cm2) (activate_request cm2)
                       (deactivate_request cm2) strictness_arg (controllers cm2)
               in (Return switch_result, clear_requests (cm2\<lparr>controllers := to\<rparr>))))"

text \<open>
  The part of the function after the two request loops: the conflict loop, the check of
  the interfaces, the hardware veto and the commit. \<^verbatim>\<open>prepare_for_deactivation\<close> concerns
  the worker thread of an asynchronous controller and changes nothing that is modelled.
\<close>

definition prepare_and_commit ::
  "int option \<Rightarrow> ControllerSpec list \<Rightarrow> int \<Rightarrow> bool \<Rightarrow> int \<Rightarrow> ControllerManager
     \<Rightarrow> flow \<times> ControllerManager" where
  "prepare_and_commit rt_serves_at ctrls strictness_arg activate_asap_arg timeout_arg cm =
     (if activate_request cm = [] \<and> deactivate_request cm = []
      then (Return OK, clear_requests cm)
      else and_then (resolve_conflicts_loop strictness_arg ctrls cm)
        (\<lambda>cm1.
           if activate_request cm1 = [] \<and> deactivate_request cm1 = []
           then (Return OK, clear_requests cm1)
           else if check_for_interfaces_availability_to_activate ctrls (resource_manager cm1)
                     (activate_request cm1) \<noteq> OK
           then (Return ERROR, clear_requests cm1)
           else if \<not> (activate_command_interface_request cm1 = []
                       \<and> deactivate_command_interface_request cm1 = [])
                   \<and> \<not> prepare_command_mode_switch (resource_manager cm1)
                         (activate_command_interface_request cm1)
                         (deactivate_command_interface_request cm1)
           then (Return ERROR, clear_requests cm1)
           else commit_switch rt_serves_at strictness_arg activate_asap_arg timeout_arg cm1))"

text \<open>
  \<^verbatim>\<open>switch_controller_cb\<close>. Besides the arguments of the C++ function it takes the bound
  \<open>fuel\<close> on the depth of \<^verbatim>\<open>check_following_controllers_for_activate\<close> and the time
  \<open>rt_serves_at\<close> at which the realtime loop serves the request.
\<close>

definition resolve_requests ::
  "string list \<Rightarrow> string list \<Rightarrow> int \<Rightarrow> ControllerManager \<Rightarrow> flow \<times> ControllerManager" where
  "resolve_requests activate_names deactivate_names strictness_arg cm =
     (case list_controllers (controllers cm) strictness_arg deactivate_names
             (deactivate_request cm) OK of
        (ERROR, request_list) \<Rightarrow> (Return ERROR, cm\<lparr>deactivate_request := []\<rparr>)
      | (OK, request_list) \<Rightarrow>
          (let cm1 = cm\<lparr>deactivate_request := request_list\<rparr>
           in case list_controllers (controllers cm1) strictness_arg activate_names
                     (activate_request cm1) OK of
                (ERROR, request_list') \<Rightarrow>
                  (Return ERROR, cm1\<lparr>deactivate_request := [], activate_request := []\<rparr>)
              | (OK, request_list') \<Rightarrow> (Continue, cm1\<lparr>activate_request := request_list'\<rparr>)))"

definition switch_after_resolution ::
  "nat \<Rightarrow> int option \<Rightarrow> int \<Rightarrow> bool \<Rightarrow> int \<Rightarrow> ControllerManager \<Rightarrow> flow \<times> ControllerManager" where
  "switch_after_resolution fuel rt_serves_at strictness_arg activate_asap_arg timeout_arg cm =
     and_then (propagate_deactivation_of_chained_mode (controllers cm) cm)
       (\<lambda>cm1. and_then
          (activate_request_loop fuel (controllers cm1) strictness_arg (activate_request cm1) 0 cm1)
          (\<lambda>cm2. and_then
             (deactivate_request_loop (controllers cm2) strictness_arg (deactivate_request cm2) 0 cm2)
             (prepare_and_commit rt_serves_at (controllers cm2) strictness_arg
                activate_asap_arg timeout_arg)))"

definition switch_controller_cb ::
  "nat \<Rightarrow> int option \<Rightarrow> string list \<Rightarrow> string list \<Rightarrow> int \<Rightarrow> bool \<Rightarrow> int \<Rightarrow> ControllerManager
     \<Rightarrow> flow \<times> ControllerManager" where
  "switch_controller_cb fuel rt_serves_at activate_names deactivate_names strictness_arg
       activate_asap_arg timeout_arg cm =
     (if \<not> resource_manager_initialized cm then (Return ERROR, cm)
      else
        (let cm0 = cm\<lparr>switch_params := SwitchParams_reset (switch_params cm)\<rparr>
         in if \<not> (deactivate_request cm0 = [] \<and> activate_request cm0 = [])
            then (Throw RuntimeError, cm0)
            else if \<not> (deactivate_command_interface_request cm0 = []
                         \<and> activate_command_interface_request cm0 = [])
            then (Throw RuntimeError, cm0)
            else if \<not> (from_chained_mode_request cm0 = [] \<and> to_chained_mode_request cm0 = [])
            then (Throw RuntimeError, cm0)
            else
              (let s = effective_strictness (default_switch_strictness cm0) strictness_arg
               in and_then (resolve_requests activate_names deactivate_names s cm0)
                    (switch_after_resolution fuel rt_serves_at s activate_asap_arg timeout_arg))))"

text \<open>\<^verbatim>\<open>switch_controller\<close> forwards to \<^verbatim>\<open>switch_controller_cb\<close> and drops the message.\<close>

definition switch_controller ::
  "nat \<Rightarrow> int option \<Rightarrow> string list \<Rightarrow> string list \<Rightarrow> int \<Rightarrow> bool \<Rightarrow> int \<Rightarrow> ControllerManager
     \<Rightarrow> flow \<times> ControllerManager" where
  "switch_controller fuel rt_serves_at activate_names deactivate_names strictness_arg
       activate_asap_arg timeout_arg cm =
     switch_controller_cb fuel rt_serves_at activate_names deactivate_names strictness_arg
       activate_asap_arg timeout_arg cm"

subsection \<open>The checks that precede the commit\<close>

text \<open>
  The code of \<^verbatim>\<open>switch_controller_cb\<close> up to the comment "start the atomic controller
  switching", taken on its own. The flow \<open>Continue\<close> says that the function goes on to store
  the parameters of the switch and to raise \<^verbatim>\<open>do_switch\<close>, with the manager as it stands at
  that point; any other flow is the return or the exception that ends the call before.
  \<open>prepare_switch\<close> is the part after the two request loops, \<open>checks_after_resolution\<close>
  the part after the resolution of the names, \<open>switch_request_checks\<close> the whole.
\<close>

definition prepare_switch ::
  "ControllerSpec list \<Rightarrow> int \<Rightarrow> ControllerManager \<Rightarrow> flow \<times> ControllerManager" where
  "prepare_switch ctrls strictness_arg cm =
     (if activate_request cm = [] \<and> deactivate_request cm = []
      then (Return OK, clear_requests cm)
      else and_then (resolve_conflicts_loop strictness_arg ctrls cm)
        (\<lambda>cm1.
           if activate_request cm1 = [] \<and> deactivate_request cm1 = []
           then (Return OK, clear_requests cm1)
           else if check_for_interfaces_availability_to_activate ctrls (resource_manager cm1)
                     (activate_request cm1) \<noteq> OK
           then (Return ERROR, clear_requests cm1)
           else if \<not> (activate_command_interface_request cm1 = []
                       \<and> deactivate_command_interface_request cm1 = [])
                   \<and> \<not> prepare_command_mode_switch (resource_manager cm1)
                         (activate_command_interface_request cm1)
                         (deactivate_command_interface_request cm1)
           then (Return ERROR, clear_requests cm1)
           else (Continue, cm1)))"

definition checks_after_resolution ::
  "nat \<Rightarrow> int \<Rightarrow> ControllerManager \<Rightarrow> flow \<times> ControllerManager" where
  "checks_after_resolution fuel strictness_arg cm =
     and_then (propagate_deactivation_of_chained_mode (controllers cm) cm)
       (\<lambda>cm1. and_then
          (activate_request_loop fuel (controllers cm1) strictness_arg (activate_request cm1) 0 cm1)
          (\<lambda>cm2. and_then
             (deactivate_request_loop (controllers cm2) strictness_arg (deactivate_request cm2) 0 cm2)
             (prepare_switch (controllers cm2) strictness_arg)))"

definition switch_request_checks ::
  "nat \<Rightarrow> string list \<Rightarrow> string list \<Rightarrow> int \<Rightarrow> ControllerManager
     \<Rightarrow> flow \<times> ControllerManager" where
  "switch_request_checks fuel activate_names deactivate_names strictness_arg cm =
     (if \<not> resource_manager_initialized cm then (Return ERROR, cm)
      else
        (let cm0 = cm\<lparr>switch_params := SwitchParams_reset (switch_params cm)\<rparr>
         in if \<not> (deactivate_request cm0 = [] \<and> activate_request cm0 = [])
            then (Throw RuntimeError, cm0)
            else if \<not> (deactivate_command_interface_request cm0 = []
                         \<and> activate_command_interface_request cm0 = [])
            then (Throw RuntimeError, cm0)
            else if \<not> (from_chained_mode_request cm0 = [] \<and> to_chained_mode_request cm0 = [])
            then (Throw RuntimeError, cm0)
            else
              (let s = effective_strictness (default_switch_strictness cm0) strictness_arg
               in and_then (resolve_requests activate_names deactivate_names s cm0)
                    (checks_after_resolution fuel s))))"

section \<open>The control cycle: update\<close>

text \<open>
  \<^verbatim>\<open>ControllerUpdateStatus\<close>, as far as \<^verbatim>\<open>update\<close> reads it for its decisions (the
  execution time and the period only feed the statistics).
\<close>

record ControllerUpdateStatus =
  successful :: bool
  update_result :: return_type

text \<open>
  What one cycle takes from outside: whether the node clock has started, the reading of
  the trigger clock taken when a controller is examined, what \<^verbatim>\<open>trigger_update\<close> of a
  controller returns or throws, and whether \<^verbatim>\<open>manage_switch\<close> gets its try-lock.
\<close>

record CycleEnv =
  clock_started :: bool
  trigger_clock_now :: "string \<Rightarrow> int"
  trigger_update :: "string \<Rightarrow> exception + ControllerUpdateStatus"
  switch_mutex_free :: bool

text \<open>
  Double-precision arithmetic. A finite \<^verbatim>\<open>double\<close> is a rational number \<open>m * 2\<^sup>e\<close> with
  \<open>\<bar>m\<bar> < 2\<^sup>5\<^sup>3\<close>, and an arithmetic operation or a conversion yields the exact result
  rounded to the nearest such number, a tie going to the one with \<open>m\<close> even. \<open>bit_length n\<close>
  is the number of binary digits of \<open>n\<close>; \<open>binade a\<close> is the \<open>k\<close> with
  \<open>2\<^sup>k \<le> a < 2\<^sup>k\<^sup>+\<^sup>1\<close> for a positive \<open>a\<close>; \<open>round_double x\<close> scales \<open>\<bar>x\<bar>\<close> by a power of
  two into the range from \<open>2\<^sup>5\<^sup>2\<close> to \<open>2\<^sup>5\<^sup>3\<close>, rounds it to an integer and scales it back.
  The range of the exponent is not limited: the numbers that occur in \<^verbatim>\<open>update\<close>, a 64-bit
  count of nanoseconds divided by \<open>10\<^sup>9\<close> and multiplied by a 32-bit rate, are zero or lie
  well inside the range of the normal numbers.
\<close>

function bit_length :: "int \<Rightarrow> int" where
  "bit_length n = (if n \<le> 0 then 0 else 1 + bit_length (n div 2))"
  by pat_completeness auto

termination bit_length
proof (relation "measure nat")
  show "wf (measure nat)" by simp
next
  fix n :: int
  assume positive: "\<not> n \<le> 0"
  then have "n div 2 < n" by linarith
  then show "(n div 2, n) \<in> measure nat"
    using positive by simp
qed

declare bit_length.simps [simp del]

definition two_to :: "int \<Rightarrow> rat" where
  "two_to e = (if 0 \<le> e then 2 ^ nat e else 1 / 2 ^ nat (- e))"

definition binade :: "rat \<Rightarrow> int" where
  "binade a =
     (let (p, q) = quotient_of a;
          k = bit_length p - bit_length q
      in if two_to k \<le> a then k else k - 1)"

definition round_half_even :: "rat \<Rightarrow> int" where
  "round_half_even x =
     (let f = \<lfloor>x\<rfloor>; r = x - of_int f
      in if r < 1 / 2 then f else if 1 / 2 < r then f + 1 else if even f then f else f + 1)"

definition round_double :: "rat \<Rightarrow> rat" where
  "round_double x =
     (if x = 0 then 0
      else (let e = binade \<bar>x\<bar> - 52
            in sgn x * of_int (round_half_even (\<bar>x\<bar> / two_to e)) * two_to e))"

text \<open>
  \<^verbatim>\<open>rclcpp::Duration::seconds()\<close> of a duration in nanoseconds: the conversion of the
  nanosecond count to \<^verbatim>\<open>std::chrono::duration<double>\<close>, which converts the 64-bit count to
  \<^verbatim>\<open>double\<close> and divides it by \<^verbatim>\<open>1e9\<close>.
\<close>

definition seconds :: "int \<Rightarrow> rat" where
  "seconds d = round_double (round_double (of_int d) / round_double 1000000000)"

text \<open>
  An active asynchronous controller is passed over while a switch request that deactivates
  it is pending.
\<close>

definition skip_async_update :: "ControllerManager \<Rightarrow> ControllerSpec \<Rightarrow> bool" where
  "skip_async_update cm loaded_controller =
     (do_switch (switch_params cm) \<and> is_async (cobj loaded_controller)
      \<and> name (info loaded_controller) \<in> set (deactivate_request cm))"

text \<open>
  The flag \<^verbatim>\<open>controller_go\<close>. \<open>time_arg\<close> is the \<^verbatim>\<open>time\<close> argument of \<^verbatim>\<open>update\<close>,
  \<open>current_time\<close> the time read for this controller. In the first cycle after an activation
  \<^verbatim>\<open>last_update_cycle_time\<close> is zero and is set to the current time before the period is
  taken. The local \<^verbatim>\<open>controller_period\<close> is computed and never read. The product of the
  period in seconds and the rate (an \<^verbatim>\<open>unsigned int\<close>, converted to \<^verbatim>\<open>double\<close>) and its
  comparison with the literal \<^verbatim>\<open>0.99\<close> are made in double precision.
\<close>

definition controller_go :: "nat \<Rightarrow> int \<Rightarrow> int \<Rightarrow> ControllerSpec \<Rightarrow> bool" where
  "controller_go manager_rate time_arg current_time loaded_controller =
     (let controller_update_rate = update_rate (cobj loaded_controller);
          run_controller_at_cm_rate = (controller_update_rate \<ge> manager_rate);
          first_update_cycle = (last_update_cycle_time loaded_controller = 0);
          controller_actual_period =
            current_time - (if first_update_cycle then current_time
                            else last_update_cycle_time loaded_controller)
      in run_controller_at_cm_rate \<or> time_arg = 0
         \<or> round_double (seconds controller_actual_period
                           * round_double (of_nat controller_update_rate))
             \<ge> round_double (99 / 100)
         \<or> first_update_cycle)"

text \<open>
  The body of the loop over the roster for one controller: the controller with its time
  stamp, whether \<^verbatim>\<open>trigger_update\<close> was invoked, and \<^verbatim>\<open>controller_ret\<close>. An exception of
  \<^verbatim>\<open>trigger_update\<close> is caught and counts as ERROR.
\<close>

definition update_controller ::
  "ControllerManager \<Rightarrow> CycleEnv \<Rightarrow> int \<Rightarrow> ControllerSpec \<Rightarrow> ControllerSpec \<times> bool \<times> return_type" where
  "update_controller cm env time_arg loaded_controller =
     (if \<not> is_controller_active (cobj loaded_controller) then (loaded_controller, False, OK)
      else if skip_async_update cm loaded_controller then (loaded_controller, False, OK)
      else
        (let current_time = (if clock_started env
                             then trigger_clock_now env (name (info loaded_controller))
                             else time_arg);
             stamped = (if last_update_cycle_time loaded_controller = 0
                        then loaded_controller\<lparr>last_update_cycle_time := current_time\<rparr>
                        else loaded_controller)
         in if controller_go (cm_update_rate cm) time_arg current_time loaded_controller
            then (stamped\<lparr>last_update_cycle_time := current_time\<rparr>, True,
                  (case trigger_update env (name (info loaded_controller)) of
                     Inl e \<Rightarrow> ERROR
                   | Inr trigger_result \<Rightarrow> update_result trigger_result))
            else (stamped, False, OK)))"

text \<open>
  The loop over the roster. It yields the roster with the new time stamps, the names of
  the controllers whose \<^verbatim>\<open>trigger_update\<close> was invoked (in the order of the calls),
  \<^verbatim>\<open>rt_buffer_.deactivate_controllers_list\<close> and \<^verbatim>\<open>ret\<close>.
\<close>

fun update_loop ::
  "ControllerManager \<Rightarrow> CycleEnv \<Rightarrow> int \<Rightarrow> ControllerSpec list \<Rightarrow> string list \<Rightarrow> return_type
     \<Rightarrow> ControllerSpec list \<times> string list \<times> string list \<times> return_type" where
  "update_loop cm env time_arg [] failed ret = ([], [], failed, ret)"
| "update_loop cm env time_arg (loaded_controller # rest) failed ret =
     (let (updated, triggered, controller_ret) = update_controller cm env time_arg loaded_controller;
          (rest', triggered_rest, failed', ret') =
            (if controller_ret \<noteq> OK
             then update_loop cm env time_arg rest
                    (failed @ [name (info loaded_controller)]) controller_ret
             else update_loop cm env time_arg rest failed ret)
      in (updated # rest',
          (if triggered then name (info loaded_controller) # triggered_rest else triggered_rest),
          failed', ret'))"

text \<open>
  The loop that collects, for the controllers of the deactivate list, their fallback
  controllers and the active controllers that use a command interface of a fallback.
\<close>

fun collect_fallbacks_of ::
  "string list \<Rightarrow> ControllerSpec list \<Rightarrow> RTBufferVariables \<Rightarrow> RTBufferVariables" where
  "collect_fallbacks_of [] rt_controller_list buf = buf"
| "collect_fallbacks_of (fallback_controller # rest) rt_controller_list buf =
     collect_fallbacks_of rest rt_controller_list
       (buf\<lparr>fallback_controllers_list := fallback_controllers_list buf @ [fallback_controller],
            activate_controllers_using_interfaces_list :=
              get_active_controllers_using_command_interfaces_of_controller fallback_controller
                rt_controller_list (activate_controllers_using_interfaces_list buf)\<rparr>)"

fun collect_fallbacks ::
  "string list \<Rightarrow> ControllerSpec list \<Rightarrow> RTBufferVariables \<Rightarrow> RTBufferVariables" where
  "collect_fallbacks [] rt_controller_list buf = buf"
| "collect_fallbacks (failed_ctrl # rest) rt_controller_list buf =
     collect_fallbacks rest rt_controller_list
       (case find_controller rt_controller_list failed_ctrl of
          Some ctrl_it \<Rightarrow>
            collect_fallbacks_of (fallback_controllers_names (info ctrl_it)) rt_controller_list buf
        | None \<Rightarrow> buf)"

text \<open>
  \<^verbatim>\<open>perform_hardware_command_mode_change\<close>: the interfaces to stop and to start are
  collected; the verdict of the hardware is only logged.
\<close>

definition perform_hardware_command_mode_change ::
  "ControllerSpec list \<Rightarrow> string list \<Rightarrow> string list \<Rightarrow> ResourceManager \<Rightarrow> RTBufferVariables
     \<Rightarrow> RTBufferVariables" where
  "perform_hardware_command_mode_change rt_controller_list activate_controllers_list
       deactivate_list rm buf =
     buf\<lparr>interfaces_to_stop :=
           get_controller_list_command_interfaces deactivate_list rt_controller_list rm [],
         interfaces_to_start :=
           get_controller_list_command_interfaces activate_controllers_list rt_controller_list rm []\<rparr>"

text \<open>
  The block of \<^verbatim>\<open>update\<close> entered when the deactivate list is not empty after the loop:
  it runs in the same call of \<^verbatim>\<open>update\<close> as the loop that found the failures.
\<close>

definition handle_update_errors :: "ControllerManager \<Rightarrow> ControllerManager" where
  "handle_update_errors cm =
     (if deactivate_controllers_list (rt_buffer cm) = [] then cm
      else
        (let buf1 = collect_fallbacks (deactivate_controllers_list (rt_buffer cm)) (controllers cm)
                      ((rt_buffer cm)\<lparr>fallback_controllers_list := [],
                                      activate_controllers_using_interfaces_list := []\<rparr>);
             buf2 = buf1\<lparr>deactivate_controllers_list :=
                          foldl add_item (deactivate_controllers_list buf1)
                            (activate_controllers_using_interfaces_list buf1)\<rparr>;
             buf3 = perform_hardware_command_mode_change (controllers cm)
                      (fallback_controllers_list buf2) (deactivate_controllers_list buf2)
                      (resource_manager cm) buf2;
             (l1, rm1) = deactivate_controllers (controllers cm) (resource_manager cm)
                           (deactivate_controllers_list buf3);
             (l2, rm2) = (if fallback_controllers_list buf3 \<noteq> []
                          then activate_controllers l1 rm1 (fallback_controllers_list buf3)
                          else (l1, rm1))
         in cm\<lparr>controllers := l2, resource_manager := rm2, rt_buffer := buf3\<rparr>))"

text \<open>
  \<^verbatim>\<open>update\<close>: the result or the exception, the manager, and the names of the controllers
  whose \<^verbatim>\<open>trigger_update\<close> was invoked in this cycle. The remainder by a manager rate of
  zero has no defined behaviour; the model stops there.
\<close>

definition update ::
  "CycleEnv \<Rightarrow> int \<Rightarrow> int \<Rightarrow> ControllerManager
     \<Rightarrow> (exception + return_type) \<times> ControllerManager \<times> string list" where
  "update env time_arg period cm =
     (if cm_update_rate cm = 0 then (Inl DivisionByZero, cm, [])
      else
        (let cm0 = cm\<lparr>update_loop_counter := (update_loop_counter cm + 1) mod cm_update_rate cm\<rparr>
         in if \<not> clock_started env \<and> time_arg = 0 then (Inl RuntimeError, cm0, [])
            else
              (let (l, triggered, failed, ret) =
                     update_loop cm0 env time_arg (controllers cm0) [] OK;
                   cm1 = cm0\<lparr>controllers := l,
                             rt_buffer := (rt_buffer cm0)\<lparr>deactivate_controllers_list := failed\<rparr>\<rparr>;
                   cm2 = handle_update_errors cm1;
                   cm3 = (if do_switch (switch_params cm2)
                          then manage_switch (switch_mutex_free env) cm2 else cm2)
               in (Inr ret, cm3, triggered))))"

section \<open>load\_controller\<close>

text \<open>
  What loading takes from outside: the two plugin loaders (whether a class is available,
  and the instance created or the exception thrown) and the \<^verbatim>\<open>init\<close> method of the new
  controller.
\<close>

record LoadEnv =
  loader_isClassAvailable :: "string \<Rightarrow> bool"
  chainable_loader_isClassAvailable :: "string \<Rightarrow> bool"
  loader_createSharedInstance :: "string \<Rightarrow> exception + ControllerInterfaceBase"
  chainable_loader_createSharedInstance :: "string \<Rightarrow> exception + ControllerInterfaceBase"
  controller_init :: "ControllerInterfaceBase \<Rightarrow> exception + (return_type \<times> ControllerInterfaceBase)"

text \<open>Exceptions derived from \<^verbatim>\<open>std::exception\<close>, as opposed to those only \<^verbatim>\<open>catch (...)\<close> sees.\<close>

definition is_std_exception :: "exception \<Rightarrow> bool" where
  "is_std_exception e = (e \<noteq> UnknownException)"

text \<open>
  \<^verbatim>\<open>add_controller_impl\<close>: \<open>None\<close> is the null pointer. The chain specification and the
  two chained-interface caches get an empty entry for the new controller.
\<close>

definition add_controller_impl ::
  "LoadEnv \<Rightarrow> ControllerSpec \<Rightarrow> ControllerManager
     \<Rightarrow> ControllerInterfaceBase option \<times> ControllerManager" where
  "add_controller_impl env controller cm =
     (if find_controller (controllers cm) (name (info controller)) \<noteq> None then (None, cm)
      else case controller_init env (cobj controller) of
        Inl e \<Rightarrow> (None, cm)
      | Inr (ERROR, initialized) \<Rightarrow> (None, cm)
      | Inr (OK, initialized) \<Rightarrow>
          (Some initialized,
           cm\<lparr>controllers := controllers cm @ [controller\<lparr>cobj := initialized\<rparr>],
              controller_chained_state_interfaces_cache :=
                (controller_chained_state_interfaces_cache cm)(name (info controller) := []),
              controller_chained_reference_interfaces_cache :=
                (controller_chained_reference_interfaces_cache cm)
                  (name (info controller) := [])\<rparr>))"

text \<open>
  Modelled from the spec: the parameter interface of the node (rclcpp) is not under src/.
  \<^verbatim>\<open>declare_parameter\<close> with a type only records the name; \<^verbatim>\<open>get_parameter\<close> into a
  vector of strings yields false for a parameter that is not set and throws for a
  parameter of another type.
\<close>

definition declare_if_missing :: "string \<Rightarrow> ControllerManager \<Rightarrow> ControllerManager" where
  "declare_if_missing param_name cm =
     (if param_name \<in> set (declared_parameters cm) then cm
      else case parameters cm param_name of
        Some v \<Rightarrow> cm
      | None \<Rightarrow> cm\<lparr>declared_parameters := declared_parameters cm @ [param_name]\<rparr>)"

definition get_string_array_parameter ::
  "ControllerManager \<Rightarrow> string \<Rightarrow> exception + (bool \<times> string list)" where
  "get_string_array_parameter cm param_name =
     (case parameters cm param_name of
        None \<Rightarrow> Inr (False, [])
      | Some (PARAMETER_STRING_ARRAY xs) \<Rightarrow> Inr (True, xs)
      | Some other \<Rightarrow> Inl InvalidParameterType)"

definition params_files_of :: "ControllerManager \<Rightarrow> string \<Rightarrow> string list" where
  "params_files_of cm param_name =
     (case parameters cm param_name of
        Some (PARAMETER_STRING_ARRAY xs) \<Rightarrow> xs
      | Some (PARAMETER_STRING x) \<Rightarrow> [x]
      | other \<Rightarrow> [])"

text \<open>The instance the two loaders yield: the chainable loader is asked last and wins.\<close>

definition create_controller :: "LoadEnv \<Rightarrow> string \<Rightarrow> exception + ControllerInterfaceBase option" where
  "create_controller env type_name =
     (case (if loader_isClassAvailable env type_name
            then map_sum id Some (loader_createSharedInstance env type_name)
            else Inr None) of
        Inl e \<Rightarrow> Inl e
      | Inr created \<Rightarrow>
          if chainable_loader_isClassAvailable env type_name
          then map_sum id Some (chainable_loader_createSharedInstance env type_name)
          else Inr created)"

text \<open>
  \<^verbatim>\<open>load_controller(controller_name, controller_type)\<close>: the pointer returned (\<open>None\<close> is
  null) or the exception that leaves the function, and the manager. Past the first test one
  of the loaders has the class, so an instance was created or an exception was thrown; the
  branch for "no instance" is never taken.
\<close>

definition load_controller ::
  "LoadEnv \<Rightarrow> string \<Rightarrow> string \<Rightarrow> ControllerManager
     \<Rightarrow> (exception + ControllerInterfaceBase option) \<times> ControllerManager" where
  "load_controller env controller_name type_name cm =
     (if \<not> loader_isClassAvailable env type_name
         \<and> \<not> chainable_loader_isClassAvailable env type_name
      then (Inr None, cm)
      else case create_controller env type_name of
        Inl e \<Rightarrow> (if is_std_exception e then (Inr None, cm) else (Inl e, cm))
      | Inr None \<Rightarrow> (Inl UnknownException, cm)
      | Inr (Some controller) \<Rightarrow>
          (let files = params_files_of cm (controller_name @ ''.params_file'');
               fallback_ctrl_param = controller_name @ ''.fallback_controllers'';
               cm1 = declare_if_missing fallback_ctrl_param cm
           in case get_string_array_parameter cm1 fallback_ctrl_param of
                Inl e \<Rightarrow> (Inl e, cm1)
              | Inr (is_set, fallback_controllers) \<Rightarrow>
                  if is_set \<and> fallback_controllers \<noteq> []
                     \<and> controller_name \<in> set fallback_controllers
                  then (Inr None, cm1)
                  else
                    (let node_options_args_param = controller_name @ ''.node_options_args'';
                         cm2 = declare_if_missing node_options_args_param cm1
                     in case get_string_array_parameter cm2 node_options_args_param of
                          Inl e \<Rightarrow> (Inl e, cm2)
                        | Inr (args_set, args) \<Rightarrow>
                            (let controller_spec =
                                   \<lparr>cobj = controller,
                                    info = \<lparr>name = controller_name,
                                            controller_type = type_name,
                                            claimed_interfaces = [],
                                            fallback_controllers_names =
                                              (if is_set \<and> fallback_controllers \<noteq> []
                                               then fallback_controllers else []),
                                            parameters_files = files,
                                            node_options_args =
                                              (if args_set \<and> args \<noteq> [] then args else [])\<rparr>,
                                    last_update_cycle_time = 0\<rparr>;
                                 (loaded, cm3) = add_controller_impl env controller_spec cm2
                             in (Inr loaded, cm3)))))"

section \<open>Auxiliary notions for the statements\<close>

text \<open>
  The validation of a switch request reads the roster and the chained-interface caches and
  never writes them: \<open>same_roster cm cm'\<close> says that \<open>cm'\<close> has the roster and the caches
  of \<open>cm\<close>. \<open>requests_kept cm cm'\<close> says that the activate and the deactivate request are
  the same in both.
\<close>

definition same_roster :: "ControllerManager \<Rightarrow> ControllerManager \<Rightarrow> bool" where
  "same_roster cm cm' =
     (controllers cm' = controllers cm
      \<and> controller_chained_state_interfaces_cache cm' =
          controller_chained_state_interfaces_cache cm
      \<and> controller_chained_reference_interfaces_cache cm' =
          controller_chained_reference_interfaces_cache cm)"

definition requests_kept :: "ControllerManager \<Rightarrow> ControllerManager \<Rightarrow> bool" where
  "requests_kept cm cm' =
     (activate_request cm' = activate_request cm
      \<and> deactivate_request cm' = deactivate_request cm)"

text \<open>Whether a name resolves against a roster.\<close>

definition in_roster :: "ControllerSpec list \<Rightarrow> string \<Rightarrow> bool" where
  "in_roster ctrls n = (find_controller ctrls n \<noteq> None)"

text \<open>The six request lists of the manager are empty.\<close>

definition requests_cleared :: "ControllerManager \<Rightarrow> bool" where
  "requests_cleared cm =
     (activate_request cm = [] \<and> deactivate_request cm = []
      \<and> to_chained_mode_request cm = [] \<and> from_chained_mode_request cm = []
      \<and> activate_command_interface_request cm = []
      \<and> deactivate_command_interface_request cm = [])"

text \<open>
  \<open>covers act deact cm\<close>: the request lists of \<open>cm\<close> hold every name of the caller's
  lists \<open>act\<close> and \<open>deact\<close>, and a name that the caller wants deactivated is in the
  activate request only if the caller wants it activated as well.
\<close>

definition covers :: "string list \<Rightarrow> string list \<Rightarrow> ControllerManager \<Rightarrow> bool" where
  "covers act deact cm =
     (set act \<subseteq> set (activate_request cm)
      \<and> set deact \<subseteq> set (deactivate_request cm)
      \<and> set (activate_request cm) \<inter> set deact \<subseteq> set act)"

text \<open>
  What a successful switch promises for the lists \<open>act\<close> and \<open>deact\<close>: every controller
  of the roster named in \<open>act\<close> is active, and every controller of the roster named in
  \<open>deact\<close> and not in \<open>act\<close> is not active.
\<close>

definition switched :: "string list \<Rightarrow> string list \<Rightarrow> ControllerSpec list \<Rightarrow> bool" where
  "switched act deact ctrls =
     list_all (\<lambda>a. (if name (info a) \<in> set act then is_controller_active (cobj a)
                     else if name (info a) \<in> set deact then \<not> is_controller_active (cobj a)
                     else True))
       ctrls"


definition stamp :: "ControllerManager \<Rightarrow> CycleEnv \<Rightarrow> int \<Rightarrow> ControllerSpec \<Rightarrow> ControllerSpec" where
  "stamp cm env time_arg loaded_controller =
     fst (update_controller cm env time_arg loaded_controller)"

definition fallbacks_of :: "ControllerSpec list \<Rightarrow> string list \<Rightarrow> string list" where
  "fallbacks_of ctrls failed =
     concat (map (\<lambda>n. case find_controller ctrls n of
                        Some found \<Rightarrow> fallback_controllers_names (info found)
                      | None \<Rightarrow> [])
               failed)"

definition shares_command_interface ::
  "ControllerSpec list \<Rightarrow> string list \<Rightarrow> ControllerSpec \<Rightarrow> bool" where
  "shares_command_interface ctrls fbs a =
     list_ex (\<lambda>fb. case find_controller ctrls fb of
                     None \<Rightarrow> False
                   | Some b \<Rightarrow>
                       list_ex (\<lambda>i. i \<in> set (names (command_interface_configuration (cobj a))))
                         (names (command_interface_configuration (cobj b))))
       fbs"

section \<open>Scenarios\<close>

text \<open>
  Concrete controllers, hardware and managers for the scenarios of the specification. A
  test controller requires the given command interfaces individually and no state
  interface, runs at the rate of the manager, and its callbacks succeed.
\<close>

definition test_controller :: "lifecycle_state \<Rightarrow> string list \<Rightarrow> ControllerInterfaceBase" where
  "test_controller st cmd_names =
     \<lparr>lifecycle = st, update_rate = 100, is_async = False, is_chainable = False,
      is_in_chained_mode = False,
      command_interface_configuration = \<lparr>config_type = INDIVIDUAL, names = cmd_names\<rparr>,
      state_interface_configuration = \<lparr>config_type = NONE, names = []\<rparr>,
      command_interfaces = (if st = PRIMARY_STATE_ACTIVE then cmd_names else []),
      state_interfaces = [],
      on_activate = Inr SUCCESS, on_deactivate = Inr SUCCESS, on_error = SUCCESS,
      on_set_chained_mode = True\<rparr>"

definition roster_entry :: "string \<Rightarrow> string list \<Rightarrow> ControllerInterfaceBase \<Rightarrow> ControllerSpec" where
  "roster_entry n fallbacks ctrl =
     \<lparr>cobj = ctrl,
      info = \<lparr>name = n, controller_type = ''test_controller'',
              claimed_interfaces = command_interfaces ctrl,
              fallback_controllers_names = fallbacks,
              parameters_files = [], node_options_args = []\<rparr>,
      last_update_cycle_time = 0\<rparr>"

text \<open>Hardware with the given command interfaces available and the given ones claimed.\<close>

definition test_hardware :: "string list \<Rightarrow> string list \<Rightarrow> ResourceManager" where
  "test_hardware available claimed =
     \<lparr>available_command_interfaces = available,
      available_state_interfaces = [],
      claimed_command_interfaces = claimed,
      controller_reference_interface_names = (\<lambda>n. []),
      controller_exported_state_interface_names = (\<lambda>n. []),
      prepare_command_mode_switch = (\<lambda>start stop. True),
      perform_command_mode_switch = (\<lambda>start stop. True),
      cached_controllers_to_hardware = []\<rparr>"

text \<open>A manager at 100 Hz with no pending request and BEST\_EFFORT as default strictness.\<close>

definition test_manager :: "ControllerSpec list \<Rightarrow> ResourceManager \<Rightarrow> ControllerManager" where
  "test_manager roster rm =
     \<lparr>controllers = roster,
      resource_manager = rm,
      resource_manager_initialized = True,
      switch_params = \<lparr>do_switch = False, strictness = 0, activate_asap = False, timeout = 0\<rparr>,
      deactivate_request = [],
      activate_request = [],
      to_chained_mode_request = [],
      from_chained_mode_request = [],
      activate_command_interface_request = [],
      deactivate_command_interface_request = [],
      controller_chained_state_interfaces_cache = (\<lambda>n. []),
      controller_chained_reference_interfaces_cache = (\<lambda>n. []),
      rt_buffer = \<lparr>deactivate_controllers_list = [], fallback_controllers_list = [],
                   activate_controllers_using_interfaces_list = [],
                   interfaces_to_start = [], interfaces_to_stop = []\<rparr>,
      cm_update_rate = 100,
      update_loop_counter = 0,
      default_switch_strictness = ''best_effort'',
      parameters = (\<lambda>n. None),
      declared_parameters = []\<rparr>"

text \<open>The lifecycle states of a roster, by name.\<close>

definition states_of :: "ControllerManager \<Rightarrow> (string \<times> lifecycle_state) list" where
  "states_of cm = map (\<lambda>a. (name (info a), lifecycle (cobj a))) (controllers cm)"

text \<open>Scenario S5: one inactive controller \<open>c1\<close> on \<open>joint1/position_cmd\<close>.\<close>

definition scenario_S5 :: ControllerManager where
  "scenario_S5 =
     test_manager
       [roster_entry ''c1'' [] (test_controller PRIMARY_STATE_INACTIVE [''joint1/position_cmd''])]
       (test_hardware [''joint1/position_cmd''] [])"

text \<open>
  Scenario S3 (the steady state of S2): the chainable controller \<open>pid1\<close> is active in
  chained mode and exports \<open>pid1/position_ref\<close>; \<open>traj\<close> is active and writes to it, so
  \<open>traj\<close> is recorded as the preceding controller of \<open>pid1\<close>.
\<close>

definition scenario_S3 :: ControllerManager where
  "scenario_S3 =
     (test_manager
        [roster_entry ''pid1'' []
           ((test_controller PRIMARY_STATE_ACTIVE [''joint1/position_cmd''])
              \<lparr>is_chainable := True, is_in_chained_mode := True\<rparr>),
         roster_entry ''traj'' [] (test_controller PRIMARY_STATE_ACTIVE [''pid1/position_ref''])]
        ((test_hardware [''joint1/position_cmd'', ''pid1/position_ref'']
            [''joint1/position_cmd'', ''pid1/position_ref''])
           \<lparr>controller_reference_interface_names :=
              (\<lambda>n. if n = ''pid1'' then [''pid1/position_ref''] else [])\<rparr>))
       \<lparr>controller_chained_reference_interfaces_cache :=
          (\<lambda>n. if n = ''pid1'' then [''traj''] else [])\<rparr>"

text \<open>
  A restart in one request: \<open>a\<close> and \<open>b\<close> are active on their own command interfaces;
  the deactivate callback of \<open>b\<close> reports an error, which its error hook handles.
\<close>

definition scenario_restart :: ControllerManager where
  "scenario_restart =
     test_manager
       [roster_entry ''a'' [] (test_controller PRIMARY_STATE_ACTIVE [''joint1/position_cmd'']),
        roster_entry ''b'' []
          ((test_controller PRIMARY_STATE_ACTIVE [''joint2/position_cmd''])
             \<lparr>on_deactivate := Inr CALLBACK_ERROR\<rparr>)]
       (test_hardware [''joint1/position_cmd'', ''joint2/position_cmd'']
          [''joint1/position_cmd'', ''joint2/position_cmd''])"

text \<open>
  Scenario with a controller that was never configured: \<open>c1\<close> is inactive on
  \<open>joint1/position_cmd\<close>, \<open>u\<close> is unconfigured on \<open>joint2/position_cmd\<close>.
\<close>

definition scenario_unconfigured :: ControllerManager where
  "scenario_unconfigured =
     test_manager
       [roster_entry ''c1'' [] (test_controller PRIMARY_STATE_INACTIVE [''joint1/position_cmd'']),
        roster_entry ''u'' [] (test_controller PRIMARY_STATE_UNCONFIGURED [''joint2/position_cmd''])]
       (test_hardware [''joint1/position_cmd'', ''joint2/position_cmd''] [])"

text \<open>
  A plugin environment that knows the class \<open>test_controller\<close>, creates an unconfigured
  instance of it and initialises it; and scenario S5 with the parameter
  \<open>c2.fallback_controllers\<close> set to the given list.
\<close>

definition test_load_env :: LoadEnv where
  "test_load_env =
     \<lparr>loader_isClassAvailable = (\<lambda>t. t = ''test_controller''),
      chainable_loader_isClassAvailable = (\<lambda>t. False),
      loader_createSharedInstance =
        (\<lambda>t. Inr (test_controller PRIMARY_STATE_UNCONFIGURED [''joint2/position_cmd''])),
      chainable_loader_createSharedInstance = (\<lambda>t. Inl RuntimeError),
      controller_init = (\<lambda>ctrl. Inr (OK, ctrl))\<rparr>"

text \<open>
  The same environment with a plugin whose constructor throws something that is not a
  \<^verbatim>\<open>std::exception\<close>.
\<close>

definition foreign_exception_env :: LoadEnv where
  "foreign_exception_env =
     test_load_env\<lparr>loader_createSharedInstance := (\<lambda>t. Inl UnknownException)\<rparr>"

definition scenario_fallbacks :: "string list \<Rightarrow> ControllerManager" where
  "scenario_fallbacks fbs =
     scenario_S5\<lparr>parameters :=
       (\<lambda>n. if n = ''c2.fallback_controllers'' then Some (PARAMETER_STRING_ARRAY fbs)
            else None)\<rparr>"

text \<open>
  A cycle environment whose clock has started and reads \<open>now\<close> for every controller, in
  which \<^verbatim>\<open>trigger_update\<close> returns ERROR for the controllers named in \<open>failing\<close> and OK
  for the others.
\<close>

definition test_cycle_env :: "int \<Rightarrow> string list \<Rightarrow> CycleEnv" where
  "test_cycle_env now failing =
     \<lparr>clock_started = True,
      trigger_clock_now = (\<lambda>n. now),
      trigger_update =
        (\<lambda>n. Inr \<lparr>successful = True,
                     update_result = (if n \<in> set failing then ERROR else OK)\<rparr>),
      switch_mutex_free = True\<rparr>"

text \<open>A roster entry for an active controller with a given rate and time of last update.\<close>

definition rated_entry :: "string \<Rightarrow> nat \<Rightarrow> int \<Rightarrow> string \<Rightarrow> ControllerSpec" where
  "rated_entry n rate last_time itf =
     (roster_entry n [] ((test_controller PRIMARY_STATE_ACTIVE [itf])\<lparr>update_rate := rate\<rparr>))
       \<lparr>last_update_cycle_time := last_time\<rparr>"

text \<open>
  Scenario S6 and its variations, under a manager at 100 Hz and read at time 2 s:
  \<open>fast\<close> runs at the rate of the manager; \<open>due\<close> runs at 50 Hz and was updated 20 ms
  ago; \<open>early\<close> runs at 50 Hz and was updated 10 ms ago; \<open>fresh\<close> runs at 50 Hz and has
  not been updated since its activation; \<open>idle\<close> runs at 100 Hz and is inactive.
\<close>

definition scenario_S6 :: ControllerManager where
  "scenario_S6 =
     test_manager
       [rated_entry ''fast'' 100 1990000000 ''joint1/position_cmd'',
        rated_entry ''due'' 50 1980000000 ''joint2/position_cmd'',
        rated_entry ''early'' 50 1990000000 ''joint3/position_cmd'',
        rated_entry ''fresh'' 50 0 ''joint4/position_cmd'',
        roster_entry ''idle'' [] (test_controller PRIMARY_STATE_INACTIVE [''joint5/position_cmd''])]
       (test_hardware
          [''joint1/position_cmd'', ''joint2/position_cmd'', ''joint3/position_cmd'',
           ''joint4/position_cmd'', ''joint5/position_cmd'']
          [''joint1/position_cmd'', ''joint2/position_cmd'', ''joint3/position_cmd'',
           ''joint4/position_cmd''])"

text \<open>
  A controller at 55 Hz under a manager at 100 Hz, updated 18 ms before the time 2 s: the
  period multiplied by the rate is 0.99.
\<close>

definition scenario_boundary :: ControllerManager where
  "scenario_boundary =
     test_manager [rated_entry ''edge'' 55 1982000000 ''joint1/position_cmd'']
       (test_hardware [''joint1/position_cmd''] [''joint1/position_cmd''])"

text \<open>
  An asynchronous controller at the rate of the manager, active, while a switch request
  that deactivates it is pending.
\<close>

definition scenario_async :: ControllerManager where
  "scenario_async =
     (test_manager
        [roster_entry ''cam'' []
           ((test_controller PRIMARY_STATE_ACTIVE [''joint1/position_cmd''])\<lparr>is_async := True\<rparr>)
           \<lparr>last_update_cycle_time := 1990000000\<rparr>]
        (test_hardware [''joint1/position_cmd''] [''joint1/position_cmd'']))
       \<lparr>switch_params := \<lparr>do_switch = True, strictness = STRICT, activate_asap = False,
                           timeout = 1000000000\<rparr>,
        deactivate_request := [''cam'']\<rparr>"


text \<open>
  A chainable controller \<open>pid1\<close>, active and not in chained mode, whose preceding
  controller \<open>traj\<close> is inactive.
\<close>

definition scenario_inactive_preceding :: ControllerManager where
  "scenario_inactive_preceding =
     (test_manager
        [roster_entry ''pid1'' []
           ((test_controller PRIMARY_STATE_ACTIVE [''joint1/position_cmd''])
              \<lparr>is_chainable := True\<rparr>),
         roster_entry ''traj'' [] (test_controller PRIMARY_STATE_INACTIVE [''pid1/position_ref''])]
        ((test_hardware [''joint1/position_cmd'', ''pid1/position_ref''] [''joint1/position_cmd''])
           \<lparr>controller_reference_interface_names :=
              (\<lambda>n. if n = ''pid1'' then [''pid1/position_ref''] else [])\<rparr>))
       \<lparr>controller_chained_reference_interfaces_cache :=
          (\<lambda>n. if n = ''pid1'' then [''traj''] else [])\<rparr>"

text \<open>
  The chainable controller \<open>pid1\<close>, active in chained mode, with two active preceding
  controllers: \<open>traj\<close> writes to \<open>pid1/position_ref\<close> and \<open>feed\<close> to \<open>pid1/velocity_ref\<close>.
\<close>

definition scenario_two_preceding :: ControllerManager where
  "scenario_two_preceding =
     (test_manager
        [roster_entry ''pid1'' []
           ((test_controller PRIMARY_STATE_ACTIVE [''joint1/position_cmd''])
              \<lparr>is_chainable := True, is_in_chained_mode := True\<rparr>),
         roster_entry ''traj'' [] (test_controller PRIMARY_STATE_ACTIVE [''pid1/position_ref'']),
         roster_entry ''feed'' [] (test_controller PRIMARY_STATE_ACTIVE [''pid1/velocity_ref''])]
        ((test_hardware [''joint1/position_cmd'', ''pid1/position_ref'', ''pid1/velocity_ref'']
            [''joint1/position_cmd'', ''pid1/position_ref'', ''pid1/velocity_ref''])
           \<lparr>controller_reference_interface_names :=
              (\<lambda>n. if n = ''pid1'' then [''pid1/position_ref'', ''pid1/velocity_ref'']
                   else [])\<rparr>))
       \<lparr>controller_chained_reference_interfaces_cache :=
          (\<lambda>n. if n = ''pid1'' then [''traj'', ''feed''] else [])\<rparr>"

section \<open>Properties of the interface handle\<close>

text \<open>
  Claim C7. A \<^verbatim>\<open>get_optional\<close> call whose shared try-lock fails returns no value, for
  either requested type. A \<^verbatim>\<open>set_value\<close> call whose exclusive try-lock fails returns
  false and leaves the handle and the store of hardware doubles as they were. When the lock
  is held and \<^verbatim>\<open>set_value\<close> returns for a value of the handle's declared data type, it
  returns true, the declared type is unchanged, and the value read back from the handle is
  the value given.
\<close>

theorem handle_try_lock_contract:
  "Handle_get_optional_double False h mem = Inr None
   \<and> Handle_get_optional_bool False g = Inr None
   \<and> Handle_set_value_double False v h mem = Inr (False, h, mem)
   \<and> Handle_set_value_bool False b g = Inr (False, g)
   \<and> (data_type h = DOUBLE \<and> Handle_set_value_double True v h mem = Inr (ok, h', mem') \<longrightarrow>
        ok \<and> data_type h' = DOUBLE \<and> deref h' mem' = Some v
        \<and> Handle_get_optional_double True h' mem' = Inr (Some v))
   \<and> (data_type g = BOOL \<and> Handle_set_value_bool True b g = Inr (okb, g') \<longrightarrow>
        okb \<and> data_type g' = BOOL \<and> handle_value g' = V_bool b
        \<and> Handle_get_optional_bool True g' = Inr (Some b))"
proof (intro conjI impI)
  show "Handle_get_optional_double False h mem = Inr None"
    by (simp add: Handle_get_optional_double_def)
  show "Handle_get_optional_bool False g = Inr None"
    by (simp add: Handle_get_optional_bool_def)
  show "Handle_set_value_double False v h mem = Inr (False, h, mem)"
    by (simp add: Handle_set_value_double_def)
  show "Handle_set_value_bool False b g = Inr (False, g)"
    by (simp add: Handle_set_value_bool_def)
next
  assume a: "data_type h = DOUBLE \<and> Handle_set_value_double True v h mem = Inr (ok, h', mem')"
  then have written: "ok \<and> data_type h' = DOUBLE \<and> deref h' mem' = Some v"
    by (auto simp: Handle_set_value_double_def
        split: double_ptr.splits HANDLE_DATATYPE.splits)
  then show "ok" "data_type h' = DOUBLE" "deref h' mem' = Some v"
    by simp_all
  from written show "Handle_get_optional_double True h' mem' = Inr (Some v)"
    by (simp add: Handle_get_optional_double_def del: deref.simps)
next
  assume a: "data_type g = BOOL \<and> Handle_set_value_bool True b g = Inr (okb, g')"
  then have written: "okb \<and> data_type g' = BOOL \<and> handle_value g' = V_bool b"
    by (auto simp: Handle_set_value_bool_def split: HANDLE_DATATYPE.splits)
  then show "okb" "data_type g' = BOOL" "handle_value g' = V_bool b"
    by simp_all
  from written show "Handle_get_optional_bool True g' = Inr (Some b)"
    by (simp add: Handle_get_optional_bool_def)
qed

theorem handle_try_lock_contract_witness:
  "(let h = \<lparr>prefix_name = ''joint1'', interface_name = ''position'',
              handle_name = ''joint1/position'', handle_value = V_double 0,
              data_type = DOUBLE, value_ptr = OwnValue\<rparr>;
        g = \<lparr>prefix_name = ''gripper'', interface_name = ''closed'',
              handle_name = ''gripper/closed'', handle_value = V_bool False,
              data_type = BOOL, value_ptr = Nullptr\<rparr>
    in data_type h = DOUBLE
       \<and> Handle_set_value_double True (5 / 2) h (\<lambda>a. 0) =
             Inr (True, h\<lparr>handle_value := V_double (5 / 2)\<rparr>, (\<lambda>a. 0))
       \<and> Handle_get_optional_double True (h\<lparr>handle_value := V_double (5 / 2)\<rparr>) (\<lambda>a. 0) =
             Inr (Some (5 / 2))
       \<and> data_type g = BOOL
       \<and> Handle_set_value_bool True True g = Inr (True, g\<lparr>handle_value := V_bool True\<rparr>)
       \<and> Handle_get_optional_bool True (g\<lparr>handle_value := V_bool True\<rparr>) = Inr (Some True))"
proof -
  let ?h = "\<lparr>prefix_name = ''joint1'', interface_name = ''position'',
              handle_name = ''joint1/position'', handle_value = V_double 0,
              data_type = DOUBLE, value_ptr = OwnValue\<rparr>"
  let ?g = "\<lparr>prefix_name = ''gripper'', interface_name = ''closed'',
              handle_name = ''gripper/closed'', handle_value = V_bool False,
              data_type = BOOL, value_ptr = Nullptr\<rparr>"
  have d: "Handle_set_value_double True (5 / 2) ?h (\<lambda>a. 0) =
             Inr (True, ?h\<lparr>handle_value := V_double (5 / 2)\<rparr>, (\<lambda>a. 0))"
    by (simp add: Handle_set_value_double_def)
  have b: "Handle_set_value_bool True True ?g = Inr (True, ?g\<lparr>handle_value := V_bool True\<rparr>)"
    by (simp add: Handle_set_value_bool_def)
  show ?thesis
    using d b
      handle_try_lock_contract [of ?h "\<lambda>a. 0" ?g "5 / 2" True True
        "?h\<lparr>handle_value := V_double (5 / 2)\<rparr>" "\<lambda>a. 0" True
        "?g\<lparr>handle_value := V_bool True\<rparr>"]
    by (simp add: Let_def)
qed

section \<open>Properties of the loaned state interface\<close>

lemma unat_next_try:
  fixes nr mx :: "32 word"
  assumes "unat nr < unat mx"
  shows "unat (nr + 1) = Suc (unat nr)"
proof -
  have "nr \<noteq> - 1"
    using assms by (metis word_n1_ge not_le word_less_nat_alt)
  then have "1 + nr \<noteq> 0"
    by (metis add_eq_0_iff)
  then show ?thesis
    using unatSuc [of nr] by (simp add: add.commute)
qed

lemma loop_first_success:
  fixes nr mx :: "32 word"
  assumes "unat nr \<le> k" "k < unat mx"
    and "\<forall>i. unat nr \<le> i \<and> i < k \<longrightarrow> rd i = Inr None"
    and "rd k = Inr (Some v)"
  shows "get_optional_loop rd mx nr stats =
           (Inr (Some v),
            stats\<lparr>total_counter := total_counter stats + of_nat (Suc k - unat nr),
                  failed_counter := failed_counter stats + of_nat (k - unat nr)\<rparr>)"
  using assms
proof (induction "k - unat nr" arbitrary: nr stats)
  case 0
  then have "unat nr = k" by simp
  with 0 show ?case
    using get_optional_loop.simps [of rd mx nr stats] by (simp add: Let_def)
next
  case (Suc d)
  let ?stats = "stats\<lparr>total_counter := total_counter stats + 1,
                       failed_counter := failed_counter stats + 1\<rparr>"
  from Suc have lt: "unat nr < k" by simp
  then have none: "rd (unat nr) = Inr None"
    using Suc.prems by simp
  have nx: "unat (nr + 1) = Suc (unat nr)"
    using lt Suc.prems(2) unat_next_try [of nr mx] by simp
  have again: "nr + 1 < mx"
    using nx lt Suc.prems(2) by (simp add: word_less_nat_alt)
  have step: "get_optional_loop rd mx nr stats = get_optional_loop rd mx (nr + 1) ?stats"
    using none again get_optional_loop.simps [of rd mx nr stats] by (simp add: Let_def)
  have "d = k - unat (nr + 1)"
    using Suc.hyps(2) nx by simp
  moreover have "unat (nr + 1) \<le> k" using nx lt by simp
  moreover have "\<forall>i. unat (nr + 1) \<le> i \<and> i < k \<longrightarrow> rd i = Inr None"
    using Suc.prems(3) nx by simp
  ultimately have "get_optional_loop rd mx (nr + 1) ?stats =
      (Inr (Some v),
       ?stats\<lparr>total_counter := total_counter ?stats + of_nat (Suc k - unat (nr + 1)),
              failed_counter := failed_counter ?stats + of_nat (k - unat (nr + 1))\<rparr>)"
    using Suc.hyps(1) Suc.prems(2,4) by blast
  moreover have "Suc k - unat nr = Suc (Suc k - unat (nr + 1))"
    "k - unat nr = Suc (k - unat (nr + 1))"
    using nx lt by simp_all
  ultimately show ?case
    using step by (simp add: add.assoc)
qed

lemma loop_all_fail:
  fixes nr mx :: "32 word"
  assumes "unat nr < unat mx"
    and "\<forall>i. unat nr \<le> i \<and> i < unat mx \<longrightarrow> rd i = Inr None"
  shows "get_optional_loop rd mx nr stats =
           (Inr None,
            stats\<lparr>total_counter := total_counter stats + of_nat (unat mx - unat nr),
                  failed_counter := failed_counter stats + of_nat (unat mx - unat nr),
                  timeout_counter := timeout_counter stats + 1\<rparr>)"
  using assms
proof (induction "unat mx - unat nr" arbitrary: nr stats)
  case 0
  then show ?case by simp
next
  case (Suc d)
  let ?stats = "stats\<lparr>total_counter := total_counter stats + 1,
                       failed_counter := failed_counter stats + 1\<rparr>"
  have none: "rd (unat nr) = Inr None"
    using Suc.prems by simp
  have nx: "unat (nr + 1) = Suc (unat nr)"
    using Suc.prems(1) by (rule unat_next_try)
  show ?case
  proof (cases "nr + 1 < mx")
    case True
    have step: "get_optional_loop rd mx nr stats = get_optional_loop rd mx (nr + 1) ?stats"
      using none True get_optional_loop.simps [of rd mx nr stats] by (simp add: Let_def)
    have more: "unat (nr + 1) < unat mx"
      using True by (simp add: word_less_nat_alt)
    have "d = unat mx - unat (nr + 1)"
      using Suc.hyps(2) nx by simp
    moreover have "\<forall>i. unat (nr + 1) \<le> i \<and> i < unat mx \<longrightarrow> rd i = Inr None"
      using Suc.prems(2) nx by simp
    ultimately have "get_optional_loop rd mx (nr + 1) ?stats =
        (Inr None,
         ?stats\<lparr>total_counter := total_counter ?stats + of_nat (unat mx - unat (nr + 1)),
                failed_counter := failed_counter ?stats + of_nat (unat mx - unat (nr + 1)),
                timeout_counter := timeout_counter ?stats + 1\<rparr>)"
      using Suc.hyps(1) more by blast
    moreover have "unat mx - unat nr = Suc (unat mx - unat (nr + 1))"
      using nx more by simp
    ultimately show ?thesis
      using step by (simp add: add.assoc)
  next
    case False
    then have "unat mx - unat nr = 1"
      using nx Suc.prems(1) by (simp add: word_less_nat_alt)
    moreover have "get_optional_loop rd mx nr stats =
        (Inr None, stats\<lparr>total_counter := total_counter stats + 1,
                 failed_counter := failed_counter stats + 1,
                 timeout_counter := timeout_counter stats + 1\<rparr>)"
      using none False get_optional_loop.simps [of rd mx nr stats] by (simp add: Let_def)
    ultimately show ?thesis by simp
  qed
qed

text \<open>
  Claim C8. Let \<open>max_tries \<ge> 1\<close>. If the attempt number \<open>k < max_tries\<close> (counted from 0) is
  the first one that reads a value, \<^verbatim>\<open>get_optional(max_tries)\<close> returns that value at once:
  it has made \<open>k + 1 \<le> max_tries\<close> attempts (\<^verbatim>\<open>total_counter\<close>), \<open>k\<close> of them failed
  (\<^verbatim>\<open>failed_counter\<close>), and \<^verbatim>\<open>timeout_counter\<close> is untouched. If all \<open>max_tries\<close> attempts
  fail, it returns no value after exactly \<open>max_tries\<close> attempts, \<^verbatim>\<open>failed_counter\<close> has
  grown by \<open>max_tries\<close> and \<^verbatim>\<open>timeout_counter\<close> by one. The counters are 32-bit and wrap.
\<close>

theorem loaned_get_optional_retries:
  assumes "1 \<le> max_tries"
  shows "(k < unat max_tries \<and> (\<forall>i<k. rd i = Inr None) \<and> rd k = Inr (Some v) \<longrightarrow>
            LoanedStateInterface_get_optional rd max_tries stats =
              (Inr (Some v),
               stats\<lparr>total_counter := total_counter stats + of_nat (Suc k),
                     failed_counter := failed_counter stats + of_nat k\<rparr>))
       \<and> ((\<forall>i<unat max_tries. rd i = Inr None) \<longrightarrow>
            LoanedStateInterface_get_optional rd max_tries stats =
              (Inr None,
               stats\<lparr>total_counter := total_counter stats + max_tries,
                     failed_counter := failed_counter stats + max_tries,
                     timeout_counter := timeout_counter stats + 1\<rparr>))"
proof (intro conjI impI)
  assume "k < unat max_tries \<and> (\<forall>i<k. rd i = Inr None) \<and> rd k = Inr (Some v)"
  then show "LoanedStateInterface_get_optional rd max_tries stats =
              (Inr (Some v),
               stats\<lparr>total_counter := total_counter stats + of_nat (Suc k),
                     failed_counter := failed_counter stats + of_nat k\<rparr>)"
    using loop_first_success [of 0 k max_tries rd v stats]
    by (simp add: LoanedStateInterface_get_optional_def)
next
  assume all: "\<forall>i<unat max_tries. rd i = Inr None"
  have "0 < unat max_tries"
    using assms by (simp add: word_le_nat_alt)
  then show "LoanedStateInterface_get_optional rd max_tries stats =
              (Inr None,
               stats\<lparr>total_counter := total_counter stats + max_tries,
                     failed_counter := failed_counter stats + max_tries,
                     timeout_counter := timeout_counter stats + 1\<rparr>)"
    using loop_all_fail [of 0 max_tries rd stats] all
    by (simp add: LoanedStateInterface_get_optional_def)
qed

theorem loaned_get_optional_retries_witness:
  "(1::32 word) \<le> default_max_tries \<and>
   LoanedStateInterface_get_optional
     (\<lambda>i. if i < 3 then Inr None else Inr (Some (7::int))) default_max_tries
     \<lparr>total_counter = 0, failed_counter = 0, timeout_counter = 0\<rparr> =
     (Inr (Some 7), \<lparr>total_counter = 4, failed_counter = 3, timeout_counter = 0\<rparr>) \<and>
   LoanedStateInterface_get_optional
     (\<lambda>i. (Inr None :: exception + int option)) default_max_tries
     \<lparr>total_counter = 4294967290, failed_counter = 0, timeout_counter = 0\<rparr> =
     (Inr None, \<lparr>total_counter = 4, failed_counter = 10, timeout_counter = 1\<rparr>)"
proof -
  have h: "(1::32 word) \<le> default_max_tries" by (simp add: default_max_tries_def)
  show ?thesis
    using h
      loaned_get_optional_retries [OF h, of 3
        "\<lambda>i. if i < 3 then Inr None else Inr (Some (7::int))" 7
        "\<lparr>total_counter = 0, failed_counter = 0, timeout_counter = 0\<rparr>"]
      loaned_get_optional_retries [OF h, of 0 "\<lambda>i. (Inr None :: exception + int option)" 0
        "\<lparr>total_counter = 4294967290, failed_counter = 0, timeout_counter = 0\<rparr>"]
    by (simp add: default_max_tries_def)
qed

section \<open>Properties of the validation of a switch request\<close>

subsection \<open>The validation leaves the roster alone\<close>

lemma same_roster_refl [simp]: "same_roster cm cm"
  by (simp add: same_roster_def)

lemma same_roster_trans: "same_roster a b \<Longrightarrow> same_roster b c \<Longrightarrow> same_roster a c"
  by (simp add: same_roster_def)

lemma requests_kept_refl [simp]: "requests_kept cm cm"
  by (simp add: requests_kept_def)

lemma requests_kept_trans: "requests_kept a b \<Longrightarrow> requests_kept b c \<Longrightarrow> requests_kept a c"
  by (simp add: requests_kept_def)

lemma and_then_stop: "fst r \<noteq> Continue \<Longrightarrow> and_then r f = r"
  by (cases r) (auto simp: and_then_def split: flow.splits)

lemma and_then_go: "and_then (Continue, cm) f = f cm"
  by (simp add: and_then_def)

lemma and_then_same_roster:
  assumes "same_roster cm (snd r)"
    and "\<And>cm1. same_roster cm cm1 \<Longrightarrow> same_roster cm (snd (f cm1))"
  shows "same_roster cm (snd (and_then r f))"
  using assms by (cases r) (auto simp: and_then_def split: flow.splits)

lemma clear_requests_same_roster [simp]: "same_roster cm (clear_requests cm')  = same_roster cm cm'"
  by (simp add: clear_requests_def same_roster_def)

lemma clear_requests_cleared [simp]: "requests_cleared (clear_requests cm)"
  by (simp add: clear_requests_def requests_cleared_def)

lemma add_following_same:
  "same_roster cm (snd (add_following_to_from_chained_mode itfs ctrls cm))
   \<and> requests_kept cm (snd (add_following_to_from_chained_mode itfs ctrls cm))
   \<and> fst (add_following_to_from_chained_mode itfs ctrls cm) \<in> insert Continue (range Throw)"
proof (induction itfs ctrls cm rule: add_following_to_from_chained_mode.induct)
  case (1 ctrls cm)
  then show ?case by simp
next
  case (2 ctrl_itf_name rest ctrls cm)
  then show ?case
    by (auto simp: same_roster_def requests_kept_def split: sum.splits option.splits)
qed

lemma propagate_loop_same:
  "same_roster cm (snd (propagate_deactivation_loop todo ctrls cm))
   \<and> requests_kept cm (snd (propagate_deactivation_loop todo ctrls cm))
   \<and> fst (propagate_deactivation_loop todo ctrls cm) \<in> insert Continue (range Throw)"
proof (induction todo ctrls cm rule: propagate_deactivation_loop.induct)
  case (1 ctrls cm)
  then show ?case by simp
next
  case (2 controller rest ctrls cm)
  let ?r = "add_following_to_from_chained_mode
              (names (command_interface_configuration (cobj controller))
                 @ names (state_interface_configuration (cobj controller))) ctrls cm"
  show ?case
  proof (cases "name (info controller) \<in> set (deactivate_request cm)")
    case False
    then show ?thesis using 2 by simp
  next
    case in_req: True
    show ?thesis
    proof (cases "is_controller_active (cobj controller)")
      case False
      then show ?thesis using in_req by simp
    next
      case True
      obtain fl cm1 where r: "?r = (fl, cm1)" by (cases ?r)
      have a: "same_roster cm cm1" "requests_kept cm cm1" "fl \<in> insert Continue (range Throw)"
        using add_following_same [of cm _ ctrls] r by (metis fst_conv snd_conv)+
      show ?thesis
      proof (cases "fl = Continue")
        case False
        then show ?thesis using in_req True r a by (auto simp: and_then_def split: flow.splits)
      next
        case c: True
        have ih: "same_roster cm1 (snd (propagate_deactivation_loop rest ctrls cm1))
           \<and> requests_kept cm1 (snd (propagate_deactivation_loop rest ctrls cm1))
           \<and> fst (propagate_deactivation_loop rest ctrls cm1) \<in> insert Continue (range Throw)"
          using 2(1) in_req True by blast
        then show ?thesis
          using in_req True r a c
          by (auto simp: and_then_def intro: same_roster_trans requests_kept_trans)
      qed
    qed
  qed
qed

lemma request_chained_mode_same [simp]:
  "same_roster cm (request_chained_mode c1 itf c2 cm')  = same_roster cm cm'"
  "requests_kept cm (request_chained_mode c1 itf c2 cm')  = requests_kept cm cm'"
  by (simp_all add: request_chained_mode_def Let_def same_roster_def requests_kept_def)

lemma check_following_same:
  "same_roster cm (snd (check_following_controllers_for_activate fuel ctrls s c1 cm))
   \<and> requests_kept cm (snd (check_following_controllers_for_activate fuel ctrls s c1 cm))
   \<and> fst (check_following_controllers_for_activate fuel ctrls s c1 cm) \<noteq> Continue"
  "same_roster cm (snd (check_following_interfaces fuel ctrls s c1 itfs cm))
   \<and> requests_kept cm (snd (check_following_interfaces fuel ctrls s c1 itfs cm))
   \<and> fst (check_following_interfaces fuel ctrls s c1 itfs cm) \<noteq> Continue"
proof (induction fuel ctrls s c1 cm and fuel ctrls s c1 itfs cm
    rule: check_following_controllers_for_activate_check_following_interfaces.induct)
  case (1 ctrls strictness_arg controller_it cm)
  then show ?case by simp
next
  case (2 fuel ctrls strictness_arg controller_it cm)
  then show ?case by simp
next
  case (3 fuel ctrls strictness_arg controller_it cm)
  then show ?case by simp
next
  case (4 fuel ctrls strictness_arg controller_it ctrl_itf_name rest cm)
  show ?case
  proof (cases "is_interface_a_chained_interface ctrl_itf_name ctrls")
    case (Inl e)
    then show ?thesis by simp
  next
    case (Inr found)
    show ?thesis
    proof (cases found)
      case None
      then show ?thesis using Inr 4(1) by simp
    next
      case (Some following_ctrl)
      let ?rec = "check_following_controllers_for_activate fuel ctrls strictness_arg
                    following_ctrl cm"
      obtain fl cm1 where rec: "?rec = (fl, cm1)" by (cases ?rec)
      show ?thesis
      proof (cases "\<not> is_chainable (cobj following_ctrl)
          \<or> (is_controller_active (cobj following_ctrl)
               \<and> name (info following_ctrl) \<in> set (deactivate_request cm))
          \<or> (\<not> is_controller_active (cobj following_ctrl)
               \<and> name (info following_ctrl) \<notin> set (activate_request cm))")
        case True
        then show ?thesis using Inr Some by auto
      next
        case False
        then have ih1: "same_roster cm cm1 \<and> requests_kept cm cm1 \<and> fl \<noteq> Continue"
          using 4(2) [OF Inr Some] rec by auto
        show ?thesis
        proof (cases "fl = Return OK")
          case True
          have "same_roster (request_chained_mode controller_it ctrl_itf_name following_ctrl cm1)
                  (snd (check_following_interfaces fuel ctrls strictness_arg controller_it rest
                     (request_chained_mode controller_it ctrl_itf_name following_ctrl cm1)))
              \<and> requests_kept (request_chained_mode controller_it ctrl_itf_name following_ctrl cm1)
                  (snd (check_following_interfaces fuel ctrls strictness_arg controller_it rest
                     (request_chained_mode controller_it ctrl_itf_name following_ctrl cm1)))
              \<and> fst (check_following_interfaces fuel ctrls strictness_arg controller_it rest
                     (request_chained_mode controller_it ctrl_itf_name following_ctrl cm1))
                  \<noteq> Continue"
            using 4(3) [OF Inr Some _ _ _ rec [symmetric]] False True by auto
          then show ?thesis
            using Inr Some False rec True ih1
            by (auto simp: same_roster_def requests_kept_def request_chained_mode_def Let_def)
        next
          case nok: False
          then show ?thesis
            using Inr Some False rec ih1
            by (auto split: flow.splits return_type.splits)
        qed
      qed
    qed
  qed
qed

lemma check_activate_entry_same:
  "same_roster cm (snd (check_activate_entry fuel ctrls s entry cm))
   \<and> requests_kept cm (snd (check_activate_entry fuel ctrls s entry cm))
   \<and> fst (check_activate_entry fuel ctrls s entry cm) \<noteq> Continue"
proof (cases "find_controller ctrls entry")
  case None
  then show ?thesis by (simp add: check_activate_entry_def)
next
  case (Some controller_it)
  let ?rec = "check_following_controllers_for_activate fuel ctrls s controller_it cm"
  obtain fl cm1 where rec: "?rec = (fl, cm1)" by (cases ?rec)
  have "same_roster cm cm1 \<and> requests_kept cm cm1 \<and> fl \<noteq> Continue"
    using check_following_same(1) [of cm fuel ctrls s controller_it] rec by simp
  then show ?thesis
    using Some rec
    by (auto simp: check_activate_entry_def Let_def split: sum.splits)
qed

lemma activate_request_loop_same:
  "same_roster cm (snd (activate_request_loop fuel ctrls s todo i cm))
   \<and> fst (activate_request_loop fuel ctrls s todo i cm) \<noteq> Return OK
   \<and> (s = STRICT \<and> fst (activate_request_loop fuel ctrls s todo i cm) = Continue
        \<longrightarrow> requests_kept cm (snd (activate_request_loop fuel ctrls s todo i cm)))"
proof (induction todo arbitrary: i cm)
  case Nil
  then show ?case by simp
next
  case (Cons entry rest)
  let ?chk = "check_activate_entry fuel ctrls s entry cm"
  obtain fl cm1 where chk: "?chk = (fl, cm1)" by (cases ?chk)
  have c: "same_roster cm cm1" "requests_kept cm cm1" "fl \<noteq> Continue"
    using check_activate_entry_same [of cm fuel ctrls s entry] chk by simp_all
  have strict_ne: "STRICT \<noteq> BEST_EFFORT"
    by (simp add: STRICT_def BEST_EFFORT_def)
  show ?case
  proof (cases fl)
    case Continue
    then show ?thesis using c by simp
  next
    case (Throw e)
    then show ?thesis using chk c by simp
  next
    case (Return r)
    show ?thesis
    proof (cases r)
      case OK
      have "same_roster cm1 (snd (activate_request_loop fuel ctrls s rest (Suc i) cm1))
         \<and> fst (activate_request_loop fuel ctrls s rest (Suc i) cm1) \<noteq> Return OK
         \<and> (s = STRICT \<and> fst (activate_request_loop fuel ctrls s rest (Suc i) cm1) = Continue
              \<longrightarrow> requests_kept cm1 (snd (activate_request_loop fuel ctrls s rest (Suc i) cm1)))"
        using Cons.IH by blast
      then show ?thesis
        using chk Return OK c
        by (auto intro: same_roster_trans requests_kept_trans)
    next
      case ERROR
      let ?cm2 = "cm1\<lparr>activate_request := erase_at i (activate_request cm1)\<rparr>"
      have e: "same_roster cm ?cm2"
        using c by (simp add: same_roster_def)
      have ih2: "same_roster ?cm2 (snd (activate_request_loop fuel ctrls s rest i ?cm2))
         \<and> fst (activate_request_loop fuel ctrls s rest i ?cm2) \<noteq> Return OK"
        using Cons.IH by blast
      have ih1: "same_roster cm1 (snd (activate_request_loop fuel ctrls s rest (Suc i) cm1))
         \<and> fst (activate_request_loop fuel ctrls s rest (Suc i) cm1) \<noteq> Return OK"
        using Cons.IH by blast
      show ?thesis
        using chk Return ERROR c e ih1 ih2 strict_ne
        by (auto intro: same_roster_trans)
    qed
  qed
qed

lemma deactivate_request_loop_same:
  "same_roster cm (snd (deactivate_request_loop ctrls s todo i cm))
   \<and> fst (deactivate_request_loop ctrls s todo i cm) \<noteq> Return OK"
proof (induction todo arbitrary: i cm)
  case Nil
  then show ?case by simp
next
  case (Cons entry rest)
  let ?cm2 = "cm\<lparr>deactivate_request := erase_at i (deactivate_request cm)\<rparr>"
  have e: "same_roster cm ?cm2"
    by (simp add: same_roster_def)
  have ih2: "same_roster ?cm2 (snd (deactivate_request_loop ctrls s rest i ?cm2))
     \<and> fst (deactivate_request_loop ctrls s rest i ?cm2) \<noteq> Return OK"
    using Cons.IH by blast
  have ih1: "same_roster cm (snd (deactivate_request_loop ctrls s rest (Suc i) cm))
     \<and> fst (deactivate_request_loop ctrls s rest (Suc i) cm) \<noteq> Return OK"
    using Cons.IH by blast
  show ?case
    using e ih1 ih2
    by (auto split: sum.splits return_type.splits intro: same_roster_trans)
qed


subsection \<open>Resolution of the names\<close>


lemma in_roster_iff: "in_roster ctrls n \<longleftrightarrow> (\<exists>a \<in> set ctrls. name (info a) = n)"
  by (auto simp: in_roster_def find_controller_def controller_name_compare_def find_None_iff)

lemma list_controllers_strict_all_found:
  assumes "\<forall>n \<in> set ns. in_roster ctrls n"
  shows "list_controllers ctrls STRICT ns req res = (if ns = [] then res else OK, req @ ns)"
  using assms
  by (induction ns arbitrary: req res) (auto simp: in_roster_def)

lemma list_controllers_strict_missing:
  assumes "\<exists>n \<in> set ns. \<not> in_roster ctrls n"
  shows "fst (list_controllers ctrls STRICT ns req res) = ERROR"
  using assms
proof (induction ns arbitrary: req res)
  case Nil
  then show ?case by simp
next
  case (Cons a ns)
  show ?case
  proof (cases "find_controller ctrls a")
    case None
    then show ?thesis by simp
  next
    case (Some found)
    then have "\<exists>n \<in> set ns. \<not> in_roster ctrls n"
      using Cons.prems by (auto simp: in_roster_def)
    then show ?thesis using Some Cons.IH by simp
  qed
qed

lemma list_controllers_best_effort:
  assumes "s \<noteq> STRICT"
  shows "list_controllers ctrls s ns req res =
           (if ns = [] then res
            else if req @ filter (in_roster ctrls) ns = [] then ERROR else OK,
            req @ filter (in_roster ctrls) ns)"
  using assms
proof (induction ns arbitrary: req res)
  case Nil
  then show ?case by simp
next
  case (Cons n ns)
  show ?case
  proof (cases "find_controller ctrls n")
    case None
    then show ?thesis
      using Cons by (auto simp: in_roster_def)
  next
    case (Some a)
    then show ?thesis
      using Cons by (auto simp: in_roster_def)
  qed
qed

lemma resolve_requests_flow:
  "fst (resolve_requests act deact s cm) \<in> {Continue, Return ERROR}"
  "same_roster cm (snd (resolve_requests act deact s cm))"
  by (auto simp: resolve_requests_def Let_def same_roster_def split: prod.splits return_type.splits)

lemma resolve_requests_strict:
  assumes "deactivate_request cm = []" "activate_request cm = []"
  shows "resolve_requests act deact STRICT cm =
           (if \<exists>n \<in> set deact. \<not> in_roster (controllers cm) n
            then (Return ERROR, cm\<lparr>deactivate_request := []\<rparr>)
            else if \<exists>n \<in> set act. \<not> in_roster (controllers cm) n
            then (Return ERROR, cm\<lparr>deactivate_request := [], activate_request := []\<rparr>)
            else (Continue, cm\<lparr>deactivate_request := deact, activate_request := act\<rparr>))"
proof (cases "\<exists>n \<in> set deact. \<not> in_roster (controllers cm) n")
  case True
  then have "fst (list_controllers (controllers cm) STRICT deact [] OK) = ERROR"
    by (rule list_controllers_strict_missing)
  then show ?thesis
    using True assms by (auto simp: resolve_requests_def split: prod.splits return_type.splits)
next
  case False
  then have d: "list_controllers (controllers cm) STRICT deact [] OK = (OK, deact)"
    using list_controllers_strict_all_found [of deact "controllers cm" "[]" OK] by auto
  show ?thesis
  proof (cases "\<exists>n \<in> set act. \<not> in_roster (controllers cm) n")
    case True
    then have "fst (list_controllers (controllers cm) STRICT act [] OK) = ERROR"
      by (rule list_controllers_strict_missing)
    then show ?thesis
      using True False d assms
      by (auto simp: resolve_requests_def Let_def split: prod.splits return_type.splits)
  next
    case nomiss: False
    then have "list_controllers (controllers cm) STRICT act [] OK = (OK, act)"
      using list_controllers_strict_all_found [of act "controllers cm" "[]" OK] by auto
    then show ?thesis
      using False nomiss d assms
      by (auto simp: resolve_requests_def Let_def)
  qed
qed

lemma resolve_requests_best_effort:
  assumes "s \<noteq> STRICT" "deactivate_request cm = []" "activate_request cm = []"
  shows "resolve_requests act deact s cm =
           (if deact \<noteq> [] \<and> filter (in_roster (controllers cm)) deact = []
            then (Return ERROR, cm\<lparr>deactivate_request := []\<rparr>)
            else if act \<noteq> [] \<and> filter (in_roster (controllers cm)) act = []
            then (Return ERROR, cm\<lparr>deactivate_request := [], activate_request := []\<rparr>)
            else (Continue, cm\<lparr>deactivate_request := filter (in_roster (controllers cm)) deact,
                                 activate_request := filter (in_roster (controllers cm)) act\<rparr>))"
  using assms
  by (simp add: resolve_requests_def Let_def list_controllers_best_effort)

subsection \<open>The conflict loop and the commit\<close>

lemma same_roster_update [simp]:
  "same_roster cm (cm'\<lparr>activate_request := l\<rparr>) = same_roster cm cm'"
  "same_roster cm (cm'\<lparr>deactivate_request := l\<rparr>) = same_roster cm cm'"
  "same_roster cm (cm'\<lparr>to_chained_mode_request := l\<rparr>) = same_roster cm cm'"
  "same_roster cm (cm'\<lparr>from_chained_mode_request := l\<rparr>) = same_roster cm cm'"
  "same_roster cm (cm'\<lparr>activate_command_interface_request := l\<rparr>) = same_roster cm cm'"
  "same_roster cm (cm'\<lparr>deactivate_command_interface_request := l\<rparr>) = same_roster cm cm'"
  "same_roster cm (cm'\<lparr>resource_manager := rm\<rparr>) = same_roster cm cm'"
  "same_roster cm (cm'\<lparr>switch_params := sp\<rparr>) = same_roster cm cm'"
  by (simp_all add: same_roster_def)

lemma handle_conflict_same:
  "same_roster cm (snd (handle_conflict s cm')) = same_roster cm cm'"
  "fst (handle_conflict s cm') = (if s = STRICT then ERROR else OK)"
  by (simp_all add: handle_conflict_def)

lemma collect_interfaces_same [simp]:
  "same_roster cm (collect_interfaces c a d cm') = same_roster cm cm'"
  by (simp add: collect_interfaces_def Let_def)

lemma check_illegal_activation_same:
  "same_roster cm (snd (check_illegal_activation s c a d cm')) = same_roster cm cm'"
  "fst (check_illegal_activation s c a d cm') \<in> {Continue, Return ERROR}"
  by (auto simp: check_illegal_activation_def handle_conflict_def
      split: prod.splits return_type.splits)

lemma check_doubled_activation_same:
  "same_roster cm (snd (check_doubled_activation s c a d cm')) = same_roster cm cm'"
  "fst (check_doubled_activation s c a d cm') \<in> {Continue, Return ERROR}"
  using check_illegal_activation_same(2) [of s c]
  by (auto simp: check_doubled_activation_def handle_conflict_def check_illegal_activation_same(1)
      split: prod.splits return_type.splits)

lemma check_double_stop_same:
  "same_roster cm (snd (check_double_stop s c cm')) = same_roster cm cm'"
  "fst (check_double_stop s c cm') \<in> {Continue, Return ERROR}"
  using check_doubled_activation_same(2) [of s c]
  by (auto simp: check_double_stop_def Let_def handle_conflict_def
      check_doubled_activation_same(1) split: prod.splits return_type.splits)

lemma resolve_conflicts_of_same:
  "same_roster cm (snd (resolve_conflicts_of s c cm))
   \<and> fst (resolve_conflicts_of s c cm) \<in> {Continue, Return ERROR}"
proof -
  have "same_roster cm (restart_for_chained_mode c cm)"
    by (simp add: restart_for_chained_mode_def)
  then show ?thesis
    using check_double_stop_same(2) [of s c "restart_for_chained_mode c cm"]
    by (simp add: resolve_conflicts_of_def check_double_stop_same(1))
qed

lemma resolve_conflicts_loop_same:
  "same_roster cm (snd (resolve_conflicts_loop s ctrls cm))
   \<and> fst (resolve_conflicts_loop s ctrls cm) \<in> {Continue, Return ERROR}"
proof (induction ctrls arbitrary: cm)
  case Nil
  then show ?case by simp
next
  case (Cons c rest)
  obtain fl cm1 where r: "resolve_conflicts_of s c cm = (fl, cm1)"
    by (cases "resolve_conflicts_of s c cm")
  have a: "same_roster cm cm1" "fl \<in> {Continue, Return ERROR}"
    using resolve_conflicts_of_same [of cm s c] r by simp_all
  have "same_roster cm1 (snd (resolve_conflicts_loop s rest cm1))
     \<and> fst (resolve_conflicts_loop s rest cm1) \<in> {Continue, Return ERROR}"
    using Cons.IH by blast
  then show ?case
    using r a by (auto simp: and_then_def intro: same_roster_trans)
qed

text \<open>Whether the realtime loop serves a request within a timeout.\<close>

lemma wait_for_switch_timeout:
  assumes "\<not> served_within rt (timeout (switch_params cm))"
  shows "wait_for_switch rt cm = (False, cm)"
  using assms by (simp add: wait_for_switch_def)

lemma commit_switch_timeout:
  assumes "\<not> served_within rt (switch_timeout t)"
  shows "fst (commit_switch rt s asap t cm) = Return ERROR"
    and "requests_cleared (snd (commit_switch rt s asap t cm))"
    and "\<not> do_switch (switch_params (snd (commit_switch rt s asap t cm)))"
    and "same_roster cm (snd (commit_switch rt s asap t cm))"
proof -
  let ?cm1 = "cm\<lparr>switch_params := \<lparr>do_switch = True, strictness = s, activate_asap = asap,
                                        timeout = switch_timeout t\<rparr>\<rparr>"
  have "wait_for_switch rt ?cm1 = (False, ?cm1)"
    using assms by (intro wait_for_switch_timeout) simp
  then have c: "commit_switch rt s asap t cm = (Return ERROR, clear_requests ?cm1)"
    by (simp add: commit_switch_def Let_def)
  show "fst (commit_switch rt s asap t cm) = Return ERROR"
    "requests_cleared (snd (commit_switch rt s asap t cm))"
    "\<not> do_switch (switch_params (snd (commit_switch rt s asap t cm)))"
    "same_roster cm (snd (commit_switch rt s asap t cm))"
    using c by (simp_all add: clear_requests_def same_roster_def requests_cleared_def)
qed

lemma prepare_and_commit_timeout:
  assumes "\<not> served_within rt (switch_timeout t)"
  shows "same_roster cm (snd (prepare_and_commit rt ctrls s asap t cm))"
proof -
  obtain fl cm1 where r: "resolve_conflicts_loop s ctrls cm = (fl, cm1)"
    by (cases "resolve_conflicts_loop s ctrls cm")
  have a: "same_roster cm cm1" "fl \<in> {Continue, Return ERROR}"
    using resolve_conflicts_loop_same [of cm s ctrls] r by simp_all
  have "same_roster cm1 (snd (commit_switch rt s asap t cm1))"
    using commit_switch_timeout(4) [OF assms] .
  then show ?thesis
    using r a
    by (auto simp: prepare_and_commit_def and_then_def intro: same_roster_trans)
qed

lemma switch_after_resolution_timeout:
  assumes "\<not> served_within rt (switch_timeout t)"
  shows "same_roster cm (snd (switch_after_resolution fuel rt s asap t cm))"
  unfolding switch_after_resolution_def
proof (intro and_then_same_roster)
  show "same_roster cm (snd (propagate_deactivation_of_chained_mode (controllers cm) cm))"
    using propagate_loop_same by (simp add: propagate_deactivation_of_chained_mode_def)
next
  fix cm1 assume a: "same_roster cm cm1"
  show "same_roster cm
          (snd (activate_request_loop fuel (controllers cm1) s (activate_request cm1) 0 cm1))"
    using a activate_request_loop_same same_roster_trans by blast
next
  fix cm1 cm2 assume a: "same_roster cm cm2"
  show "same_roster cm
          (snd (deactivate_request_loop (controllers cm2) s (deactivate_request cm2) 0 cm2))"
    using a deactivate_request_loop_same same_roster_trans by blast
next
  fix cm1 cm2 cm3 assume a: "same_roster cm cm3"
  show "same_roster cm (snd (prepare_and_commit rt (controllers cm2) s asap t cm3))"
    using a prepare_and_commit_timeout [OF assms] same_roster_trans by blast
qed

lemma switch_controller_cb_timeout:
  assumes "\<not> served_within rt (switch_timeout t)"
  shows "same_roster cm (snd (switch_controller_cb fuel rt act deact s asap t cm))"
proof -
  let ?cm0 = "cm\<lparr>switch_params := SwitchParams_reset (switch_params cm)\<rparr>"
  let ?s = "effective_strictness (default_switch_strictness ?cm0) s"
  have "same_roster cm
          (snd (and_then (resolve_requests act deact ?s ?cm0)
                  (switch_after_resolution fuel rt ?s asap t)))"
  proof (intro and_then_same_roster)
    show "same_roster cm (snd (resolve_requests act deact ?s ?cm0))"
      using resolve_requests_flow(2) [of ?cm0 act deact ?s] by (simp add: same_roster_def)
  next
    fix cm1 assume "same_roster cm cm1"
    then show "same_roster cm (snd (switch_after_resolution fuel rt ?s asap t cm1))"
      using switch_after_resolution_timeout [OF assms] same_roster_trans by blast
  qed
  then show ?thesis
    by (simp add: switch_controller_cb_def Let_def)
qed

section \<open>Properties of the switch: timeout\<close>

text \<open>The function is its checks followed by the commit.\<close>

lemma and_then_assoc:
  "and_then (and_then r f) g = and_then r (\<lambda>cm. and_then (f cm) g)"
  by (cases r) (auto simp: and_then_def split: flow.splits)

lemma and_then_ends:
  "and_then (Return r, cm) f = (Return r, cm)"
  "and_then (Throw e, cm) f = (Throw e, cm)"
  by (simp_all add: and_then_def)

lemma prepare_and_commit_checks:
  "prepare_and_commit rt ctrls s asap t
     = (\<lambda>cm. and_then (prepare_switch ctrls s cm) (commit_switch rt s asap t))"
proof (rule ext)
  fix cm
  show "prepare_and_commit rt ctrls s asap t cm
          = and_then (prepare_switch ctrls s cm) (commit_switch rt s asap t)"
  proof (cases "resolve_conflicts_loop s ctrls cm")
    case (Pair fl cm1)
    then show ?thesis
      by (cases fl) (auto simp: prepare_and_commit_def prepare_switch_def and_then_def)
  qed
qed

lemma switch_after_resolution_checks:
  "switch_after_resolution fuel rt s asap t
     = (\<lambda>cm. and_then (checks_after_resolution fuel s cm) (commit_switch rt s asap t))"
  by (rule ext)
     (simp add: switch_after_resolution_def checks_after_resolution_def and_then_assoc
        prepare_and_commit_checks)

lemma switch_controller_cb_checks:
  "switch_controller_cb fuel rt act deact s asap t cm
     = and_then (switch_request_checks fuel act deact s cm)
         (commit_switch rt (effective_strictness (default_switch_strictness cm) s) asap t)"
  by (simp add: switch_controller_cb_def switch_request_checks_def Let_def and_then_assoc
      switch_after_resolution_checks and_then_ends)

lemma switch_controller_cb_published:
  assumes "switch_request_checks fuel act deact s cm = (Continue, cm1)"
  shows "switch_controller_cb fuel rt act deact s asap t cm
           = commit_switch rt (effective_strictness (default_switch_strictness cm) s) asap t cm1"
  using assms by (simp add: switch_controller_cb_checks and_then_go)

lemma switch_controller_cb_not_published:
  assumes "fst (switch_request_checks fuel act deact s cm) \<noteq> Continue"
  shows "switch_controller_cb fuel rt act deact s asap t cm
           = switch_request_checks fuel act deact s cm"
  using assms by (simp add: switch_controller_cb_checks and_then_stop)

text \<open>
  Claim C4. Suppose the realtime loop does not serve the request before the wait expires
  (the wait lasts the requested timeout, a request of zero standing for one second). If the
  checks of \<^verbatim>\<open>switch_controller_cb\<close> pass, so that the request is published and
  \<^verbatim>\<open>do_switch\<close> raised, the call returns ERROR; when it returns, the six request lists are
  empty and \<^verbatim>\<open>do_switch\<close> is cleared, and the roster is exactly as the call found it:
  nothing that was applied to a controller is undone. If the checks end the call, nothing
  is published and the call is over before any wait. In either case the roster is left as
  it was. The commit on its own behaves in the same way on every manager.
\<close>

theorem switch_timeout_gives_up:
  assumes "\<not> served_within rt_serves_at (switch_timeout timeout_arg)"
  shows "(fst (switch_request_checks fuel act deact s cm) = Continue
          \<longrightarrow> fst (switch_controller_cb fuel rt_serves_at act deact s asap timeout_arg cm)
                = Return ERROR
              \<and> requests_cleared
                  (snd (switch_controller_cb fuel rt_serves_at act deact s asap timeout_arg cm))
              \<and> do_switch (switch_params
                    (snd (switch_controller_cb fuel rt_serves_at act deact s asap timeout_arg cm)))
                  = False)
       \<and> (fst (switch_request_checks fuel act deact s cm) \<noteq> Continue
          \<longrightarrow> switch_controller_cb fuel rt_serves_at act deact s asap timeout_arg cm
                = switch_request_checks fuel act deact s cm)
       \<and> controllers (snd (switch_controller_cb fuel rt_serves_at act deact s asap timeout_arg cm))
           = controllers cm
       \<and> fst (commit_switch rt_serves_at s asap timeout_arg cm) = Return ERROR
       \<and> requests_cleared (snd (commit_switch rt_serves_at s asap timeout_arg cm))
       \<and> do_switch (switch_params (snd (commit_switch rt_serves_at s asap timeout_arg cm))) = False
       \<and> controllers (snd (commit_switch rt_serves_at s asap timeout_arg cm)) = controllers cm"
proof -
  let ?r = "switch_controller_cb fuel rt_serves_at act deact s asap timeout_arg cm"
  have published: "fst ?r = Return ERROR \<and> requests_cleared (snd ?r)
      \<and> do_switch (switch_params (snd ?r)) = False"
    if c: "fst (switch_request_checks fuel act deact s cm) = Continue"
  proof -
    obtain cm1 where "switch_request_checks fuel act deact s cm = (Continue, cm1)"
      using c by (cases "switch_request_checks fuel act deact s cm") simp
    then have "?r = commit_switch rt_serves_at
        (effective_strictness (default_switch_strictness cm) s) asap timeout_arg cm1"
      by (rule switch_controller_cb_published)
    then show ?thesis
      using commit_switch_timeout [OF assms] by simp
  qed
  have ended: "?r = switch_request_checks fuel act deact s cm"
    if "fst (switch_request_checks fuel act deact s cm) \<noteq> Continue"
    using that by (rule switch_controller_cb_not_published)
  show ?thesis
    using published ended commit_switch_timeout [OF assms]
      switch_controller_cb_timeout [OF assms]
    by (simp add: same_roster_def)
qed

theorem switch_timeout_gives_up_witness:
  "\<not> served_within None (switch_timeout 100000000)
   \<and> fst (switch_request_checks 10 [''c1''] [] STRICT scenario_S5) = Continue
   \<and> fst (switch_controller_cb 10 None [''c1''] [] STRICT False 100000000 scenario_S5)
       = Return ERROR
   \<and> requests_cleared
         (snd (switch_controller_cb 10 None [''c1''] [] STRICT False 100000000 scenario_S5))
   \<and> do_switch (switch_params
           (snd (switch_controller_cb 10 None [''c1''] [] STRICT False 100000000 scenario_S5)))
       = False
   \<and> states_of (snd (switch_controller_cb 10 None [''c1''] [] STRICT False 100000000 scenario_S5))
       = [(''c1'', PRIMARY_STATE_INACTIVE)]
   \<and> fst (switch_controller_cb 10 (Some 50000000) [''c1''] [] STRICT False 100000000 scenario_S5)
       = Return OK
   \<and> states_of (snd (switch_controller_cb 10 (Some 50000000) [''c1''] [] STRICT False 100000000
                       scenario_S5))
       = [(''c1'', PRIMARY_STATE_ACTIVE)]"
proof -
  have h: "\<not> served_within None (switch_timeout 100000000)"
    by (simp add: served_within_def)
  have c: "fst (switch_request_checks 10 [''c1''] [] STRICT scenario_S5) = Continue"
    by code_simp
  have s: "states_of scenario_S5 = [(''c1'', PRIMARY_STATE_INACTIVE)]"
    by code_simp
  have served:
    "fst (switch_controller_cb 10 (Some 50000000) [''c1''] [] STRICT False 100000000 scenario_S5)
       = Return OK"
    "states_of (snd (switch_controller_cb 10 (Some 50000000) [''c1''] [] STRICT False 100000000
                       scenario_S5))
       = [(''c1'', PRIMARY_STATE_ACTIVE)]"
    by code_simp+
  show ?thesis
    using h c s served
      switch_timeout_gives_up [OF h, where fuel = 10 and act = "[''c1'']" and deact = "[]"
        and s = STRICT and cm = scenario_S5 and asap = False]
    by (simp add: states_of_def)
qed

lemma commit_switch_zero_timeout:
  "commit_switch rt s asap 0 cm = commit_switch rt s asap 1000000000 cm"
  by (simp add: commit_switch_def switch_timeout_def)

lemma prepare_and_commit_zero_timeout:
  "prepare_and_commit rt ctrls s asap 0 = prepare_and_commit rt ctrls s asap 1000000000"
  by (rule ext) (simp add: prepare_and_commit_def commit_switch_zero_timeout cong: if_cong)

lemma switch_after_resolution_zero_timeout:
  "switch_after_resolution fuel rt s asap 0 = switch_after_resolution fuel rt s asap 1000000000"
  by (rule ext) (simp add: switch_after_resolution_def prepare_and_commit_zero_timeout)

text \<open>
  Claim C9. A call with a timeout of exactly zero behaves in every respect as the call with
  a timeout of one second: the timeout stored for the wait is \<open>10\<^sup>9\<close> nanoseconds, and the
  wait succeeds exactly when the realtime loop serves the request within one second.
\<close>

theorem zero_timeout_is_one_second:
  "switch_controller_cb fuel rt_serves_at act deact s asap 0 cm =
     switch_controller_cb fuel rt_serves_at act deact s asap 1000000000 cm
   \<and> switch_timeout 0 = 1000000000
   \<and> fst (wait_for_switch rt_serves_at
            (cm\<lparr>switch_params := \<lparr>do_switch = True, strictness = s, activate_asap = asap,
                                    timeout = switch_timeout 0\<rparr>\<rparr>))
       = served_within rt_serves_at 1000000000"
  by (simp add: switch_controller_cb_def switch_after_resolution_zero_timeout
      switch_timeout_def wait_for_switch_def cong: if_cong)

theorem zero_timeout_is_one_second_witness:
  "fst (switch_controller_cb 10 (Some 500000000) [''c1''] [] STRICT False 0 scenario_S5) = Return OK
   \<and> states_of (snd (switch_controller_cb 10 (Some 500000000) [''c1''] [] STRICT False 0
                       scenario_S5)) = [(''c1'', PRIMARY_STATE_ACTIVE)]
   \<and> fst (switch_controller_cb 10 (Some 2000000000) [''c1''] [] STRICT False 0 scenario_S5)
       = Return ERROR"
proof -
  have a: "fst (switch_controller_cb 10 (Some 500000000) [''c1''] [] STRICT False 1000000000
             scenario_S5) = Return OK"
    by code_simp
  have b: "states_of (snd (switch_controller_cb 10 (Some 500000000) [''c1''] [] STRICT False
             1000000000 scenario_S5)) = [(''c1'', PRIMARY_STATE_ACTIVE)]"
    by code_simp
  have c: "fst (switch_controller_cb 10 (Some 2000000000) [''c1''] [] STRICT False 1000000000
             scenario_S5) = Return ERROR"
    by code_simp
  show ?thesis
    using a b c
      zero_timeout_is_one_second [of 10 "Some 500000000" "[''c1'']" "[]" STRICT False scenario_S5]
      zero_timeout_is_one_second [of 10 "Some 2000000000" "[''c1'']" "[]" STRICT False scenario_S5]
    by simp
qed

section \<open>Properties of the switch: rejected requests\<close>


lemma strict_not_best_effort [simp]: "STRICT \<noteq> BEST_EFFORT" "BEST_EFFORT \<noteq> STRICT"
  by (simp_all add: STRICT_def BEST_EFFORT_def)




text \<open>
  The function up to the resolution of the names: it returns ERROR for a resource manager
  that is not initialized, throws when a request list is not empty, and otherwise resolves
  the names against the roster of a manager whose request lists are empty.
\<close>

lemma switch_controller_cb_cases:
  obtains (uninitialized) "\<not> resource_manager_initialized cm"
      "switch_controller_cb fuel rt act deact s asap t cm = (Return ERROR, cm)"
  | (dirty) cm0 where "same_roster cm cm0"
      "switch_controller_cb fuel rt act deact s asap t cm = (Throw RuntimeError, cm0)"
  | (resolve) cm0 where "same_roster cm cm0" "requests_cleared cm0"
      "default_switch_strictness cm0 = default_switch_strictness cm"
      "switch_controller_cb fuel rt act deact s asap t cm =
         and_then (resolve_requests act deact
                     (effective_strictness (default_switch_strictness cm) s) cm0)
           (switch_after_resolution fuel rt
              (effective_strictness (default_switch_strictness cm) s) asap t)"
proof -
  let ?cm0 = "cm\<lparr>switch_params := SwitchParams_reset (switch_params cm)\<rparr>"
  have sr: "same_roster cm ?cm0" by simp
  show thesis
  proof (cases "resource_manager_initialized cm")
    case False
    then show ?thesis using uninitialized by (simp add: switch_controller_cb_def)
  next
    case True
    show ?thesis
    proof (cases "requests_cleared cm")
      case False
      then have "switch_controller_cb fuel rt act deact s asap t cm = (Throw RuntimeError, ?cm0)"
        using True by (auto simp: switch_controller_cb_def Let_def requests_cleared_def)
      then show ?thesis using dirty sr by blast
    next
      case c: True
      then have "requests_cleared ?cm0" by (simp add: requests_cleared_def)
      moreover have "switch_controller_cb fuel rt act deact s asap t cm =
         and_then (resolve_requests act deact
                     (effective_strictness (default_switch_strictness cm) s) ?cm0)
           (switch_after_resolution fuel rt
              (effective_strictness (default_switch_strictness cm) s) asap t)"
        using True c by (simp add: switch_controller_cb_def Let_def requests_cleared_def)
      ultimately show ?thesis using resolve [of ?cm0] sr by simp
    qed
  qed
qed



text \<open>
  Claim C5 as stated fails under BEST\_EFFORT, in both of its cases. In the first request
  the preceding controller \<open>traj\<close> is inactive and named for activation: its own check fails
  because \<open>pid1\<close> is to be deactivated, it is erased from the activate request, the check
  for \<open>pid1\<close> then finds nothing, and the call returns OK with \<open>pid1\<close> deactivated. In the
  second request the preceding controller \<open>traj\<close> is active and not named for deactivation:
  the check drops \<open>pid1\<close> from the deactivate request, but the deactivation of \<open>feed\<close> has
  put \<open>pid1\<close> on the list of controllers to take out of chained mode, the conflict loop
  queues it for a restart, and the call returns OK after \<open>pid1\<close> was deactivated, taken out
  of chained mode and activated again under the active \<open>traj\<close>.
\<close>

theorem best_effort_deactivation_counterexample:
  "find_controller (controllers scenario_inactive_preceding) ''pid1''
     = Some (controllers scenario_inactive_preceding ! 0)
   \<and> is_chainable (cobj (controllers scenario_inactive_preceding ! 0))
   \<and> ''traj'' \<in> set (preceding_controllers_list scenario_inactive_preceding ''pid1'')
   \<and> find_controller (controllers scenario_inactive_preceding) ''traj''
       = Some (controllers scenario_inactive_preceding ! 1)
   \<and> is_controller_inactive (cobj (controllers scenario_inactive_preceding ! 1))
   \<and> states_of scenario_inactive_preceding
       = [(''pid1'', PRIMARY_STATE_ACTIVE), (''traj'', PRIMARY_STATE_INACTIVE)]
   \<and> fst (switch_controller_cb 10 (Some 0) [''traj''] [''pid1''] BEST_EFFORT False 1000000000
            scenario_inactive_preceding) = Return OK
   \<and> states_of (snd (switch_controller_cb 10 (Some 0) [''traj''] [''pid1''] BEST_EFFORT False
                       1000000000 scenario_inactive_preceding))
       = [(''pid1'', PRIMARY_STATE_INACTIVE), (''traj'', PRIMARY_STATE_INACTIVE)]
   \<and> find_controller (controllers scenario_two_preceding) ''pid1''
       = Some (controllers scenario_two_preceding ! 0)
   \<and> is_chainable (cobj (controllers scenario_two_preceding ! 0))
   \<and> is_in_chained_mode (cobj (controllers scenario_two_preceding ! 0))
   \<and> ''traj'' \<in> set (preceding_controllers_list scenario_two_preceding ''pid1'')
   \<and> find_controller (controllers scenario_two_preceding) ''traj''
       = Some (controllers scenario_two_preceding ! 1)
   \<and> is_controller_active (cobj (controllers scenario_two_preceding ! 1))
   \<and> ''traj'' \<notin> set [''pid1'', ''feed'']
   \<and> fst (switch_request_checks 10 [] [''pid1'', ''feed''] BEST_EFFORT scenario_two_preceding)
       = Continue
   \<and> deactivate_request
         (snd (switch_request_checks 10 [] [''pid1'', ''feed''] BEST_EFFORT scenario_two_preceding))
       = [''feed'', ''pid1'']
   \<and> activate_request
         (snd (switch_request_checks 10 [] [''pid1'', ''feed''] BEST_EFFORT scenario_two_preceding))
       = [''pid1'']
   \<and> fst (switch_controller_cb 10 (Some 0) [] [''pid1'', ''feed''] BEST_EFFORT False 1000000000
            scenario_two_preceding) = Return OK
   \<and> states_of (snd (switch_controller_cb 10 (Some 0) [] [''pid1'', ''feed''] BEST_EFFORT False
                       1000000000 scenario_two_preceding))
       = [(''pid1'', PRIMARY_STATE_ACTIVE), (''traj'', PRIMARY_STATE_ACTIVE),
          (''feed'', PRIMARY_STATE_INACTIVE)]
   \<and> \<not> is_in_chained_mode
         (cobj (controllers (snd (switch_controller_cb 10 (Some 0) [] [''pid1'', ''feed'']
                                    BEST_EFFORT False 1000000000 scenario_two_preceding)) ! 0))"
  by code_simp

text \<open>
  Claim C6, as amended. (1) Under STRICT strictness a request that names a controller
  missing from the roster fails, ERROR being returned (or the exception for a manager with
  pending request lists being thrown), and the roster is as before. (2) Under BEST\_EFFORT
  a request fails in the same way when its deactivate list, or its activate list, is not
  empty and names only missing controllers. (3) Otherwise, under BEST\_EFFORT, the missing
  names are dropped: the call behaves in every respect as the call that names only the
  controllers of the roster.
\<close>

theorem missing_names_by_strictness:
  "(effective_strictness (default_switch_strictness cm) s = STRICT
      \<and> \<not> list_all (in_roster (controllers cm)) (deact @ act)
    \<longrightarrow> (fst (switch_controller_cb fuel rt act deact s asap t cm) = Return ERROR
          \<or> fst (switch_controller_cb fuel rt act deact s asap t cm) = Throw RuntimeError)
        \<and> controllers (snd (switch_controller_cb fuel rt act deact s asap t cm)) = controllers cm)
   \<and> (effective_strictness (default_switch_strictness cm) s = BEST_EFFORT
      \<and> (deact \<noteq> [] \<and> filter (in_roster (controllers cm)) deact = []
           \<or> act \<noteq> [] \<and> filter (in_roster (controllers cm)) act = [])
    \<longrightarrow> (fst (switch_controller_cb fuel rt act deact s asap t cm) = Return ERROR
          \<or> fst (switch_controller_cb fuel rt act deact s asap t cm) = Throw RuntimeError)
        \<and> controllers (snd (switch_controller_cb fuel rt act deact s asap t cm)) = controllers cm)
   \<and> (effective_strictness (default_switch_strictness cm) s = BEST_EFFORT
      \<and> (deact = [] \<or> filter (in_roster (controllers cm)) deact \<noteq> [])
      \<and> (act = [] \<or> filter (in_roster (controllers cm)) act \<noteq> [])
    \<longrightarrow> switch_controller_cb fuel rt act deact s asap t cm =
          switch_controller_cb fuel rt (filter (in_roster (controllers cm)) act)
            (filter (in_roster (controllers cm)) deact) s asap t cm)"
proof (intro conjI impI)
  let ?r = "switch_controller_cb fuel rt act deact s asap t cm"
  let ?eff = "effective_strictness (default_switch_strictness cm) s"
  {
    assume a: "?eff = STRICT \<and> \<not> list_all (in_roster (controllers cm)) (deact @ act)"
    have "(fst ?r = Return ERROR \<or> fst ?r = Throw RuntimeError) \<and> same_roster cm (snd ?r)"
    proof (cases rule: switch_controller_cb_cases [of cm fuel rt act deact s asap t])
      case uninitialized
      then show ?thesis by simp
    next
      case (dirty cm0)
      then show ?thesis by simp
    next
      case (resolve cm0)
      have cl: "deactivate_request cm0 = []" "activate_request cm0 = []"
        using resolve(2) by (simp_all add: requests_cleared_def)
      have c0: "controllers cm0 = controllers cm"
        using resolve(1) by (simp add: same_roster_def)
      have miss: "(\<exists>n \<in> set deact. \<not> in_roster (controllers cm0) n)
                  \<or> (\<exists>n \<in> set act. \<not> in_roster (controllers cm0) n)"
        using a c0 by (auto simp: list_all_iff)
      let ?rr = "resolve_requests act deact STRICT cm0"
      have "fst ?rr = Return ERROR \<and> same_roster cm (snd ?rr)"
        using resolve_requests_strict [OF cl, of act deact] miss resolve(1) by auto
      then show ?thesis
        using resolve(4) a and_then_stop [of ?rr] by simp
    qed
    then show "fst ?r = Return ERROR \<or> fst ?r = Throw RuntimeError"
      and "controllers (snd ?r) = controllers cm"
      by (simp_all add: same_roster_def)
  }
  {
    assume a: "?eff = BEST_EFFORT
      \<and> (deact \<noteq> [] \<and> filter (in_roster (controllers cm)) deact = []
           \<or> act \<noteq> [] \<and> filter (in_roster (controllers cm)) act = [])"
    have "(fst ?r = Return ERROR \<or> fst ?r = Throw RuntimeError) \<and> same_roster cm (snd ?r)"
    proof (cases rule: switch_controller_cb_cases [of cm fuel rt act deact s asap t])
      case uninitialized
      then show ?thesis by simp
    next
      case (dirty cm0)
      then show ?thesis by simp
    next
      case (resolve cm0)
      have cl: "deactivate_request cm0 = []" "activate_request cm0 = []"
        using resolve(2) by (simp_all add: requests_cleared_def)
      have c0: "controllers cm0 = controllers cm"
        using resolve(1) by (simp add: same_roster_def)
      let ?rr = "resolve_requests act deact BEST_EFFORT cm0"
      have "fst ?rr = Return ERROR \<and> same_roster cm (snd ?rr)"
        using resolve_requests_best_effort [OF strict_not_best_effort(2) cl, of act deact]
          a c0 resolve(1) by auto
      then show ?thesis
        using resolve(4) a and_then_stop [of ?rr] by simp
    qed
    then show "fst ?r = Return ERROR \<or> fst ?r = Throw RuntimeError"
      and "controllers (snd ?r) = controllers cm"
      by (simp_all add: same_roster_def)
  }
  {
    assume a: "?eff = BEST_EFFORT
      \<and> (deact = [] \<or> filter (in_roster (controllers cm)) deact \<noteq> [])
      \<and> (act = [] \<or> filter (in_roster (controllers cm)) act \<noteq> [])"
    let ?act = "filter (in_roster (controllers cm)) act"
    let ?deact = "filter (in_roster (controllers cm)) deact"
    have same_resolution: "resolve_requests act deact BEST_EFFORT cm0 =
        resolve_requests ?act ?deact BEST_EFFORT cm0"
      if "deactivate_request cm0 = []" "activate_request cm0 = []"
        "controllers cm0 = controllers cm" for cm0
      using a that
        resolve_requests_best_effort [OF strict_not_best_effort(2) that(1,2), of act deact]
        resolve_requests_best_effort [OF strict_not_best_effort(2) that(1,2), of ?act ?deact]
      by auto
    let ?cm0 = "cm\<lparr>switch_params := SwitchParams_reset (switch_params cm)\<rparr>"
    have "resolve_requests act deact BEST_EFFORT ?cm0 =
        resolve_requests ?act ?deact BEST_EFFORT ?cm0"
      if "deactivate_request cm = []" "activate_request cm = []"
      using that same_resolution [of ?cm0] by simp
    then show "?r = switch_controller_cb fuel rt ?act ?deact s asap t cm"
      using a by (auto simp: switch_controller_cb_def Let_def)
  }
qed

theorem missing_names_by_strictness_witness:
  "effective_strictness (default_switch_strictness scenario_S5) STRICT = STRICT
   \<and> \<not> list_all (in_roster (controllers scenario_S5)) ([] @ [''c1'', ''ghost''])
   \<and> fst (switch_controller_cb 10 (Some 0) [''c1'', ''ghost''] [] STRICT False 1000000000
            scenario_S5) = Return ERROR
   \<and> states_of (snd (switch_controller_cb 10 (Some 0) [''c1'', ''ghost''] [] STRICT False
            1000000000 scenario_S5)) = [(''c1'', PRIMARY_STATE_INACTIVE)]
   \<and> effective_strictness (default_switch_strictness scenario_S5) BEST_EFFORT = BEST_EFFORT
   \<and> [''ghost''] \<noteq> [] \<and> filter (in_roster (controllers scenario_S5)) [''ghost''] = []
   \<and> states_of (snd (switch_controller_cb 10 (Some 0) [''c1''] [''ghost''] BEST_EFFORT False
            1000000000 scenario_S5)) = [(''c1'', PRIMARY_STATE_INACTIVE)]
   \<and> filter (in_roster (controllers scenario_S5)) [''ghost'', ''c1''] = [''c1'']
   \<and> fst (switch_controller_cb 10 (Some 0) [''ghost'', ''c1''] [] BEST_EFFORT False 1000000000
            scenario_S5) = Return OK
   \<and> states_of (snd (switch_controller_cb 10 (Some 0) [''ghost'', ''c1''] [] BEST_EFFORT False
            1000000000 scenario_S5)) = [(''c1'', PRIMARY_STATE_ACTIVE)]"
proof -
  have h1: "effective_strictness (default_switch_strictness scenario_S5) STRICT = STRICT"
    "\<not> list_all (in_roster (controllers scenario_S5)) ([] @ [''c1'', ''ghost''])"
    by code_simp+
  have h2: "effective_strictness (default_switch_strictness scenario_S5) BEST_EFFORT = BEST_EFFORT"
    "filter (in_roster (controllers scenario_S5)) [''ghost''] = []"
    by code_simp+
  have h3: "filter (in_roster (controllers scenario_S5)) [''ghost'', ''c1''] = [''c1'']"
    "filter (in_roster (controllers scenario_S5)) ([]::string list) = []"
    by code_simp+
  have e1: "fst (switch_controller_cb 10 (Some 0) [''c1'', ''ghost''] [] STRICT False 1000000000
            scenario_S5) = Return ERROR"
    by code_simp
  have st: "states_of scenario_S5 = [(''c1'', PRIMARY_STATE_INACTIVE)]"
    by code_simp
  have ok: "fst (switch_controller_cb 10 (Some 0) [''c1''] [] BEST_EFFORT False 1000000000
            scenario_S5) = Return OK"
    "states_of (snd (switch_controller_cb 10 (Some 0) [''c1''] [] BEST_EFFORT False
            1000000000 scenario_S5)) = [(''c1'', PRIMARY_STATE_ACTIVE)]"
    by code_simp+
  show ?thesis
    using h1 h2 h3 e1 st ok
      missing_names_by_strictness [of scenario_S5 STRICT "[]" "[''c1'', ''ghost'']" 10 "Some 0"
        False 1000000000]
      missing_names_by_strictness [of scenario_S5 BEST_EFFORT "[''ghost'']" "[''c1'']" 10 "Some 0"
        False 1000000000]
      missing_names_by_strictness [of scenario_S5 BEST_EFFORT "[]" "[''ghost'', ''c1'']" 10
        "Some 0" False 1000000000]
    by (simp add: states_of_def)
qed

text \<open>
  Claim C6 as stated fails: under BEST\_EFFORT the request to deactivate the missing
  controller \<open>ghost\<close> and to activate the loaded, inactive controller \<open>c1\<close> returns ERROR
  and leaves \<open>c1\<close> inactive, although the request that names \<open>c1\<close> alone succeeds.
\<close>

theorem best_effort_all_missing_counterexample:
  "in_roster (controllers scenario_S5) ''c1''
   \<and> \<not> in_roster (controllers scenario_S5) ''ghost''
   \<and> fst (switch_controller_cb 10 (Some 0) [''c1''] [''ghost''] BEST_EFFORT False 1000000000
            scenario_S5) = Return ERROR
   \<and> states_of (snd (switch_controller_cb 10 (Some 0) [''c1''] [''ghost''] BEST_EFFORT False
            1000000000 scenario_S5)) = [(''c1'', PRIMARY_STATE_INACTIVE)]
   \<and> fst (switch_controller_cb 10 (Some 0) [''c1''] [] BEST_EFFORT False 1000000000
            scenario_S5) = Return OK
   \<and> states_of (snd (switch_controller_cb 10 (Some 0) [''c1''] [] BEST_EFFORT False
            1000000000 scenario_S5)) = [(''c1'', PRIMARY_STATE_ACTIVE)]"
  by code_simp

section \<open>Properties of the switch: the result OK\<close>

lemma refresh_claimed_interfaces_keeps [simp]:
  "cobj (refresh_claimed_interfaces rm a) = cobj a"
  "name (info (refresh_claimed_interfaces rm a)) = name (info a)"
  by (simp_all add: refresh_claimed_interfaces_def split: interface_configuration_type.splits)

lemma evaluate_controller_OK:
  "evaluate_controller al dl a res = OK \<longleftrightarrow>
     res = OK
     \<and> (name (info a) \<in> set al \<longrightarrow> is_controller_active (cobj a))
     \<and> (name (info a) \<in> set dl \<and> name (info a) \<notin> set al \<longrightarrow> \<not> is_controller_active (cobj a))"
  by (auto simp: evaluate_controller_def Let_def)

lemma evaluate_loop_result:
  "evaluate_loop rm al dl ctrls res =
     (if res = OK \<and> (\<forall>a \<in> set ctrls. evaluate_controller al dl a OK = OK) then OK else ERROR,
      map (refresh_claimed_interfaces rm) ctrls)"
proof (induction ctrls arbitrary: res)
  case Nil
  then show ?case by (cases res) simp_all
next
  case (Cons a ctrls)
  have "evaluate_controller al dl a res = OK \<longleftrightarrow> res = OK \<and> evaluate_controller al dl a OK = OK"
    by (auto simp: evaluate_controller_OK)
  then show ?case
    using Cons [of "evaluate_controller al dl a res"] by auto
qed

lemma switched_iff:
  "switched act deact ctrls \<longleftrightarrow>
     (\<forall>a \<in> set ctrls.
        (name (info a) \<in> set act \<longrightarrow> is_controller_active (cobj a))
        \<and> (name (info a) \<in> set deact \<and> name (info a) \<notin> set act
             \<longrightarrow> \<not> is_controller_active (cobj a)))"
  by (auto simp: switched_def list_all_iff)

lemma evaluate_switch_result_OK:
  assumes "evaluate_switch_result rm al dl s ctrls = (OK, to)"
  shows "to = map (refresh_claimed_interfaces rm) ctrls" and "switched al dl to"
proof -
  have r: "to = map (refresh_claimed_interfaces rm) ctrls"
    and ok: "\<forall>a \<in> set ctrls. evaluate_controller al dl a OK = OK"
    using assms
    by (auto simp: evaluate_switch_result_def evaluate_loop_result split: if_splits)
  show "to = map (refresh_claimed_interfaces rm) ctrls" by (rule r)
  show "switched al dl to"
    using r ok by (auto simp: evaluate_controller_OK switched_iff)
qed

lemma manage_switch_requests [simp]:
  "activate_request (manage_switch l cm) = activate_request cm"
  "deactivate_request (manage_switch l cm) = deactivate_request cm"
  by (simp_all add: manage_switch_def Let_def split: prod.splits)

lemma commit_switch_OK:
  assumes "commit_switch rt s asap t cm = (Return OK, cm')"
  shows "switched (activate_request cm) (deactivate_request cm) (controllers cm')"
proof -
  let ?cm1 = "cm\<lparr>switch_params := \<lparr>do_switch = True, strictness = s, activate_asap = asap,
                                      timeout = switch_timeout t\<rparr>\<rparr>"
  obtain served cm2 where w: "wait_for_switch rt ?cm1 = (served, cm2)"
    by (cases "wait_for_switch rt ?cm1")
  have served: served
    using assms w by (auto simp: commit_switch_def Let_def split: if_splits)
  then have cm2: "cm2 = manage_switch True ?cm1"
    using w by (auto simp: wait_for_switch_def split: if_splits)
  have req: "activate_request cm2 = activate_request cm"
    "deactivate_request cm2 = deactivate_request cm"
    using cm2 by simp_all
  obtain r to where e: "evaluate_switch_result (resource_manager cm2) (activate_request cm2)
      (deactivate_request cm2) s (controllers cm2) = (r, to)"
    by (cases "evaluate_switch_result (resource_manager cm2) (activate_request cm2)
      (deactivate_request cm2) s (controllers cm2)")
  have "r = OK" "controllers cm' = to"
    using assms w served e by (auto simp: commit_switch_def Let_def clear_requests_def)
  then show ?thesis
    using evaluate_switch_result_OK(2) [of "resource_manager cm2" "activate_request cm2"
        "deactivate_request cm2" s "controllers cm2" to] e req
    by simp
qed

lemma switched_covers:
  assumes "switched (activate_request cm) (deactivate_request cm) ctrls" "covers act deact cm"
  shows "switched act deact ctrls"
  using assms by (auto simp: switched_iff covers_def)

lemma switched_nothing [simp]: "switched [] [] ctrls"
  by (simp add: switched_iff)

lemma covers_empty:
  "covers act deact cm \<Longrightarrow> activate_request cm = [] \<Longrightarrow> deactivate_request cm = []
     \<Longrightarrow> act = [] \<and> deact = []"
  by (simp add: covers_def)

lemma covers_kept: "covers act deact cm \<Longrightarrow> requests_kept cm cm' \<Longrightarrow> covers act deact cm'"
  by (simp add: covers_def requests_kept_def)

lemma restart_for_chained_mode_covers:
  "covers act deact cm \<Longrightarrow> covers act deact (restart_for_chained_mode a cm)"
  by (auto simp: covers_def restart_for_chained_mode_def)

lemma requests_kept_update [simp]:
  "requests_kept cm (cm'\<lparr>to_chained_mode_request := l\<rparr>) = requests_kept cm cm'"
  "requests_kept cm (cm'\<lparr>from_chained_mode_request := l\<rparr>) = requests_kept cm cm'"
  "requests_kept cm (cm'\<lparr>activate_command_interface_request := l\<rparr>) = requests_kept cm cm'"
  "requests_kept cm (cm'\<lparr>deactivate_command_interface_request := l\<rparr>) = requests_kept cm cm'"
  "requests_kept cm (cm'\<lparr>resource_manager := rm\<rparr>) = requests_kept cm cm'"
  "requests_kept cm (cm'\<lparr>switch_params := sp\<rparr>) = requests_kept cm cm'"
  by (simp_all add: requests_kept_def)

lemma collect_interfaces_kept [simp]:
  "requests_kept cm (collect_interfaces a x y cm') = requests_kept cm cm'"
  by (simp add: collect_interfaces_def Let_def)

lemma check_double_stop_strict:
  assumes "fst (check_double_stop STRICT a cm) = Continue"
  shows "requests_kept cm (snd (check_double_stop STRICT a cm))"
  using assms
  by (auto simp: check_double_stop_def check_doubled_activation_def check_illegal_activation_def
      handle_conflict_def Let_def split: if_splits)

lemma resolve_conflicts_loop_strict:
  assumes "fst (resolve_conflicts_loop STRICT ctrls cm) = Continue" "covers act deact cm"
  shows "covers act deact (snd (resolve_conflicts_loop STRICT ctrls cm))"
  using assms
proof (induction ctrls arbitrary: cm)
  case Nil
  then show ?case by simp
next
  case (Cons a rest)
  obtain fl cm1 where r: "resolve_conflicts_of STRICT a cm = (fl, cm1)"
    by (cases "resolve_conflicts_of STRICT a cm")
  have c: "fl = Continue"
    using Cons.prems(1) r by (auto simp: and_then_def split: flow.splits)
  have "requests_kept (restart_for_chained_mode a cm) cm1"
    using check_double_stop_strict [of a "restart_for_chained_mode a cm"] r c
    by (simp add: resolve_conflicts_of_def)
  then have "covers act deact cm1"
    using Cons.prems(2) restart_for_chained_mode_covers covers_kept by blast
  moreover have "fst (resolve_conflicts_loop STRICT rest cm1) = Continue"
    using Cons.prems(1) r c by (simp add: and_then_def)
  ultimately show ?case
    using Cons.IH r c by (simp add: and_then_def)
qed

lemma prepare_and_commit_strict_OK:
  assumes "prepare_and_commit rt ctrls STRICT asap t cm = (Return OK, cm')"
    and "covers act deact cm"
  shows "switched act deact (controllers cm')"
proof (cases "activate_request cm = [] \<and> deactivate_request cm = []")
  case True
  then show ?thesis
    using assms(2) covers_empty by fastforce
next
  case False
  obtain fl cm1 where r: "resolve_conflicts_loop STRICT ctrls cm = (fl, cm1)"
    by (cases "resolve_conflicts_loop STRICT ctrls cm")
  have "fl \<in> {Continue, Return ERROR}"
    using resolve_conflicts_loop_same [of cm STRICT ctrls] r by simp
  then have c: "fl = Continue"
    using assms(1) False r by (auto simp: prepare_and_commit_def and_then_def)
  then have cov: "covers act deact cm1"
    using resolve_conflicts_loop_strict [of ctrls cm act deact] r assms(2) by simp
  show ?thesis
  proof (cases "activate_request cm1 = [] \<and> deactivate_request cm1 = []")
    case True
    then show ?thesis
      using cov covers_empty by fastforce
  next
    case nonempty: False
    then have "commit_switch rt STRICT asap t cm1 = (Return OK, cm')"
      using assms(1) False r c
      by (auto simp: prepare_and_commit_def and_then_def split: if_splits)
    then show ?thesis
      using commit_switch_OK switched_covers cov by blast
  qed
qed

lemma deactivate_request_loop_strict_continue:
  assumes "fst (deactivate_request_loop ctrls STRICT todo i cm) = Continue"
  shows "snd (deactivate_request_loop ctrls STRICT todo i cm) = cm"
  using assms
  by (induction todo arbitrary: i)
     (auto split: sum.splits return_type.splits if_splits)

lemma switch_after_resolution_strict_OK:
  assumes "switch_after_resolution fuel rt STRICT asap t cm = (Return OK, cm')"
    and "covers act deact cm"
  shows "switched act deact (controllers cm')"
proof -
  let ?p = "propagate_deactivation_of_chained_mode (controllers cm) cm"
  obtain f1 cm1 where p: "?p = (f1, cm1)" by (cases ?p)
  have p1: "requests_kept cm cm1" "same_roster cm cm1"
    using propagate_loop_same [of cm "controllers cm" "controllers cm"] p
    by (simp_all add: propagate_deactivation_of_chained_mode_def)
  have f1: "f1 = Continue"
    using propagate_loop_same [of cm "controllers cm" "controllers cm"] p assms(1)
    by (cases f1) (auto simp: propagate_deactivation_of_chained_mode_def
        switch_after_resolution_def and_then_def)
  let ?a = "activate_request_loop fuel (controllers cm1) STRICT (activate_request cm1) 0 cm1"
  obtain f2 cm2 where a: "?a = (f2, cm2)" by (cases ?a)
  have f2: "f2 = Continue"
    using activate_request_loop_same [of cm1 fuel "controllers cm1" STRICT "activate_request cm1" 0]
      a p f1 assms(1)
    by (cases f2) (auto simp: switch_after_resolution_def and_then_def)
  then have a2: "requests_kept cm1 cm2"
    using activate_request_loop_same [of cm1 fuel "controllers cm1" STRICT "activate_request cm1" 0]
      a by simp
  let ?d = "deactivate_request_loop (controllers cm2) STRICT (deactivate_request cm2) 0 cm2"
  obtain f3 cm3 where d: "?d = (f3, cm3)" by (cases ?d)
  have "f3 \<noteq> Return OK"
    using deactivate_request_loop_same [of cm2 "controllers cm2" STRICT "deactivate_request cm2" 0]
      d by simp
  then have f3: "f3 = Continue"
    using a p f1 f2 d assms(1)
    by (cases f3) (auto simp: switch_after_resolution_def and_then_def)
  then have cm3: "cm3 = cm2"
    using deactivate_request_loop_strict_continue [of "controllers cm2" "deactivate_request cm2" 0 cm2]
      d by simp
  have "covers act deact cm2"
    using assms(2) p1(1) a2 covers_kept by blast
  moreover have "prepare_and_commit rt (controllers cm2) STRICT asap t cm2 = (Return OK, cm')"
    using a p f1 f2 d f3 cm3 assms(1)
    by (simp add: switch_after_resolution_def and_then_def)
  ultimately show ?thesis
    by (rule prepare_and_commit_strict_OK [rotated])
qed

lemma switch_controller_cb_strict_OK:
  assumes "effective_strictness (default_switch_strictness cm) s = STRICT"
    and "switch_controller_cb fuel rt act deact s asap t cm = (Return OK, cm')"
  shows "switched act deact (controllers cm')"
proof -
  let ?cm0 = "cm\<lparr>switch_params := SwitchParams_reset (switch_params cm)\<rparr>"
  have empty: "deactivate_request ?cm0 = []" "activate_request ?cm0 = []"
    using assms(2) by (auto simp: switch_controller_cb_def Let_def split: if_splits)
  have run: "and_then (resolve_requests act deact STRICT ?cm0)
      (switch_after_resolution fuel rt STRICT asap t) = (Return OK, cm')"
    using assms by (auto simp: switch_controller_cb_def Let_def split: if_splits)
  have r: "resolve_requests act deact STRICT ?cm0
      = (Continue, ?cm0\<lparr>deactivate_request := deact, activate_request := act\<rparr>)"
    using resolve_requests_strict [OF empty, of act deact] run
    by (auto simp: and_then_def split: if_splits)
  have "covers act deact (?cm0\<lparr>deactivate_request := deact, activate_request := act\<rparr>)"
    by (auto simp: covers_def)
  then show ?thesis
    using run r switch_after_resolution_strict_OK by (simp add: and_then_def)
qed

text \<open>
  Claim C1, as the code has it. \<^verbatim>\<open>evaluate_switch_result\<close> returns OK only if every controller
  of the roster named in the activate request is active and every controller named in the
  deactivate request and not in the activate request is not active; a name in both lists is a
  restart and is only checked for being active. The check is on "not active", so a controller
  whose deactivation failed passes it outside the INACTIVE state. \<^verbatim>\<open>switch_controller_cb\<close>
  returns OK only with the outcome of this evaluation on its request lists, and under STRICT
  strictness these lists cover the lists of the caller.
\<close>

theorem switch_OK_activates_and_deactivates:
  "(evaluate_switch_result rm al dl s ctrls = (OK, to) \<longrightarrow> switched al dl to)
   \<and> (commit_switch rt s asap t cm = (Return OK, cm1)
        \<longrightarrow> switched (activate_request cm) (deactivate_request cm) (controllers cm1))
   \<and> (effective_strictness (default_switch_strictness cm0) s = STRICT
        \<and> switch_controller_cb fuel rt act deact s asap t cm0 = (Return OK, cm2)
        \<longrightarrow> switched act deact (controllers cm2))"
proof (intro conjI impI)
  assume "evaluate_switch_result rm al dl s ctrls = (OK, to)"
  then show "switched al dl to"
    by (rule evaluate_switch_result_OK(2))
next
  assume "commit_switch rt s asap t cm = (Return OK, cm1)"
  then show "switched (activate_request cm) (deactivate_request cm) (controllers cm1)"
    by (rule commit_switch_OK)
next
  assume "effective_strictness (default_switch_strictness cm0) s = STRICT
    \<and> switch_controller_cb fuel rt act deact s asap t cm0 = (Return OK, cm2)"
  then show "switched act deact (controllers cm2)"
    using switch_controller_cb_strict_OK by blast
qed

theorem switch_OK_activates_and_deactivates_witness:
  "fst (evaluate_switch_result (resource_manager scenario_S3) [''traj''] [] STRICT
          (controllers scenario_S3)) = OK
   \<and> switched [''traj''] []
         (snd (evaluate_switch_result (resource_manager scenario_S3) [''traj''] [] STRICT
                 (controllers scenario_S3)))
   \<and> fst (commit_switch (Some 0) STRICT False 1000000000
              (scenario_S5\<lparr>activate_request := [''c1'']\<rparr>)) = Return OK
   \<and> switched [''c1''] []
         (controllers (snd (commit_switch (Some 0) STRICT False 1000000000
                              (scenario_S5\<lparr>activate_request := [''c1'']\<rparr>))))
   \<and> effective_strictness (default_switch_strictness scenario_S5) STRICT = STRICT
   \<and> fst (switch_controller_cb 10 (Some 0) [''c1''] [] STRICT False 1000000000 scenario_S5)
       = Return OK
   \<and> switched [''c1''] []
         (controllers (snd (switch_controller_cb 10 (Some 0) [''c1''] [] STRICT False 1000000000
                              scenario_S5)))
   \<and> states_of (snd (switch_controller_cb 10 (Some 0) [''c1''] [] STRICT False 1000000000
                       scenario_S5))
       = [(''c1'', PRIMARY_STATE_ACTIVE)]"
proof -
  let ?e = "evaluate_switch_result (resource_manager scenario_S3) [''traj''] [] STRICT
              (controllers scenario_S3)"
  let ?c = "commit_switch (Some 0) STRICT False 1000000000
              (scenario_S5\<lparr>activate_request := [''c1'']\<rparr>)"
  let ?s = "switch_controller_cb 10 (Some 0) [''c1''] [] STRICT False 1000000000 scenario_S5"
  have e: "fst ?e = OK" by code_simp
  have c: "fst ?c = Return OK" by code_simp
  have s: "fst ?s = Return OK" by code_simp
  have st: "effective_strictness (default_switch_strictness scenario_S5) STRICT = STRICT"
    by code_simp
  have states: "states_of (snd ?s) = [(''c1'', PRIMARY_STATE_ACTIVE)]" by code_simp
  have none: "deactivate_request scenario_S5 = []" by code_simp
  have e': "?e = (OK, snd ?e)" using e by (simp add: prod_eq_iff)
  have c': "?c = (Return OK, snd ?c)" using c by (simp add: prod_eq_iff)
  have s': "?s = (Return OK, snd ?s)" using s by (simp add: prod_eq_iff)
  show ?thesis
    using e c s st states none e' c' s'
      switch_OK_activates_and_deactivates [of "resource_manager scenario_S3" "[''traj'']" "[]"
        STRICT "controllers scenario_S3" "snd ?e" "Some 0" False 1000000000
        "scenario_S5\<lparr>activate_request := [''c1'']\<rparr>" "snd ?c" scenario_S5 10 "[''c1'']" "[]"
        "snd ?s"]
    by simp
qed

text \<open>
  Claim C1 as stated fails on two requests that return OK. Under STRICT, the request
  "activate \<open>a\<close>, deactivate \<open>a\<close> and \<open>b\<close>" restarts \<open>a\<close>, which is named in the deactivate
  list and ends ACTIVE, and leaves \<open>b\<close>, whose deactivation callback fails, UNCONFIGURED.
  Under BEST\_EFFORT, the request "activate \<open>c1\<close> and \<open>u\<close>" drops the unconfigured \<open>u\<close>
  from the activate request, so \<open>u\<close> is named in the caller's activate list and ends
  UNCONFIGURED.
\<close>

theorem switch_OK_counterexample:
  "fst (switch_controller_cb 10 (Some 0) [''a''] [''a'', ''b''] STRICT False 1000000000
          scenario_restart) = Return OK
   \<and> states_of (snd (switch_controller_cb 10 (Some 0) [''a''] [''a'', ''b''] STRICT False
                       1000000000 scenario_restart))
       = [(''a'', PRIMARY_STATE_ACTIVE), (''b'', PRIMARY_STATE_UNCONFIGURED)]
   \<and> fst (switch_controller_cb 10 (Some 0) [''c1'', ''u''] [] BEST_EFFORT False 1000000000
          scenario_unconfigured) = Return OK
   \<and> states_of (snd (switch_controller_cb 10 (Some 0) [''c1'', ''u''] [] BEST_EFFORT False
                       1000000000 scenario_unconfigured))
       = [(''c1'', PRIMARY_STATE_ACTIVE), (''u'', PRIMARY_STATE_UNCONFIGURED)]"
  by code_simp

section \<open>Properties of load\_controller\<close>

lemma declare_if_missing_keeps [simp]:
  "parameters (declare_if_missing p cm) = parameters cm"
  "controllers (declare_if_missing p cm) = controllers cm"
  by (simp_all add: declare_if_missing_def split: option.splits)





text \<open>
  Claim C10 as stated fails: with \<open>c2\<close> in its own list of fallbacks and a plugin whose
  constructor throws something that is not a \<^verbatim>\<open>std::exception\<close>, \<^verbatim>\<open>load_controller\<close> does
  not return the null pointer; the exception leaves the function.
\<close>

theorem load_controller_rethrows_counterexample:
  "parameters (scenario_fallbacks [''c1'', ''c2'']) (''c2'' @ ''.fallback_controllers'')
     = Some (PARAMETER_STRING_ARRAY [''c1'', ''c2''])
   \<and> ''c2'' \<in> set [''c1'', ''c2'']
   \<and> fst (load_controller foreign_exception_env ''c2'' ''test_controller''
            (scenario_fallbacks [''c1'', ''c2''])) = Inl UnknownException
   \<and> states_of (snd (load_controller foreign_exception_env ''c2'' ''test_controller''
                       (scenario_fallbacks [''c1'', ''c2''])))
       = [(''c1'', PRIMARY_STATE_INACTIVE)]"
  by code_simp

section \<open>Properties of the control cycle\<close>

lemma controller_go_iff:
  "controller_go r t now c \<longleftrightarrow>
     (r \<le> update_rate (cobj c) \<or> t = 0 \<or> last_update_cycle_time c = 0
      \<or> round_double (99 / 100)
          \<le> round_double (seconds (now - last_update_cycle_time c)
                             * round_double (of_nat (update_rate (cobj c)))))"
proof -
  have zero: "\<not> round_double (99 / 100) \<le> round_double (seconds 0 * x)" for x
  proof -
    have "round_double (99 / 100) = 4458563631096791 / 4503599627370496"
      by code_simp
    moreover have "seconds 0 = 0"
      by (simp add: seconds_def round_double_def)
    ultimately show ?thesis
      by (simp add: round_double_def)
  qed
  show ?thesis
    using zero by (auto simp: controller_go_def Let_def)
qed

lemma update_controller_triggered:
  "fst (snd (update_controller cm env t c)) \<longleftrightarrow>
     (is_controller_active (cobj c) \<and> \<not> skip_async_update cm c
      \<and> controller_go (cm_update_rate cm) t
            (if clock_started env then trigger_clock_now env (name (info c)) else t) c)"
  by (simp add: update_controller_def Let_def)

lemma update_loop_triggered:
  "fst (snd (update_loop cm env t ctrls failed ret))
     = map (\<lambda>c. name (info c)) (filter (\<lambda>c. fst (snd (update_controller cm env t c))) ctrls)"
proof (induction ctrls arbitrary: failed ret)
  case Nil
  then show ?case by simp
next
  case (Cons a rest)
  obtain u tg cr where uc: "update_controller cm env t a = (u, tg, cr)"
    by (cases "update_controller cm env t a")
  show ?case
    using uc Cons.IH [of "failed @ [name (info a)]" cr] Cons.IH [of failed ret]
    by (auto simp: Let_def split: prod.splits)
qed

lemma skip_async_update_counter [simp]:
  "skip_async_update (cm\<lparr>update_loop_counter := k\<rparr>) c = skip_async_update cm c"
  by (simp add: skip_async_update_def)

lemma update_triggered:
  assumes "cm_update_rate cm \<noteq> 0" "clock_started env \<or> time_arg \<noteq> 0"
  shows "\<not> isl (fst (update env time_arg period cm))"
    and "snd (snd (update env time_arg period cm))
          = map (\<lambda>c. name (info c))
              (filter (\<lambda>c. fst (snd (update_controller cm env time_arg c))) (controllers cm))"
proof -
  let ?cm0 = "cm\<lparr>update_loop_counter := (update_loop_counter cm + 1) mod cm_update_rate cm\<rparr>"
  have same: "update_controller ?cm0 env time_arg = update_controller cm env time_arg"
    by (rule ext) (simp add: update_controller_def)
  obtain l tr fl rt where u: "update_loop ?cm0 env time_arg (controllers cm) [] OK = (l, tr, fl, rt)"
    by (cases "update_loop ?cm0 env time_arg (controllers cm) [] OK")
  then have tr: "tr = map (\<lambda>c. name (info c))
      (filter (\<lambda>c. fst (snd (update_controller cm env time_arg c))) (controllers cm))"
    using update_loop_triggered [of ?cm0 env time_arg "controllers cm" "[]" OK] same by simp
  show "\<not> isl (fst (update env time_arg period cm))"
    using assms u by (auto simp: update_def Let_def)
  show "snd (snd (update env time_arg period cm))
          = map (\<lambda>c. name (info c))
              (filter (\<lambda>c. fst (snd (update_controller cm env time_arg c))) (controllers cm))"
    using assms u tr by (auto simp: update_def Let_def)
qed

text \<open>
  Claim C3, as the code has it. In a cycle that runs (the manager rate is not zero, and
  the clock has started or the time argument is not zero), \<^verbatim>\<open>trigger_update\<close> is invoked
  for exactly the controllers of the roster that are active, are not asynchronous
  controllers that a pending switch request deactivates, and for which one of four
  conditions holds: the rate of the controller is at least the rate of the manager, the
  \<^verbatim>\<open>time\<close> argument of \<^verbatim>\<open>update\<close> is zero, \<^verbatim>\<open>last_update_cycle_time\<close> is zero (the first
  cycle after the activation), or the time since the last update, in seconds, multiplied
  by the rate is at least 0.99, where the seconds, the product and the constant are
  double-precision numbers with their rounding. The calls are made in the order of the
  roster.
\<close>

theorem trigger_update_gate:
  assumes "cm_update_rate cm \<noteq> 0"
    and "clock_started env \<or> time_arg \<noteq> 0"
  shows "\<not> isl (fst (update env time_arg period cm))
    \<and> snd (snd (update env time_arg period cm))
        = map (\<lambda>c. name (info c))
            (filter
               (\<lambda>c. is_controller_active (cobj c) \<and> \<not> skip_async_update cm c
                    \<and> (cm_update_rate cm \<le> update_rate (cobj c)
                         \<or> time_arg = 0
                         \<or> last_update_cycle_time c = 0
                         \<or> round_double (99 / 100)
                             \<le> round_double
                                 (seconds ((if clock_started env
                                            then trigger_clock_now env (name (info c))
                                            else time_arg) - last_update_cycle_time c)
                                  * round_double (of_nat (update_rate (cobj c))))))
               (controllers cm))"
  using update_triggered [OF assms, of period]
  by (simp add: update_controller_triggered controller_go_iff)

theorem trigger_update_gate_witness:
  "cm_update_rate scenario_S6 \<noteq> 0
   \<and> clock_started (test_cycle_env 2000000000 [])
   \<and> \<not> isl (fst (update (test_cycle_env 2000000000 []) 2000000000 10000000 scenario_S6))
   \<and> snd (snd (update (test_cycle_env 2000000000 []) 2000000000 10000000 scenario_S6))
       = [''fast'', ''due'', ''fresh'']"
proof -
  have r: "cm_update_rate scenario_S6 \<noteq> 0"
    by code_simp
  have c: "clock_started (test_cycle_env 2000000000 []) \<or> (2000000000 :: int) \<noteq> 0"
    by simp
  have s: "clock_started (test_cycle_env 2000000000 [])"
    by code_simp
  have f: "map (\<lambda>c. name (info c))
            (filter
               (\<lambda>c. is_controller_active (cobj c) \<and> \<not> skip_async_update scenario_S6 c
                    \<and> (cm_update_rate scenario_S6 \<le> update_rate (cobj c)
                         \<or> (2000000000 :: int) = 0
                         \<or> last_update_cycle_time c = 0
                         \<or> round_double (99 / 100)
                             \<le> round_double
                                 (seconds ((if clock_started (test_cycle_env 2000000000 [])
                                            then trigger_clock_now (test_cycle_env 2000000000 [])
                                                   (name (info c))
                                            else 2000000000) - last_update_cycle_time c)
                                  * round_double (of_nat (update_rate (cobj c))))))
               (controllers scenario_S6))
          = [''fast'', ''due'', ''fresh'']"
    by code_simp
  show ?thesis
    using r s f trigger_update_gate [OF r c, of 10000000]
    by simp
qed

text \<open>
  Claim C3 as stated fails in both directions. With the time argument zero, \<open>early\<close> is
  triggered although it runs below the rate of the manager, is not in its first cycle and
  was updated 10 ms ago at 50 Hz. \<open>cam\<close>, active at the rate of the manager, is not
  triggered, because it is asynchronous and a pending switch request deactivates it. And
  \<open>edge\<close>, at 55 Hz and updated 18 ms ago, is not triggered although the period multiplied
  by the rate is 0.99: in double precision 18 ms is a little less than 0.018 s and the
  product, 0.9899999999999999, is below the constant.
\<close>

theorem trigger_update_gate_counterexample:
  "snd (snd (update (test_cycle_env 2000000000 []) 0 10000000 scenario_S6))
     = [''fast'', ''due'', ''early'', ''fresh'']
   \<and> name (info (controllers scenario_S6 ! 2)) = ''early''
   \<and> is_controller_active (cobj (controllers scenario_S6 ! 2))
   \<and> \<not> cm_update_rate scenario_S6 \<le> update_rate (cobj (controllers scenario_S6 ! 2))
   \<and> last_update_cycle_time (controllers scenario_S6 ! 2) \<noteq> 0
   \<and> \<not> (99 / 100 :: rat)
         \<le> of_int (2000000000 - last_update_cycle_time (controllers scenario_S6 ! 2))
             / 1000000000 * of_nat (update_rate (cobj (controllers scenario_S6 ! 2)))
   \<and> snd (snd (update (test_cycle_env 2000000000 []) 2000000000 10000000 scenario_async)) = []
   \<and> name (info (controllers scenario_async ! 0)) = ''cam''
   \<and> is_controller_active (cobj (controllers scenario_async ! 0))
   \<and> cm_update_rate scenario_async \<le> update_rate (cobj (controllers scenario_async ! 0))
   \<and> snd (snd (update (test_cycle_env 2000000000 []) 2000000000 10000000 scenario_boundary))
       = []
   \<and> name (info (controllers scenario_boundary ! 0)) = ''edge''
   \<and> is_controller_active (cobj (controllers scenario_boundary ! 0))
   \<and> (99 / 100 :: rat)
       \<le> of_int (2000000000 - last_update_cycle_time (controllers scenario_boundary ! 0))
           / 1000000000 * of_nat (update_rate (cobj (controllers scenario_boundary ! 0)))
   \<and> seconds 18000000 = 5188146770730811 / 288230376151711744
   \<and> round_double (seconds 18000000 * round_double 55) = 8917127262193581 / 9007199254740992
   \<and> round_double (99 / 100) = 4458563631096791 / 4503599627370496"
  by code_simp

section \<open>Properties of the handling of update errors\<close>

subsection \<open>The loop over the roster\<close>

lemma stamp_keeps [simp]:
  "info (stamp cm env t c) = info c"
  "cobj (stamp cm env t c) = cobj c"
  by (simp_all add: stamp_def update_controller_def Let_def)


lemma not_OK [simp]: "r \<noteq> OK \<longleftrightarrow> r = ERROR"
  by (cases r) simp_all





subsection \<open>Finding a controller by name\<close>

lemma find_controller_map:
  assumes "\<And>a. name (info (g a)) = name (info a)"
  shows "find_controller (map g l) n = map_option g (find_controller l n)"
  using assms by (induction l) (auto simp: find_controller_def controller_name_compare_def)


lemma deactivate_controller_name [simp]:
  "name (info (fst (deactivate_controller a rm))) = name (info a)"
  by (auto simp: deactivate_controller_def release_interfaces_def Let_def
      split: sum.splits prod.splits)

lemma activate_controller_name [simp]:
  "name (info (fst (activate_controller a rm))) = name (info a)"
  by (auto simp: activate_controller_def release_interfaces_def Let_def
      split: sum.splits prod.splits option.splits)


lemma deactivate_controller_keeps_inactive:
  assumes "is_controller_inactive (cobj a)"
  shows "deactivate_controller a rm = (a, rm)"
  using assms
  by (auto simp: deactivate_controller_def is_controller_inactive_def is_controller_active_def)



subsection \<open>The lists built after the loop\<close>

lemma set_add_item [simp]: "set (add_item xs x) = insert x (set xs)"
  by (auto simp: add_item_def)

lemma set_foldl_add_item [simp]: "set (foldl add_item xs ys) = set xs \<union> set ys"
  by (induction ys arbitrary: xs) auto







subsection \<open>The block that handles the errors\<close>

lemma perform_hardware_command_mode_change_lists [simp]:
  "deactivate_controllers_list (perform_hardware_command_mode_change l acts deacts rm buf)
     = deactivate_controllers_list buf"
  "fallback_controllers_list (perform_hardware_command_mode_change l acts deacts rm buf)
     = fallback_controllers_list buf"
  by (simp_all add: perform_hardware_command_mode_change_def)



subsection \<open>The roster with the new time stamps\<close>

lemma find_controller_stamp:
  "find_controller (map (stamp cm env t) l) n = map_option (stamp cm env t) (find_controller l n)"
  by (rule find_controller_map) simp

lemma fallbacks_of_stamp [simp]:
  "fallbacks_of (map (stamp cm env t) l) failed = fallbacks_of l failed"
proof -
  have "(case find_controller (map (stamp cm env t) l) n of
           Some found \<Rightarrow> fallback_controllers_names (info found) | None \<Rightarrow> [])
        = (case find_controller l n of
             Some found \<Rightarrow> fallback_controllers_names (info found) | None \<Rightarrow> [])" for n
    by (simp add: find_controller_stamp split: option.splits)
  then show ?thesis
    by (simp add: fallbacks_of_def)
qed

lemma shares_command_interface_stamp [simp]:
  "shares_command_interface (map (stamp cm env t) l) fbs a = shares_command_interface l fbs a"
proof -
  have "(case find_controller (map (stamp cm env t) l) fb of
           None \<Rightarrow> False
         | Some b \<Rightarrow> list_ex (\<lambda>i. i \<in> set (names (command_interface_configuration (cobj a))))
                       (names (command_interface_configuration (cobj b))))
        = (case find_controller l fb of
             None \<Rightarrow> False
           | Some b \<Rightarrow> list_ex (\<lambda>i. i \<in> set (names (command_interface_configuration (cobj a))))
                         (names (command_interface_configuration (cobj b))))" for fb
    by (simp add: find_controller_stamp split: option.splits)
  then show ?thesis
    by (simp add: shares_command_interface_def)
qed

lemma shares_command_interface_stamped [simp]:
  "shares_command_interface l fbs (stamp cm env t a) = shares_command_interface l fbs a"
  by (simp add: shares_command_interface_def cong: option.case_cong)


lemma stamp_counter [simp]:
  "stamp (cm\<lparr>update_loop_counter := k\<rparr>) env t = stamp cm env t"
  by (rule ext) (simp add: stamp_def update_controller_def)

lemma update_controller_counter [simp]:
  "update_controller (cm\<lparr>update_loop_counter := k\<rparr>) env t = update_controller cm env t"
  by (rule ext) (simp add: update_controller_def)





end
